theory Spec2Isabelle
  imports Complex_Main
begin

section \<open>Values, exceptions and dictionaries\<close>

text \<open>
  Exceptions of the Python code are values. \<open>CollaboratorError\<close> stands for whatever an
  external call (storage, database, file system, parser, completion API, speech engine)
  raises; the other constructors are the exceptions the code itself raises.
\<close>

datatype exn =
    DoesNotExist
  | MultipleObjectsReturned
  | Http404
  | ValidationError
  | IndexError
  | KeyError string
  | ValueError string
  | CollaboratorError string

text \<open>
  The values found in request data and in generation options (parsed JSON scalars).
\<close>

datatype pyval = VNone | VBool bool | VInt int | VStr string

text \<open>Python truthiness, as used by \<^verbatim>\<open>if x:\<close> and \<^verbatim>\<open>if not x:\<close>.\<close>

fun truthy :: "pyval \<Rightarrow> bool" where
  "truthy VNone = False"
| "truthy (VBool b) = b"
| "truthy (VInt n) = (n \<noteq> 0)"
| "truthy (VStr s) = (s \<noteq> [])"

text \<open>A dict with string keys is an association list; \<^verbatim>\<open>d.get(k, default)\<close>:\<close>

type_synonym options = "(string \<times> pyval) list"

definition dict_get :: "(string \<times> 'v) list \<Rightarrow> string \<Rightarrow> 'v \<Rightarrow> 'v" where
  "dict_get d k dflt = (case map_of d k of None \<Rightarrow> dflt | Some v \<Rightarrow> v)"

section \<open>Cost accounting (projects/utils.py, calculate\_cost)\<close>

text \<open>
  \<^verbatim>\<open>response.usage\<close>: the two token counts. Prices are Python floats; the model
  computes with exact rationals, so the rounding of IEEE arithmetic is not represented.
  \<^verbatim>\<open>settings.OPENAI_PRICING\<close> is not part of the sources at hand and is a parameter:
  a dict from model name to a dict of named prices.
\<close>

record usage =
  prompt_tokens :: int
  completion_tokens :: int

type_synonym pricing_table = "(string \<times> (string \<times> rat) list) list"

text \<open>
  \<^verbatim>\<open>
  pricing = settings.OPENAI_PRICING.get(model_name)
  if not pricing:
      return 0.0
  cost = (prompt_tokens * pricing['input']) + (completion_tokens * pricing['output'])
  \<close>
  \<^verbatim>\<open>not pricing\<close> holds for a missing entry and for an empty dict; a missing key of
  the entry raises KeyError.
\<close>

definition calculate_cost :: "pricing_table \<Rightarrow> string \<Rightarrow> usage \<Rightarrow> exn + rat" where
  "calculate_cost OPENAI_PRICING model_name u =
     (case map_of OPENAI_PRICING model_name of
        None \<Rightarrow> Inr 0
      | Some pricing \<Rightarrow>
          if pricing = [] then Inr 0
          else (case map_of pricing ''input'' of
                  None \<Rightarrow> Inl (KeyError ''input'')
                | Some pin \<Rightarrow>
                    (case map_of pricing ''output'' of
                       None \<Rightarrow> Inl (KeyError ''output'')
                     | Some pout \<Rightarrow>
                         Inr (of_int (prompt_tokens u) * pin
                              + of_int (completion_tokens u) * pout))))"

text \<open>A sample price table and usage record, for concrete evaluation.\<close>

definition sample_pricing :: pricing_table where
  "sample_pricing =
     [(''gpt-5-nano'', [(''input'', 1 / 20000000), (''output'', 1 / 2500000)]),
      (''dall-e-3'', [(''standard_1024x1024'', 1 / 25)])]"

definition sample_usage :: usage where
  "sample_usage = \<lparr>prompt_tokens = 2000, completion_tokens = 500\<rparr>"

section \<open>Strings and paths\<close>

text \<open>
  File paths, storage keys, URLs and identifiers are \<open>string\<close>s: the code only compares
  them with ASCII literals, which gives the same answer on UTF-8 bytes as on code points.
  Document text is a list of Unicode code points, because \<^verbatim>\<open>str.strip()\<close> removes
  Unicode white space.
\<close>

type_synonym pytext = "nat list"

definition startswith :: "string \<Rightarrow> string \<Rightarrow> bool" where
  "startswith s p = (take (length p) s = p)"

definition endswith :: "string \<Rightarrow> string \<Rightarrow> bool" where
  "endswith s suf = (length suf \<le> length s \<and> drop (length s - length suf) s = suf)"

text \<open>\<^verbatim>\<open>s.split(sep, 1)\<close> for a non-empty separator: one or two pieces.\<close>

fun split_once :: "string \<Rightarrow> string \<Rightarrow> string list" where
  "split_once sep [] = [[]]"
| "split_once sep (c # cs) =
     (if take (length sep) (c # cs) = sep then [[], drop (length sep) (c # cs)]
      else (case split_once sep cs of
              [] \<Rightarrow> []
            | h # t \<Rightarrow> (c # h) # t))"

text \<open>List indexing raises IndexError out of range.\<close>

definition py_index :: "'a list \<Rightarrow> nat \<Rightarrow> exn + 'a" where
  "py_index xs i = (if i < length xs then Inr (xs ! i) else Inl IndexError)"

text \<open>\<^verbatim>\<open>url.split('.com/', 1)[1]\<close>, used for stored URLs and storage keys.\<close>

definition key_of_url :: "string \<Rightarrow> exn + string" where
  "key_of_url url = py_index (split_once ''.com/'' url) 1"

definition basename :: "string \<Rightarrow> string" where
  "basename p = rev (takeWhile (\<lambda>c. c \<noteq> CHR ''/'') (rev p))"

definition path_join :: "string \<Rightarrow> string \<Rightarrow> string" where
  "path_join a b =
     (if b \<noteq> [] \<and> hd b = CHR ''/'' then b
      else if a = [] \<or> last a = CHR ''/'' then a @ b
      else a @ ''/'' @ b)"

text \<open>Decimal rendering of a non-negative integer, as an f-string renders an id.\<close>

definition digit_char :: "nat \<Rightarrow> char" where
  "digit_char d = ''0123456789'' ! d"

fun str_nat :: "nat \<Rightarrow> string" where
  "str_nat n = (if n < 10 then [digit_char n] else str_nat (n div 10) @ [digit_char (n mod 10)])"

text \<open>White space in the sense of \<^verbatim>\<open>str.isspace\<close>, and \<^verbatim>\<open>str.strip()\<close>.\<close>

definition is_space :: "nat \<Rightarrow> bool" where
  "is_space c =
     ((9 \<le> c \<and> c \<le> 13) \<or> (28 \<le> c \<and> c \<le> 32) \<or> c = 133 \<or> c = 160 \<or> c = 5760
      \<or> (8192 \<le> c \<and> c \<le> 8202) \<or> c = 8232 \<or> c = 8233 \<or> c = 8239 \<or> c = 8287
      \<or> c = 12288)"

definition py_strip :: "pytext \<Rightarrow> pytext" where
  "py_strip t = rev (dropWhile is_space (rev (dropWhile is_space t)))"

definition text_of :: "string \<Rightarrow> pytext" where
  "text_of s = map of_char s"

section \<open>Collaborators\<close>

text \<open>
  Every call into a collaborator is an \<open>io\<close> operation. The environment says, for each
  operation, whether it raises (\<open>fails\<close>) and, for the operations that return data, what
  they return. Each function that performs operations returns, next to its result, the
  list of the operations it attempted, in order.

  Prompts are kept as the values the f-strings interpolate, not as the rendered text.
\<close>

datatype prompt =
    SlidesPrompt pyval pytext
  | FlashcardsPrompt pyval pyval pyval pytext
  | McqPrompt pyval pyval pyval pytext

datatype task_status = PENDING | SUCCESS | FAILURE

record generated_content =
  row_id :: nat
  project :: nat
  content_type :: string
  s3_url :: "string option"
  task_id :: "string option"
  task_status :: task_status

datatype io =
    S3Client
  | S3DeleteObject string
  | S3DownloadFile string string
  | S3UploadFile string string
  | Makedirs string
  | Remove string
  | ReadPdf string
  | ReadDocx string
  | ReadTxt string
  | ChatCompletion prompt
  | JsonLoads string
  | BuildPresentation string bool
  | WriteJson string string
  | Synthesize pyval string string
  | DbContentGet nat
  | DbProjectGet nat
  | DbProfileGetOrCreate nat
  | DbProfileSave nat rat
  | DbContentUpdateOrCreate nat string
  | DbContentSave generated_content
  | Delay nat options
  | DelayAudio nat options

record completion =
  content :: string
  usage_of :: usage

record env =
  fails :: "io \<Rightarrow> exn option"
  path_exists :: "string \<Rightarrow> bool"
  pdf_pages :: "string \<Rightarrow> pytext option list"
  docx_paragraphs :: "string \<Rightarrow> pytext list"
  txt_contents :: "string \<Rightarrow> pytext"
  chat_completion :: "prompt \<Rightarrow> completion"
  image_costs :: "string \<Rightarrow> rat"
  new_task_id :: "io list \<Rightarrow> string"
  quantize :: "rat \<Rightarrow> int"
  to_int :: "pyval \<Rightarrow> int option"
  to_bool :: "pyval \<Rightarrow> bool option"
  to_text :: "pyval \<Rightarrow> string option"
  OPENAI_PRICING :: pricing_table
  AWS_STORAGE_BUCKET_NAME :: string

type_synonym 'a io_result = "(exn + 'a) \<times> io list"

text \<open>
  Attempting an operation, returning a value, raising, and sequencing: the second step
  runs only if the first did not raise, and the operations of both are kept in order.
\<close>

definition call :: "env \<Rightarrow> io \<Rightarrow> unit io_result" where
  "call e op = ((case fails e op of Some x \<Rightarrow> Inl x | None \<Rightarrow> Inr ()), [op])"

definition ret :: "'a \<Rightarrow> 'a io_result" where
  "ret v = (Inr v, [])"

definition lift :: "exn + 'a \<Rightarrow> 'a io_result" where
  "lift r = (r, [])"

definition and_then :: "'a io_result \<Rightarrow> ('a \<Rightarrow> 'b io_result) \<Rightarrow> 'b io_result" where
  "and_then m f =
     (case m of
        (Inl x, ops) \<Rightarrow> (Inl x, ops)
      | (Inr v, ops) \<Rightarrow> (case f v of (r, ops') \<Rightarrow> (r, ops @ ops')))"

section \<open>Text extraction (projects/utils.py, extract\_text\_from\_file)\<close>

text \<open>
  \<^verbatim>\<open>
  text = ""
  try:
      if file_path.endswith('.pdf'):    ... text += page.extract_text() or ""
      elif file_path.endswith('.docx'): ... text += para.text + "\n"
      elif file_path.endswith('.txt'):  ... text = f.read()
  finally:
      if os.path.exists(file_path):
          os.remove(file_path)
  return text
  \<close>
  There is no \<^verbatim>\<open>except\<close> clause: what a parser raises leaves the function, after the
  \<^verbatim>\<open>finally\<close> block has run; what the \<^verbatim>\<open>finally\<close> block raises leaves it too.
\<close>

definition extract_body :: "env \<Rightarrow> string \<Rightarrow> pytext io_result" where
  "extract_body e file_path =
     (if endswith file_path ''.pdf'' then
        and_then (call e (ReadPdf file_path))
          (\<lambda>_. ret (concat (map (\<lambda>p. case p of None \<Rightarrow> [] | Some t \<Rightarrow> t)
                                (pdf_pages e file_path))))
      else if endswith file_path ''.docx'' then
        and_then (call e (ReadDocx file_path))
          (\<lambda>_. ret (concat (map (\<lambda>t. t @ [10]) (docx_paragraphs e file_path))))
      else if endswith file_path ''.txt'' then
        and_then (call e (ReadTxt file_path)) (\<lambda>_. ret (txt_contents e file_path))
      else ret [])"

definition remove_if_exists :: "env \<Rightarrow> string \<Rightarrow> unit io_result" where
  "remove_if_exists e p = (if path_exists e p then call e (Remove p) else ret ())"

definition extract_text_from_file :: "env \<Rightarrow> string \<Rightarrow> pytext io_result" where
  "extract_text_from_file e file_path =
     (case extract_body e file_path of
        (r, ops) \<Rightarrow>
          (case remove_if_exists e file_path of
             (Inl x, ops') \<Rightarrow> (Inl x, ops @ ops')
           | (Inr _, ops') \<Rightarrow> (r, ops @ ops')))"

section \<open>Source download (projects/utils.py, download\_file\_from\_s3)\<close>

definition download_file_from_s3 :: "env \<Rightarrow> string \<Rightarrow> string io_result" where
  "download_file_from_s3 e s3_key0 =
     and_then (lift (if startswith s3_key0 ''http'' then key_of_url s3_key0 else Inr s3_key0))
       (\<lambda>s3_key.
          and_then (call e S3Client)
            (\<lambda>_. and_then (call e (Makedirs ''/tmp/downloads/''))
               (\<lambda>_. let local_path = path_join ''/tmp/downloads/'' (basename s3_key)
                     in and_then (call e (S3DownloadFile s3_key local_path))
                          (\<lambda>_. ret local_path))))"

section \<open>Content generation (projects/utils.py)\<close>

text \<open>
  Each routine reads its options with \<^verbatim>\<open>options.get(key, default)\<close>, builds the prompt
  from the first 8000 characters of the text, calls the completion API, parses the reply
  (\<^verbatim>\<open>json.loads\<close>), computes the cost, writes the artifact and returns its path with
  the cost. Parsing the reply and building or writing the artifact are collaborator steps.
\<close>

definition generate_ppt_from_text :: "env \<Rightarrow> pytext \<Rightarrow> options \<Rightarrow> (string \<times> rat) io_result" where
  "generate_ppt_from_text e text_content opts =
     (let slide_count = dict_get opts ''slide_count'' (VInt 8);
          include_images = dict_get opts ''include_images'' (VBool False);
          prompt = SlidesPrompt slide_count (take 8000 text_content)
      in and_then (call e (ChatCompletion prompt))
           (\<lambda>_. let response = chat_completion e prompt
                 in and_then (call e (JsonLoads (content response)))
                      (\<lambda>_. and_then
                              (lift (calculate_cost (OPENAI_PRICING e) ''gpt-5-nano''
                                       (usage_of response)))
                              (\<lambda>text_cost.
                                 and_then
                                   (call e (BuildPresentation (content response)
                                              (truthy include_images)))
                                   (\<lambda>_. ret (''/tmp/presentations/presentation.pptx'',
                                              text_cost
                                              + (if truthy include_images
                                                 then image_costs e (content response)
                                                 else 0)))))))"

text \<open>The two routines that write the parsed reply to a JSON file share their tail.\<close>

definition generate_json_artifact ::
  "env \<Rightarrow> prompt \<Rightarrow> string \<Rightarrow> string \<Rightarrow> (string \<times> rat) io_result" where
  "generate_json_artifact e prompt temp_dir file_name =
     and_then (call e (ChatCompletion prompt))
       (\<lambda>_. let response = chat_completion e prompt
             in and_then (call e (JsonLoads (content response)))
                  (\<lambda>_. and_then
                          (lift (calculate_cost (OPENAI_PRICING e) ''gpt-5-nano''
                                   (usage_of response)))
                          (\<lambda>total_cost.
                             and_then (call e (Makedirs temp_dir))
                               (\<lambda>_. let output_path = path_join temp_dir file_name
                                     in and_then
                                          (call e (WriteJson output_path (content response)))
                                          (\<lambda>_. ret (output_path, total_cost))))))"

definition generate_flashcards_from_text ::
  "env \<Rightarrow> pytext \<Rightarrow> options \<Rightarrow> (string \<times> rat) io_result" where
  "generate_flashcards_from_text e text_content opts =
     (let card_count = dict_get opts ''cards_count'' (VInt 20);
          card_type = dict_get opts ''card_type'' (VStr ''qa'');
          difficulty = dict_get opts ''difficulty'' (VStr ''mixed'')
      in generate_json_artifact e
           (FlashcardsPrompt card_count card_type difficulty (take 8000 text_content))
           ''/tmp/flashcards/'' ''flashcards.json'')"

definition generate_mcqs_from_text ::
  "env \<Rightarrow> pytext \<Rightarrow> options \<Rightarrow> (string \<times> rat) io_result" where
  "generate_mcqs_from_text e text_content opts =
     (let questions_count = dict_get opts ''questions_count'' (VInt 15);
          questions_type = dict_get opts ''questions_type'' (VStr ''single_correct'');
          difficulty = dict_get opts ''difficulty'' (VStr ''mixed'')
      in generate_json_artifact e
           (McqPrompt questions_count questions_type difficulty (take 8000 text_content))
           ''/tmp/mcqs/'' ''mcqs.json'')"

section \<open>Podcast voices (projects/utils.py, generate\_podcast\_audio\_from\_script)\<close>

text \<open>
  The dict literal of the routine, in its order. Its keys are tuples of three strings; the
  tuple that is looked up holds whatever values the options hold, so the keys are written
  as values.
\<close>

definition voice_map :: "((pyval \<times> pyval \<times> pyval) \<times> string) list" where
  "voice_map =
    [((VStr ''american'', VStr ''female'', VStr ''neutral''), ''en-US-AriaNeural''),
     ((VStr ''american'', VStr ''female'', VStr ''enthusiastic''), ''en-US-JennyNeural''),
     ((VStr ''american'', VStr ''female'', VStr ''formal''), ''en-US-SaraNeural''),
     ((VStr ''american'', VStr ''female'', VStr ''conversational''), ''en-US-AriaNeural''),
     ((VStr ''american'', VStr ''male'', VStr ''neutral''), ''en-US-GuyNeural''),
     ((VStr ''american'', VStr ''male'', VStr ''enthusiastic''), ''en-US-BrianNeural''),
     ((VStr ''american'', VStr ''male'', VStr ''formal''), ''en-US-DavisNeural''),
     ((VStr ''american'', VStr ''male'', VStr ''conversational''), ''en-US-GuyNeural''),
     ((VStr ''british'', VStr ''female'', VStr ''neutral''), ''en-GB-SoniaNeural''),
     ((VStr ''british'', VStr ''female'', VStr ''enthusiastic''), ''en-GB-LibbyNeural''),
     ((VStr ''british'', VStr ''female'', VStr ''formal''), ''en-GB-SoniaNeural''),
     ((VStr ''british'', VStr ''female'', VStr ''conversational''), ''en-GB-MaisieNeural''),
     ((VStr ''british'', VStr ''male'', VStr ''neutral''), ''en-GB-RyanNeural''),
     ((VStr ''british'', VStr ''male'', VStr ''enthusiastic''), ''en-GB-ThomasNeural''),
     ((VStr ''british'', VStr ''male'', VStr ''formal''), ''en-GB-RyanNeural''),
     ((VStr ''british'', VStr ''male'', VStr ''conversational''), ''en-GB-AlfieNeural''),
     ((VStr ''indian'', VStr ''female'', VStr ''neutral''), ''en-IN-NeerjaNeural''),
     ((VStr ''indian'', VStr ''female'', VStr ''enthusiastic''), ''en-IN-NeerjaNeural''),
     ((VStr ''indian'', VStr ''female'', VStr ''formal''), ''en-IN-NeerjaNeural''),
     ((VStr ''indian'', VStr ''female'', VStr ''conversational''), ''en-IN-NeerjaNeural''),
     ((VStr ''indian'', VStr ''male'', VStr ''neutral''), ''en-IN-PrabhatNeural''),
     ((VStr ''indian'', VStr ''male'', VStr ''enthusiastic''), ''en-IN-PrabhatNeural''),
     ((VStr ''indian'', VStr ''male'', VStr ''formal''), ''en-IN-PrabhatNeural''),
     ((VStr ''indian'', VStr ''male'', VStr ''conversational''), ''en-IN-PrabhatNeural''),
     ((VStr ''australian'', VStr ''female'', VStr ''neutral''), ''en-AU-NatashaNeural''),
     ((VStr ''australian'', VStr ''female'', VStr ''enthusiastic''), ''en-AU-NatashaNeural''),
     ((VStr ''australian'', VStr ''female'', VStr ''formal''), ''en-AU-NatashaNeural''),
     ((VStr ''australian'', VStr ''female'', VStr ''conversational''), ''en-AU-NatashaNeural''),
     ((VStr ''australian'', VStr ''male'', VStr ''neutral''), ''en-AU-WilliamNeural''),
     ((VStr ''australian'', VStr ''male'', VStr ''enthusiastic''), ''en-AU-WilliamNeural''),
     ((VStr ''australian'', VStr ''male'', VStr ''formal''), ''en-AU-WilliamNeural''),
     ((VStr ''australian'', VStr ''male'', VStr ''conversational''), ''en-AU-WilliamNeural''),
     ((VStr ''canadian'', VStr ''female'', VStr ''neutral''), ''en-CA-ClaraNeural''),
     ((VStr ''canadian'', VStr ''female'', VStr ''enthusiastic''), ''en-CA-ClaraNeural''),
     ((VStr ''canadian'', VStr ''female'', VStr ''formal''), ''en-CA-ClaraNeural''),
     ((VStr ''canadian'', VStr ''female'', VStr ''conversational''), ''en-CA-ClaraNeural''),
     ((VStr ''canadian'', VStr ''male'', VStr ''neutral''), ''en-CA-LiamNeural''),
     ((VStr ''canadian'', VStr ''male'', VStr ''enthusiastic''), ''en-CA-LiamNeural''),
     ((VStr ''canadian'', VStr ''male'', VStr ''formal''), ''en-CA-LiamNeural''),
     ((VStr ''canadian'', VStr ''male'', VStr ''conversational''), ''en-CA-LiamNeural'')]"

text \<open>
  \<^verbatim>\<open>voice_name = voice_map.get((voice_accent, voice_gender, voice_style), "en-US-AriaNeural")\<close>
  on the three options, each read with its default.
\<close>

definition voice_name :: "options \<Rightarrow> string" where
  "voice_name opts =
     (let voice_style = dict_get opts ''voice_style'' (VStr ''neutral'');
          voice_gender = dict_get opts ''voice_gender'' (VStr ''female'');
          voice_accent = dict_get opts ''voice_accent'' (VStr ''american'')
      in case map_of voice_map (voice_accent, voice_gender, voice_style) of
           None \<Rightarrow> ''en-US-AriaNeural''
         | Some v \<Rightarrow> v)"

definition generate_podcast_audio_from_script :: "env \<Rightarrow> pyval \<Rightarrow> options \<Rightarrow> string io_result" where
  "generate_podcast_audio_from_script e script_data opts =
     and_then (call e (Makedirs ''/tmp/podcasts/''))
       (\<lambda>_. let output_path = path_join ''/tmp/podcasts/'' ''podcast.mp3''
             in and_then (call e (Synthesize script_data output_path (voice_name opts)))
                  (\<lambda>_. ret output_path))"

section \<open>Request validation (projects/serializers.py)\<close>

text \<open>
  A serializer reads its declared fields from the request data and returns the validated
  data: exactly the declared fields, under their declared names; a missing field takes
  its default, and a null or invalid value is a validation error. The coercions of the
  framework's integer, boolean and character fields are parameters of the environment.
\<close>

definition choice_field :: "string list \<Rightarrow> string option \<Rightarrow> pyval option \<Rightarrow> exn + pyval" where
  "choice_field choices dflt v =
     (case v of
        None \<Rightarrow> (case dflt of None \<Rightarrow> Inl ValidationError | Some d \<Rightarrow> Inr (VStr d))
      | Some (VStr s) \<Rightarrow> if s \<in> set choices then Inr (VStr s) else Inl ValidationError
      | Some _ \<Rightarrow> Inl ValidationError)"

definition integer_field :: "env \<Rightarrow> int \<Rightarrow> int \<Rightarrow> int \<Rightarrow> pyval option \<Rightarrow> exn + pyval" where
  "integer_field e min_value max_value dflt v =
     (case v of
        None \<Rightarrow> Inr (VInt dflt)
      | Some VNone \<Rightarrow> Inl ValidationError
      | Some x \<Rightarrow>
          (case to_int e x of
             None \<Rightarrow> Inl ValidationError
           | Some n \<Rightarrow>
               if min_value \<le> n \<and> n \<le> max_value then Inr (VInt n) else Inl ValidationError))"

definition boolean_field :: "env \<Rightarrow> bool \<Rightarrow> pyval option \<Rightarrow> exn + pyval" where
  "boolean_field e dflt v =
     (case v of
        None \<Rightarrow> Inr (VBool dflt)
      | Some VNone \<Rightarrow> Inl ValidationError
      | Some x \<Rightarrow> (case to_bool e x of None \<Rightarrow> Inl ValidationError | Some b \<Rightarrow> Inr (VBool b)))"

text \<open>Validated data of three fields, or the first field's error.\<close>

definition validated3 ::
  "string \<Rightarrow> exn + pyval \<Rightarrow> string \<Rightarrow> exn + pyval \<Rightarrow> string \<Rightarrow> exn + pyval \<Rightarrow> exn + options" where
  "validated3 k1 r1 k2 r2 k3 r3 =
     (case r1 of Inl x \<Rightarrow> Inl x | Inr v1 \<Rightarrow>
      (case r2 of Inl x \<Rightarrow> Inl x | Inr v2 \<Rightarrow>
       (case r3 of Inl x \<Rightarrow> Inl x | Inr v3 \<Rightarrow> Inr [(k1, v1), (k2, v2), (k3, v3)])))"

definition PresentationGenerateSerializer :: "env \<Rightarrow> options \<Rightarrow> exn + options" where
  "PresentationGenerateSerializer e data =
     validated3
       ''content_type'' (choice_field [''PPT''] None (map_of data ''content_type''))
       ''slides_count'' (integer_field e 3 20 10 (map_of data ''slides_count''))
       ''include_images'' (boolean_field e False (map_of data ''include_images''))"

definition difficulty_choices :: "string list" where
  "difficulty_choices = [''easy'', ''medium'', ''hard'', ''mixed'']"

definition FlashcardGenerateSerializer :: "env \<Rightarrow> options \<Rightarrow> exn + options" where
  "FlashcardGenerateSerializer e data =
     (case choice_field [''FLASH''] None (map_of data ''content_type'') of
        Inl x \<Rightarrow> Inl x
      | Inr ct \<Rightarrow>
          (case validated3
                  ''cards_count'' (integer_field e 5 50 20 (map_of data ''cards_count''))
                  ''card_type'' (choice_field [''qa'', ''true_false'', ''fill_blank''] (Some ''qa'')
                                   (map_of data ''card_type''))
                  ''difficulty'' (choice_field difficulty_choices (Some ''mixed'')
                                    (map_of data ''difficulty'')) of
             Inl x \<Rightarrow> Inl x
           | Inr rest \<Rightarrow> Inr ((''content_type'', ct) # rest)))"

definition MCQGenerateSerializer :: "env \<Rightarrow> options \<Rightarrow> exn + options" where
  "MCQGenerateSerializer e data =
     (case choice_field [''MCQ''] None (map_of data ''content_type'') of
        Inl x \<Rightarrow> Inl x
      | Inr ct \<Rightarrow>
          (case validated3
                  ''questions_count'' (integer_field e 5 30 15 (map_of data ''questions_count''))
                  ''questions_type''
                    (choice_field [''single_correct'', ''multiple_correct'', ''true_false'']
                       (Some ''single_correct'') (map_of data ''questions_type''))
                  ''difficulty'' (choice_field difficulty_choices (Some ''mixed'')
                                    (map_of data ''difficulty'')) of
             Inl x \<Rightarrow> Inl x
           | Inr rest \<Rightarrow> Inr ((''content_type'', ct) # rest)))"

definition PodcastGenerateSerializer :: "env \<Rightarrow> options \<Rightarrow> exn + options" where
  "PodcastGenerateSerializer e data =
     (case validated3
             ''content_type'' (choice_field [''POD''] None (map_of data ''content_type''))
             ''podcast_length'' (choice_field [''quick'', ''medium'', ''comprehensive'']
                                   (Some ''medium'') (map_of data ''podcast_length''))
             ''content_focus'' (choice_field [''full_document'', ''key_concepts'', ''summary'']
                                  (Some ''full_document'') (map_of data ''content_focus'')) of
        Inl x \<Rightarrow> Inl x
      | Inr first \<Rightarrow>
          (case validated3
                  ''voice_style'' (choice_field
                                     [''neutral'', ''enthusiastic'', ''formal'', ''conversational'']
                                     (Some ''neutral'') (map_of data ''voice_style''))
                  ''voice_gender'' (choice_field [''male'', ''female''] (Some ''female'')
                                      (map_of data ''voice_gender''))
                  ''voice_accent'' (choice_field
                                      [''american'', ''british'', ''indian'', ''australian'',
                                       ''canadian'']
                                      (Some ''american'') (map_of data ''voice_accent'')) of
             Inl x \<Rightarrow> Inl x
           | Inr rest \<Rightarrow> Inr (first @ rest)))"

definition char_field :: "env \<Rightarrow> pyval option \<Rightarrow> exn + pyval" where
  "char_field e v =
     (case v of
        None \<Rightarrow> Inl ValidationError
      | Some VNone \<Rightarrow> Inl ValidationError
      | Some x \<Rightarrow> (case to_text e x of None \<Rightarrow> Inl ValidationError | Some s \<Rightarrow> Inr (VStr s)))"

text \<open>
  The audio serializer inherits \<open>content_type\<close> from the base serializer, with all four
  kinds as choices.
\<close>

definition PodcastAudioGenerateSerializer :: "env \<Rightarrow> options \<Rightarrow> exn + options" where
  "PodcastAudioGenerateSerializer e data =
     (case choice_field [''PPT'', ''FLASH'', ''MCQ'', ''POD''] None (map_of data ''content_type'') of
        Inl x \<Rightarrow> Inl x
      | Inr ct \<Rightarrow>
          (case char_field e (map_of data ''script_text'') of
             Inl x \<Rightarrow> Inl x
           | Inr script \<Rightarrow>
               (case validated3
                       ''voice_style'' (choice_field
                                          [''neutral'', ''enthusiastic'', ''formal'', ''conversational'']
                                          (Some ''neutral'') (map_of data ''voice_style''))
                       ''voice_gender'' (choice_field [''male'', ''female''] (Some ''female'')
                                           (map_of data ''voice_gender''))
                       ''voice_accent'' (choice_field
                                           [''american'', ''british'', ''indian'', ''australian'',
                                            ''canadian'']
                                           (Some ''american'') (map_of data ''voice_accent'')) of
                  Inl x \<Rightarrow> Inl x
                | Inr rest \<Rightarrow> Inr ((''content_type'', ct) # (''script_text'', script) # rest))))"

section \<open>Stored records (projects/models.py, users/models.py)\<close>

text \<open>
  The content rows are declared above (with the operations that carry them). A token
  balance is a \<^verbatim>\<open>DecimalField(max_digits=10, decimal_places=4)\<close>: a whole number of
  ten-thousandths, so \<open>token_balance = 50000\<close> is the default 5.00. Python compares a
  Decimal with the float literal \<^verbatim>\<open>0.09\<close> exactly; on four-place decimals that is
  the comparison with 900 ten-thousandths (lemma \<open>threshold_on_decimals\<close> below).
\<close>

record project_row =
  project_id :: nat
  user :: nat
  s3_file_key :: string

record user_profile =
  profile_user :: nat
  token_balance :: int

record world =
  contents :: "generated_content list"
  projects :: "project_row list"
  profiles :: "user_profile list"
  trace_of :: "io list"

text \<open>The value of the float literal \<^verbatim>\<open>0.09\<close>, the nearest double to 9/100.\<close>

definition float_0_09 :: rat where
  "float_0_09 = 6485183463413514 / 2 ^ 56"

definition PRESENTATION :: string where "PRESENTATION = ''PPT''"
definition FLASHCARDS :: string where "FLASHCARDS = ''FLASH''"
definition MCQ_SET :: string where "MCQ_SET = ''MCQ''"
definition PODCAST :: string where "PODCAST = ''POD''"

text \<open>\<^verbatim>\<open>Model.objects.get(...)\<close>: exactly one row, or an exception.\<close>

definition objects_get :: "('a \<Rightarrow> bool) \<Rightarrow> 'a list \<Rightarrow> exn + 'a" where
  "objects_get P rows =
     (case filter P rows of
        [] \<Rightarrow> Inl DoesNotExist
      | [r] \<Rightarrow> Inr r
      | _ # _ # _ \<Rightarrow> Inl MultipleObjectsReturned)"

text \<open>\<^verbatim>\<open>row.save()\<close> on a row with a primary key: update it, or insert it if absent.\<close>

definition save_content :: "generated_content \<Rightarrow> generated_content list \<Rightarrow> generated_content list" where
  "save_content r rows =
     (if row_id r \<in> row_id ` set rows
      then map (\<lambda>x. if row_id x = row_id r then r else x) rows
      else rows @ [r])"

definition fresh_id :: "generated_content list \<Rightarrow> nat" where
  "fresh_id rows = Suc (fold max (map row_id rows) 0)"

text \<open>
  The rows with a given primary key, the rows of a (project, kind) pair, and the
  constraints of the table: the primary key and \<^verbatim>\<open>unique_together = ('project',
  'content_type')\<close>.
\<close>

definition row_with :: "nat \<Rightarrow> generated_content list \<Rightarrow> generated_content list" where
  "row_with i rows = filter (\<lambda>r. row_id r = i) rows"

definition rows_of_kind :: "nat \<Rightarrow> string \<Rightarrow> generated_content list \<Rightarrow> generated_content list" where
  "rows_of_kind p k rows = filter (\<lambda>r. project r = p \<and> content_type r = k) rows"

definition unique_together :: "generated_content list \<Rightarrow> bool" where
  "unique_together rows = distinct (map (\<lambda>r. (project r, content_type r)) rows)"

definition primary_key :: "generated_content list \<Rightarrow> bool" where
  "primary_key rows = distinct (map row_id rows)"

text \<open>A row object that stands for the same stored row: same key, project and kind.\<close>

definition same_row :: "generated_content \<Rightarrow> generated_content \<Rightarrow> bool" where
  "same_row r r0 =
     (row_id r = row_id r0 \<and> project r = project r0 \<and> content_type r = content_type r0)"

definition table_ok :: "generated_content list \<Rightarrow> bool" where
  "table_ok rows = (unique_together rows \<and> primary_key rows)"

text \<open>\<^verbatim>\<open>UserProfile.objects.get_or_create(user=user)\<close>.\<close>

definition profile_get_or_create ::
  "env \<Rightarrow> nat \<Rightarrow> user_profile list \<Rightarrow> (user_profile \<times> bool) io_result \<times> user_profile list" where
  "profile_get_or_create e u ps =
     (case call e (DbProfileGetOrCreate u) of
        (Inl x, ops) \<Rightarrow> ((Inl x, ops), ps)
      | (Inr _, ops) \<Rightarrow>
          (case filter (\<lambda>p. profile_user p = u) ps of
             [] \<Rightarrow> (let p = \<lparr>profile_user = u, token_balance = 50000\<rparr>
                    in ((Inr (p, True), ops), ps @ [p]))
           | [p] \<Rightarrow> ((Inr (p, False), ops), ps)
           | _ # _ # _ \<Rightarrow> ((Inl MultipleObjectsReturned, ops), ps)))"

text \<open>
  \<^verbatim>\<open>user_profile.token_balance = F('token_balance') - total_cost; user_profile.save()\<close>:
  the database subtracts and stores the result at four decimal places (\<open>quantize\<close>).
\<close>

definition settle_cost ::
  "env \<Rightarrow> nat \<Rightarrow> rat \<Rightarrow> user_profile list \<Rightarrow> unit io_result \<times> user_profile list" where
  "settle_cost e u total_cost ps =
     (case call e (DbProfileSave u total_cost) of
        (Inl x, ops) \<Rightarrow> ((Inl x, ops), ps)
      | (Inr _, ops) \<Rightarrow>
          ((Inr (), ops),
           map (\<lambda>p. if profile_user p = u
                     then p\<lparr>token_balance :=
                              quantize e (of_int (token_balance p) / 10000 - total_cost)\<rparr>
                     else p) ps))"

section \<open>The generation job (projects/tasks.py, generate\_content\_task)\<close>

text \<open>
  Lines 20--36: the old artifact is deleted if the row has a URL; whatever this raises
  is caught and printed. The result is the list of operations attempted.
\<close>

definition cleanup_prior :: "env \<Rightarrow> generated_content \<Rightarrow> io list" where
  "cleanup_prior e content_record =
     (case s3_url content_record of
        None \<Rightarrow> []
      | Some url \<Rightarrow>
          if url = [] then []
          else snd (and_then (lift (key_of_url url))
                      (\<lambda>old_s3_key.
                         and_then (call e S3Client) (\<lambda>_. call e (S3DeleteObject old_s3_key)))))"

text \<open>Lines 54--70: the dispatch on the content kind; there is no branch for podcasts.\<close>

definition dispatch_generation ::
  "env \<Rightarrow> string \<Rightarrow> pytext \<Rightarrow> options \<Rightarrow> (string option \<times> rat) io_result" where
  "dispatch_generation e ct text_content opts =
     (if ct = PRESENTATION then
        and_then (generate_ppt_from_text e text_content opts) (\<lambda>(p, c). ret (Some p, c))
      else if ct = FLASHCARDS then
        and_then (generate_flashcards_from_text e text_content opts) (\<lambda>(p, c). ret (Some p, c))
      else if ct = MCQ_SET then
        and_then (generate_mcqs_from_text e text_content opts) (\<lambda>(p, c). ret (Some p, c))
      else ret (None, 0))"

text \<open>
  Lines 44--70: download, extraction, the empty-text check and generation. The result is
  \<^verbatim>\<open>final_file_path\<close> (possibly unset) and \<^verbatim>\<open>total_cost\<close>.
\<close>

definition produce ::
  "env \<Rightarrow> generated_content \<Rightarrow> project_row \<Rightarrow> options \<Rightarrow> (string option \<times> rat) io_result" where
  "produce e content_record proj opts =
     and_then (download_file_from_s3 e (s3_file_key proj))
       (\<lambda>local_file_path.
          and_then (extract_text_from_file e local_file_path)
            (\<lambda>text_content.
               if py_strip text_content = []
               then lift (Inl (ValueError ''Extracted text is empty. Cannot generate content.''))
               else dispatch_generation e (content_type content_record) text_content opts))"

text \<open>Lines 72--74: the cost is settled only if it is positive.\<close>

definition settle_if_positive ::
  "env \<Rightarrow> nat \<Rightarrow> rat \<Rightarrow> user_profile list \<Rightarrow> unit io_result \<times> user_profile list" where
  "settle_if_positive e u total_cost ps =
     (if total_cost > 0 then settle_cost e u total_cost ps else (ret (), ps))"

text \<open>
  Lines 77--86: the missing-artifact check, then the upload under the key derived from
  the two ids, and the public URL.
\<close>

definition generated_s3_key :: "project_row \<Rightarrow> generated_content \<Rightarrow> string \<Rightarrow> string" where
  "generated_s3_key proj content_record final_file_path =
     ''generated/'' @ str_nat (project_id proj) @ ''/'' @ str_nat (row_id content_record)
       @ ''_'' @ basename final_file_path"

definition public_url :: "env \<Rightarrow> string \<Rightarrow> string" where
  "public_url e key = ''https://'' @ AWS_STORAGE_BUCKET_NAME e @ ''.s3.amazonaws.com/'' @ key"

definition deliver ::
  "env \<Rightarrow> project_row \<Rightarrow> generated_content \<Rightarrow> string option \<Rightarrow> (string \<times> string) io_result" where
  "deliver e proj content_record final_file_path =
     (case final_file_path of
        None \<Rightarrow> lift (Inl (ValueError ''Content generation failed.''))
      | Some path \<Rightarrow>
          if path = [] then lift (Inl (ValueError ''Content generation failed.''))
          else and_then (call e S3Client)
                 (\<lambda>_. let key = generated_s3_key proj content_record path
                       in and_then (call e (S3UploadFile path key))
                            (\<lambda>_. ret (path, public_url e key))))"

text \<open>
  Lines 44--86 of the \<^verbatim>\<open>try\<close> block, in order. The result is the path of the
  generated file and its public URL; the profile table is returned as settled.
\<close>

definition pipeline ::
  "env \<Rightarrow> generated_content \<Rightarrow> project_row \<Rightarrow> options \<Rightarrow> user_profile list
     \<Rightarrow> (string \<times> string) io_result \<times> user_profile list" where
  "pipeline e content_record proj opts ps =
     (case produce e content_record proj opts of
        (Inl x, ops) \<Rightarrow> ((Inl x, ops), ps)
      | (Inr (final_file_path, total_cost), ops) \<Rightarrow>
          (case settle_if_positive e (user proj) total_cost ps of
             ((Inl x, ops1), ps') \<Rightarrow> ((Inl x, ops @ ops1), ps')
           | ((Inr _, ops1), ps') \<Rightarrow>
               (case deliver e proj content_record final_file_path of
                  (r, ops2) \<Rightarrow> ((r, ops @ ops1 @ ops2), ps'))))"

text \<open>
  Lines 87--95: the row object takes the URL and the status SUCCESS and is saved; the
  generated file is removed. The in-memory row object is returned as well, because the
  exception handler saves that object.
\<close>

definition finish ::
  "env \<Rightarrow> generated_content \<Rightarrow> string \<Rightarrow> string \<Rightarrow> generated_content list
     \<Rightarrow> string io_result \<times> generated_content \<times> generated_content list" where
  "finish e content_record final_file_path url rows =
     (let content_record' = content_record\<lparr>s3_url := Some url, task_status := SUCCESS\<rparr>
      in case call e (DbContentSave content_record') of
           (Inl x, ops) \<Rightarrow> ((Inl x, ops), content_record', rows)
         | (Inr _, ops) \<Rightarrow>
             (let rows' = save_content content_record' rows
              in case remove_if_exists e final_file_path of
                   (Inl x, ops') \<Rightarrow> ((Inl x, ops @ ops'), content_record', rows')
                 | (Inr _, ops') \<Rightarrow>
                     ((Inr ''Task Completed Successfully'', ops @ ops'), content_record', rows')))"

text \<open>Lines 97--101: the handler sets FAILURE on the row object, saves it and re-raises.\<close>

definition on_exception ::
  "env \<Rightarrow> exn \<Rightarrow> generated_content \<Rightarrow> generated_content list
     \<Rightarrow> string io_result \<times> generated_content list" where
  "on_exception e x content_record rows =
     (let content_record' = content_record\<lparr>task_status := FAILURE\<rparr>
      in case call e (DbContentSave content_record') of
           (Inl y, ops) \<Rightarrow> ((Inl y, ops), rows)
         | (Inr _, ops) \<Rightarrow> ((Inl x, ops), save_content content_record' rows))"

text \<open>The \<^verbatim>\<open>try\<close> statement of lines 43--101.\<close>

definition try_block ::
  "env \<Rightarrow> generated_content \<Rightarrow> project_row \<Rightarrow> options \<Rightarrow> world \<Rightarrow> (exn + string) \<times> world" where
  "try_block e content_record proj opts w =
     (case pipeline e content_record proj opts (profiles w) of
        ((Inl x, ops), ps) \<Rightarrow>
          (case on_exception e x content_record (contents w) of
             ((r, ops'), rows) \<Rightarrow>
               (r, w\<lparr>contents := rows, profiles := ps, trace_of := trace_of w @ ops @ ops'\<rparr>))
      | ((Inr (final_file_path, url), ops), ps) \<Rightarrow>
          (case finish e content_record final_file_path url (contents w) of
             ((Inl x, ops1), content_record', rows) \<Rightarrow>
               (case on_exception e x content_record' rows of
                  ((r, ops2), rows') \<Rightarrow>
                    (r, w\<lparr>contents := rows', profiles := ps,
                          trace_of := trace_of w @ ops @ ops1 @ ops2\<rparr>))
           | ((Inr msg, ops1), content_record', rows) \<Rightarrow>
               (Inr msg, w\<lparr>contents := rows, profiles := ps,
                           trace_of := trace_of w @ ops @ ops1\<rparr>)))"

text \<open>
  Lines 19--41, before the \<^verbatim>\<open>try\<close>: the row is loaded, the old artifact is cleaned
  up, the project is followed and the profile is fetched. An exception here leaves the job
  without passing through the handler.
\<close>

definition load_row :: "env \<Rightarrow> nat \<Rightarrow> generated_content list \<Rightarrow> generated_content io_result" where
  "load_row e i rows =
     and_then (call e (DbContentGet i)) (\<lambda>_. lift (objects_get (\<lambda>r. row_id r = i) rows))"

definition load_project :: "env \<Rightarrow> nat \<Rightarrow> project_row list \<Rightarrow> project_row io_result" where
  "load_project e pid ps =
     and_then (call e (DbProjectGet pid)) (\<lambda>_. lift (objects_get (\<lambda>p. project_id p = pid) ps))"

definition before_try ::
  "env \<Rightarrow> nat \<Rightarrow> world \<Rightarrow> (exn + generated_content \<times> project_row) \<times> world" where
  "before_try e generated_content_id w =
     (case load_row e generated_content_id (contents w) of
        (Inl x, ops0) \<Rightarrow> (Inl x, w\<lparr>trace_of := trace_of w @ ops0\<rparr>)
      | (Inr content_record, ops0) \<Rightarrow>
          (let ops1 = cleanup_prior e content_record
           in case load_project e (project content_record) (projects w) of
                (Inl x, ops2) \<Rightarrow> (Inl x, w\<lparr>trace_of := trace_of w @ ops0 @ ops1 @ ops2\<rparr>)
              | (Inr proj, ops2) \<Rightarrow>
                  (case profile_get_or_create e (user proj) (profiles w) of
                     ((Inl x, ops3), ps) \<Rightarrow>
                       (Inl x, w\<lparr>profiles := ps,
                                 trace_of := trace_of w @ ops0 @ ops1 @ ops2 @ ops3\<rparr>)
                   | ((Inr _, ops3), ps) \<Rightarrow>
                       (Inr (content_record, proj),
                        w\<lparr>profiles := ps,
                          trace_of := trace_of w @ ops0 @ ops1 @ ops2 @ ops3\<rparr>))))"

definition generate_content_task :: "env \<Rightarrow> nat \<Rightarrow> options \<Rightarrow> world \<Rightarrow> (exn + string) \<times> world" where
  "generate_content_task e generated_content_id generations_options w =
     (case before_try e generated_content_id w of
        (Inl x, w1) \<Rightarrow> (Inl x, w1)
      | (Inr (content_record, proj), w1) \<Rightarrow>
          try_block e content_record proj generations_options w1)"

section \<open>The request handler (projects/views.py, generate\_content)\<close>

datatype response = Response options nat

definition HTTP_400_BAD_REQUEST :: nat where "HTTP_400_BAD_REQUEST = 400"
definition HTTP_202_ACCEPTED :: nat where "HTTP_202_ACCEPTED = 202"

text \<open>
  \<^verbatim>\<open>serializer_map.get(content_type)\<close> on the raw request value: only the four kind
  strings have a serializer.
\<close>

definition serializer_map :: "pyval option \<Rightarrow> (string \<times> (env \<Rightarrow> options \<Rightarrow> exn + options)) option" where
  "serializer_map requested =
     (if requested = Some (VStr PRESENTATION) then Some (PRESENTATION, PresentationGenerateSerializer)
      else if requested = Some (VStr FLASHCARDS) then Some (FLASHCARDS, FlashcardGenerateSerializer)
      else if requested = Some (VStr MCQ_SET) then Some (MCQ_SET, MCQGenerateSerializer)
      else if requested = Some (VStr PODCAST) then Some (PODCAST, PodcastGenerateSerializer)
      else None)"

text \<open>
  \<^verbatim>\<open>get_object\<close>: the project with this key among the caller's projects, or 404.
\<close>

definition get_object :: "env \<Rightarrow> nat \<Rightarrow> nat \<Rightarrow> project_row list \<Rightarrow> project_row io_result" where
  "get_object e request_user pk ps =
     and_then (call e (DbProjectGet pk))
       (\<lambda>_. lift (case objects_get (\<lambda>p. project_id p = pk)
                          (filter (\<lambda>p. user p = request_user) ps) of
                     Inl DoesNotExist \<Rightarrow> Inl Http404
                   | Inl x \<Rightarrow> Inl x
                   | Inr p \<Rightarrow> Inr p))"

text \<open>
  \<^verbatim>\<open>GeneratedContent.objects.update_or_create(project=..., content_type=...,
  defaults={'task_status': PENDING, 's3_url': None})\<close>.
\<close>

definition update_or_create ::
  "env \<Rightarrow> nat \<Rightarrow> string \<Rightarrow> generated_content list
     \<Rightarrow> (generated_content \<times> bool) io_result \<times> generated_content list" where
  "update_or_create e pid ct rows =
     (case call e (DbContentUpdateOrCreate pid ct) of
        (Inl x, ops) \<Rightarrow> ((Inl x, ops), rows)
      | (Inr _, ops) \<Rightarrow>
          (case filter (\<lambda>r. project r = pid \<and> content_type r = ct) rows of
             [] \<Rightarrow>
               (let r = \<lparr>row_id = fresh_id rows, project = pid, content_type = ct,
                         s3_url = None, task_id = None, task_status = PENDING\<rparr>
                in ((Inr (r, True), ops), rows @ [r]))
           | [r0] \<Rightarrow>
               (let r = r0\<lparr>task_status := PENDING, s3_url := None\<rparr>
                in ((Inr (r, False), ops), save_content r rows))
           | _ # _ # _ \<Rightarrow> ((Inl MultipleObjectsReturned, ops), rows)))"

text \<open>
  Lines 102--122: the row is upserted, the job is dispatched, the job id is stored on the
  row, and the response is 202.
\<close>

definition accepted_response :: "string \<Rightarrow> string \<Rightarrow> nat \<Rightarrow> response" where
  "accepted_response ct tid content_id =
     Response
       [(''message'', VStr (''Content generation for '' @ [CHR 0x27] @ ct @ [CHR 0x27]
                            @ '' started.'')),
        (''task_id'', VStr tid),
        (''content_id'', VInt (int content_id))]
       HTTP_202_ACCEPTED"

definition accept_request ::
  "env \<Rightarrow> project_row \<Rightarrow> string \<Rightarrow> options \<Rightarrow> world \<Rightarrow> (exn + response) \<times> world" where
  "accept_request e proj ct generations_options w =
     (case update_or_create e (project_id proj) ct (contents w) of
        ((Inl x, ops), rows) \<Rightarrow> (Inl x, w\<lparr>contents := rows, trace_of := trace_of w @ ops\<rparr>)
      | ((Inr (content_record, created), ops), rows) \<Rightarrow>
          (case call e (Delay (row_id content_record) generations_options) of
             (Inl x, ops1) \<Rightarrow>
               (Inl x, w\<lparr>contents := rows, trace_of := trace_of w @ ops @ ops1\<rparr>)
           | (Inr _, ops1) \<Rightarrow>
               (let tid = new_task_id e (trace_of w @ ops @ ops1);
                    content_record' = content_record\<lparr>task_id := Some tid\<rparr>
                in case call e (DbContentSave content_record') of
                     (Inl x, ops2) \<Rightarrow>
                       (Inl x, w\<lparr>contents := rows, trace_of := trace_of w @ ops @ ops1 @ ops2\<rparr>)
                   | (Inr _, ops2) \<Rightarrow>
                       (Inr (accepted_response ct tid (row_id content_record)),
                        w\<lparr>contents := save_content content_record' rows,
                          trace_of := trace_of w @ ops @ ops1 @ ops2\<rparr>))))"

definition insufficient_tokens :: response where
  "insufficient_tokens = Response [(''error'', VStr ''Insufficient tokens'')] HTTP_400_BAD_REQUEST"

definition invalid_content_type :: response where
  "invalid_content_type = Response [(''error'', VStr ''Invalid content type'')] HTTP_400_BAD_REQUEST"

definition generate_content :: "env \<Rightarrow> nat \<Rightarrow> nat \<Rightarrow> options \<Rightarrow> world \<Rightarrow> (exn + response) \<times> world" where
  "generate_content e request_user pk data w =
     (case get_object e request_user pk (projects w) of
        (Inl x, ops0) \<Rightarrow> (Inl x, w\<lparr>trace_of := trace_of w @ ops0\<rparr>)
      | (Inr proj, ops0) \<Rightarrow>
          (let requested = map_of data ''content_type''
           in case profile_get_or_create e (user proj) (profiles w) of
                ((Inl x, ops1), ps) \<Rightarrow>
                  (Inl x, w\<lparr>profiles := ps, trace_of := trace_of w @ ops0 @ ops1\<rparr>)
              | ((Inr (user_profile, created), ops1), ps) \<Rightarrow>
                  (let w1 = w\<lparr>profiles := ps, trace_of := trace_of w @ ops0 @ ops1\<rparr>
                   in if token_balance user_profile < 900
                      then (Inr insufficient_tokens, w1)
                      else (case serializer_map requested of
                              None \<Rightarrow> (Inr invalid_content_type, w1)
                            | Some (ct, serializer_class) \<Rightarrow>
                                (case serializer_class e data of
                                   Inl x \<Rightarrow> (Inl x, w1)
                                 | Inr generations_options \<Rightarrow>
                                     accept_request e proj ct generations_options w1)))))"

section \<open>The audio path (views.py generate\_podcast\_audio, tasks.py generate\_audio\_task)\<close>

text \<open>
  The audio request upserts the podcast row of the project and dispatches the audio job;
  it checks no balance.
\<close>

definition audio_accepted_response :: "string \<Rightarrow> nat \<Rightarrow> response" where
  "audio_accepted_response tid content_id =
     Response
       [(''message'', VStr ''Podcast audio generation started.''),
        (''task_id'', VStr tid),
        (''content_id'', VInt (int content_id))]
       HTTP_202_ACCEPTED"

definition accept_audio_request ::
  "env \<Rightarrow> project_row \<Rightarrow> options \<Rightarrow> world \<Rightarrow> (exn + response) \<times> world" where
  "accept_audio_request e proj validated_data w =
     (case update_or_create e (project_id proj) PODCAST (contents w) of
        ((Inl x, ops), rows) \<Rightarrow> (Inl x, w\<lparr>contents := rows, trace_of := trace_of w @ ops\<rparr>)
      | ((Inr (content_record, created), ops), rows) \<Rightarrow>
          (case call e (DelayAudio (row_id content_record) validated_data) of
             (Inl x, ops1) \<Rightarrow>
               (Inl x, w\<lparr>contents := rows, trace_of := trace_of w @ ops @ ops1\<rparr>)
           | (Inr _, ops1) \<Rightarrow>
               (let tid = new_task_id e (trace_of w @ ops @ ops1);
                    content_record' = content_record\<lparr>task_id := Some tid\<rparr>
                in case call e (DbContentSave content_record') of
                     (Inl x, ops2) \<Rightarrow>
                       (Inl x, w\<lparr>contents := rows, trace_of := trace_of w @ ops @ ops1 @ ops2\<rparr>)
                   | (Inr _, ops2) \<Rightarrow>
                       (Inr (audio_accepted_response tid (row_id content_record)),
                        w\<lparr>contents := save_content content_record' rows,
                          trace_of := trace_of w @ ops @ ops1 @ ops2\<rparr>))))"

definition generate_podcast_audio ::
  "env \<Rightarrow> nat \<Rightarrow> nat \<Rightarrow> options \<Rightarrow> world \<Rightarrow> (exn + response) \<times> world" where
  "generate_podcast_audio e request_user pk data w =
     (case get_object e request_user pk (projects w) of
        (Inl x, ops0) \<Rightarrow> (Inl x, w\<lparr>trace_of := trace_of w @ ops0\<rparr>)
      | (Inr proj, ops0) \<Rightarrow>
          (case PodcastAudioGenerateSerializer e data of
             Inl x \<Rightarrow> (Inl x, w\<lparr>trace_of := trace_of w @ ops0\<rparr>)
           | Inr validated_data \<Rightarrow>
               accept_audio_request e proj validated_data (w\<lparr>trace_of := trace_of w @ ops0\<rparr>)))"

text \<open>
  The audio job: the script check, synthesis and upload, inside the \<^verbatim>\<open>try\<close>; the
  project is followed there, for the storage key.
\<close>

definition audio_pipeline ::
  "env \<Rightarrow> generated_content \<Rightarrow> options \<Rightarrow> project_row list \<Rightarrow> (string \<times> string) io_result" where
  "audio_pipeline e content_record generation_options projs =
     (let script_text = dict_get generation_options ''script_text'' VNone
      in if \<not> truthy script_text then lift (Inl (ValueError ''Script text cannot be empty.''))
         else
           and_then (generate_podcast_audio_from_script e script_text generation_options)
             (\<lambda>audio_file_path.
                and_then (call e S3Client)
                  (\<lambda>_. and_then (load_project e (project content_record) projs)
                     (\<lambda>proj.
                        let key = ''generated/'' @ str_nat (project_id proj) @ ''/''
                                    @ str_nat (row_id content_record) @ ''_podcast.mp3''
                        in and_then (call e (S3UploadFile audio_file_path key))
                             (\<lambda>_. ret (audio_file_path, public_url e key))))))"

definition audio_finish ::
  "env \<Rightarrow> generated_content \<Rightarrow> string \<Rightarrow> string \<Rightarrow> generated_content list
     \<Rightarrow> string io_result \<times> generated_content \<times> generated_content list" where
  "audio_finish e content_record audio_file_path url rows =
     (let content_record' = content_record\<lparr>s3_url := Some url, task_status := SUCCESS\<rparr>
      in case call e (DbContentSave content_record') of
           (Inl x, ops) \<Rightarrow> ((Inl x, ops), content_record', rows)
         | (Inr _, ops) \<Rightarrow>
             (let rows' = save_content content_record' rows
              in case call e (Remove audio_file_path) of
                   (Inl x, ops') \<Rightarrow> ((Inl x, ops @ ops'), content_record', rows')
                 | (Inr _, ops') \<Rightarrow>
                     ((Inr ''Audio task completed.'', ops @ ops'), content_record', rows')))"

definition generate_audio_task :: "env \<Rightarrow> nat \<Rightarrow> options \<Rightarrow> world \<Rightarrow> (exn + string) \<times> world" where
  "generate_audio_task e generated_content_id generation_options w =
     (case load_row e generated_content_id (contents w) of
        (Inl x, ops0) \<Rightarrow> (Inl x, w\<lparr>trace_of := trace_of w @ ops0\<rparr>)
      | (Inr content_record, ops0) \<Rightarrow>
          (let ops1 = cleanup_prior e content_record
           in case audio_pipeline e content_record generation_options (projects w) of
                (Inl x, ops) \<Rightarrow>
                  (case on_exception e x content_record (contents w) of
                     ((r, ops'), rows) \<Rightarrow>
                       (r, w\<lparr>contents := rows,
                             trace_of := trace_of w @ ops0 @ ops1 @ ops @ ops'\<rparr>))
              | (Inr (audio_file_path, url), ops) \<Rightarrow>
                  (case audio_finish e content_record audio_file_path url (contents w) of
                     ((Inl x, ops2), content_record', rows) \<Rightarrow>
                       (case on_exception e x content_record' rows of
                          ((r, ops3), rows') \<Rightarrow>
                            (r, w\<lparr>contents := rows',
                                  trace_of := trace_of w @ ops0 @ ops1 @ ops @ ops2 @ ops3\<rparr>))
                   | ((Inr msg, ops2), content_record', rows) \<Rightarrow>
                       (Inr msg, w\<lparr>contents := rows,
                                   trace_of := trace_of w @ ops0 @ ops1 @ ops @ ops2\<rparr>))))"

section \<open>Reachable stores\<close>

text \<open>
  The stores that arise from a store without content rows by generation requests, audio
  requests and executions of the two jobs, in any order, with any environment at each
  step.
\<close>

inductive reachable :: "world \<Rightarrow> bool" where
  start: "contents w = [] \<Longrightarrow> reachable w"
| request: "reachable w \<Longrightarrow> reachable (snd (generate_content e u pk data w))"
| job: "reachable w \<Longrightarrow> reachable (snd (generate_content_task e i opts w))"
| audio_request: "reachable w \<Longrightarrow> reachable (snd (generate_podcast_audio e u pk data w))"
| audio_job: "reachable w \<Longrightarrow> reachable (snd (generate_audio_task e i opts w))"

section \<open>Concrete environments and stores\<close>

text \<open>
  An environment in which no collaborator raises, and variations of it in which one
  operation raises. The stores hold one project of user 7 with one content row.
\<close>

definition scalar_int :: "pyval \<Rightarrow> int option" where
  "scalar_int v = (case v of VInt n \<Rightarrow> Some n | _ \<Rightarrow> None)"

definition scalar_bool :: "pyval \<Rightarrow> bool option" where
  "scalar_bool v = (case v of VBool b \<Rightarrow> Some b | _ \<Rightarrow> None)"

definition scalar_text :: "pyval \<Rightarrow> string option" where
  "scalar_text v = (case v of VStr s \<Rightarrow> (if s = [] then None else Some s) | _ \<Rightarrow> None)"

definition calm_env :: env where
  "calm_env =
     \<lparr>fails = (\<lambda>op. None),
      path_exists = (\<lambda>p. True),
      pdf_pages = (\<lambda>p. [Some (text_of ''Cells divide.''), None]),
      docx_paragraphs = (\<lambda>p. [text_of ''Cells divide.'']),
      txt_contents = (\<lambda>p. text_of ''Cells divide.''),
      chat_completion = (\<lambda>p. \<lparr>content = ''{}'', usage_of = sample_usage\<rparr>),
      image_costs = (\<lambda>c. 0),
      new_task_id = (\<lambda>tr. ''task-'' @ str_nat (length tr)),
      quantize = (\<lambda>x. floor (x * 10000)),
      to_int = scalar_int,
      to_bool = scalar_bool,
      to_text = scalar_text,
      OPENAI_PRICING = sample_pricing,
      AWS_STORAGE_BUCKET_NAME = ''edumind''\<rparr>"

definition failing_at :: "io \<Rightarrow> env" where
  "failing_at bad =
     calm_env\<lparr>fails := (\<lambda>op. if op = bad then Some (CollaboratorError ''unavailable'') else None)\<rparr>"

definition pending_row :: generated_content where
  "pending_row =
     \<lparr>row_id = 1, project = 1, content_type = ''PPT'', s3_url = None,
      task_id = Some ''task-4'', task_status = PENDING\<rparr>"

definition notes_project :: project_row where
  "notes_project = \<lparr>project_id = 1, user = 7, s3_file_key = ''uploads/7/notes.pdf''\<rparr>"

definition store_with :: "generated_content \<Rightarrow> int \<Rightarrow> world" where
  "store_with r balance =
     \<lparr>contents = [r],
      projects = [notes_project],
      profiles = [\<lparr>profile_user = 7, token_balance = balance\<rparr>],
      trace_of = []\<rparr>"

definition french_voice :: options where
  "french_voice = [(''voice_accent'', VStr ''french''), (''voice_gender'', VStr ''female''),
                   (''voice_style'', VStr ''neutral'')]"

definition british_voice :: options where
  "british_voice = [(''voice_accent'', VStr ''british''), (''voice_gender'', VStr ''male''),
                    (''voice_style'', VStr ''conversational'')]"

text \<open>An environment whose PDF pages hold white space only.\<close>

definition blank_env :: env where
  "blank_env = calm_env\<lparr>pdf_pages := (\<lambda>p. [None, Some [32, 10, 160]])\<rparr>"

text \<open>A row that still carries the URL of an earlier artifact.\<close>

definition stale_row :: generated_content where
  "stale_row =
     pending_row\<lparr>s3_url := Some ''https://edumind.s3.amazonaws.com/generated/1/1_old.pptx''\<rparr>"

text \<open>Request data.\<close>

definition slides_request :: options where
  "slides_request = [(''content_type'', VStr ''PPT''), (''slides_count'', VInt 5)]"

definition slides_options :: options where
  "slides_options =
     [(''content_type'', VStr ''PPT''), (''slides_count'', VInt 5), (''include_images'', VBool False)]"

text \<open>
  A history: a first request on a store without content rows, the job it dispatched, and
  the row that job leaves.
\<close>

definition empty_store :: world where
  "empty_store = \<lparr>contents = [], projects = [notes_project], profiles = [], trace_of = []\<rparr>"

definition after_request :: world where
  "after_request = snd (generate_content calm_env 7 1 slides_request empty_store)"

definition after_job :: world where
  "after_job = snd (generate_content_task calm_env 1 slides_options after_request)"

definition success_row :: generated_content where
  "success_row =
     \<lparr>row_id = 1, project = 1, content_type = ''PPT'',
      s3_url = Some ''https://edumind.s3.amazonaws.com/generated/1/1_presentation.pptx'',
      task_id = Some ''task-4'', task_status = SUCCESS\<rparr>"

text \<open>A podcast request through the generic handler, and the row it creates.\<close>

definition podcast_request :: options where
  "podcast_request = [(''content_type'', VStr ''POD''), (''voice_accent'', VStr ''british'')]"

definition podcast_options :: options where
  "podcast_options =
     [(''content_type'', VStr ''POD''), (''podcast_length'', VStr ''medium''),
      (''content_focus'', VStr ''full_document''), (''voice_style'', VStr ''neutral''),
      (''voice_gender'', VStr ''female''), (''voice_accent'', VStr ''british'')]"

definition podcast_row :: generated_content where
  "podcast_row =
     \<lparr>row_id = 2, project = 1, content_type = ''POD'', s3_url = None,
      task_id = Some ''task-4'', task_status = PENDING\<rparr>"

section \<open>Lemmas\<close>

text \<open>The definitions that evaluate a concrete run.\<close>

lemmas eval_env = calm_env_def failing_at_def blank_env_def sample_pricing_def sample_usage_def
  scalar_int_def scalar_bool_def

lemmas eval_store = store_with_def pending_row_def notes_project_def

lemmas eval_io = call_def ret_def lift_def and_then_def Let_def

lemmas eval_strings = startswith_def endswith_def key_of_url_def py_index_def basename_def
  path_join_def digit_char_def py_strip_def is_space_def text_of_def

lemmas eval_job = before_try_def load_row_def load_project_def objects_get_def cleanup_prior_def
  profile_get_or_create_def generate_content_task_def try_block_def pipeline_def produce_def
  download_file_from_s3_def extract_text_from_file_def extract_body_def remove_if_exists_def
  dispatch_generation_def settle_if_positive_def settle_cost_def deliver_def finish_def
  on_exception_def save_content_def row_with_def generated_s3_key_def public_url_def
  PRESENTATION_def FLASHCARDS_def MCQ_SET_def PODCAST_def

subsection \<open>Sequencing\<close>

lemma call_simps:
  "fails e op = None \<Longrightarrow> call e op = (Inr (), [op])"
  "fails e op = Some x \<Longrightarrow> call e op = (Inl x, [op])"
  by (simp_all add: call_def)

lemma and_then_Inl: "and_then (Inl x, ops) f = (Inl x, ops)"
  by (simp add: and_then_def)

lemma and_then_Inr: "and_then (Inr v, ops) f = (fst (f v), ops @ snd (f v))"
  by (simp add: and_then_def split: prod.splits)

lemma and_then_ret: "and_then (ret v) f = f v"
  by (simp add: and_then_def ret_def split: prod.splits)

lemma and_then_lift:
  "and_then (lift (Inl x)) f = (Inl x, [])"
  "and_then (lift (Inr v)) f = f v"
  by (simp_all add: and_then_def lift_def split: prod.splits)

lemma call_ops: "snd (call e op) = [op]"
  by (simp add: call_def)

lemma call_cases:
  obtains x where "fails e op = Some x" "call e op = (Inl x, [op])"
  | "fails e op = None" "call e op = (Inr (), [op])"
  by (cases "fails e op") (auto simp: call_def)

subsection \<open>Extraction\<close>

lemma remove_cases:
  assumes "path_exists e p \<longrightarrow> fails e (Remove p) = None"
  shows "remove_if_exists e p = (Inr (), if path_exists e p then [Remove p] else [])"
  using assms by (simp add: remove_if_exists_def call_simps ret_def)

lemma extract_eq:
  assumes "path_exists e p \<longrightarrow> fails e (Remove p) = None"
  shows "extract_text_from_file e p
           = (fst (extract_body e p),
              snd (extract_body e p) @ (if path_exists e p then [Remove p] else []))"
  by (simp add: extract_text_from_file_def remove_cases [OF assms] split: prod.splits)

lemma extraction_dispatch:
  assumes "path_exists e p \<longrightarrow> fails e (Remove p) = None"
  shows "(endswith p ''.pdf'' \<longrightarrow>
            fst (extract_text_from_file e p)
              = (case fails e (ReadPdf p) of
                   Some x \<Rightarrow> Inl x
                 | None \<Rightarrow> Inr (concat (map (\<lambda>pg. case pg of None \<Rightarrow> [] | Some t \<Rightarrow> t) (pdf_pages e p)))))
       \<and> (\<not> endswith p ''.pdf'' \<and> endswith p ''.docx'' \<longrightarrow>
            fst (extract_text_from_file e p)
              = (case fails e (ReadDocx p) of
                   Some x \<Rightarrow> Inl x
                 | None \<Rightarrow> Inr (concat (map (\<lambda>t. t @ [10]) (docx_paragraphs e p)))))
       \<and> (\<not> endswith p ''.pdf'' \<and> \<not> endswith p ''.docx'' \<and> endswith p ''.txt'' \<longrightarrow>
            fst (extract_text_from_file e p)
              = (case fails e (ReadTxt p) of Some x \<Rightarrow> Inl x | None \<Rightarrow> Inr (txt_contents e p)))
       \<and> (\<not> endswith p ''.pdf'' \<and> \<not> endswith p ''.docx'' \<and> \<not> endswith p ''.txt'' \<longrightarrow>
            extract_text_from_file e p = (Inr [], if path_exists e p then [Remove p] else []))"
  unfolding extract_eq [OF assms]
  by (auto simp: extract_body_def call_def and_then_def ret_def split: option.splits)

subsection \<open>Rows and the try block\<close>

lemma objects_get_Inr: "objects_get P rows = Inr r \<longleftrightarrow> filter P rows = [r]"
  by (auto simp: objects_get_def split: list.splits)

lemma save_content_row_with:
  assumes "row_with i rows = [cr]" and "row_id cr' = i"
  shows "row_with i (save_content cr' rows) = [cr']"
proof -
  have "cr \<in> set (filter (\<lambda>r. row_id r = i) rows)"
    using assms(1) by (simp add: row_with_def)
  then have "cr \<in> set rows" "row_id cr = i"
    by simp_all
  then have mem: "row_id cr' \<in> row_id ` set rows"
    using assms(2) by force
  have "filter (\<lambda>r. row_id r = i) (map (\<lambda>x. if row_id x = i then cr' else x) rows)
          = map (\<lambda>x. cr') (filter (\<lambda>r. row_id r = i) rows)"
    using assms(2) by (induction rows) auto
  then show ?thesis
    using assms mem by (simp add: save_content_def row_with_def)
qed

lemma load_row_Inr:
  assumes "load_row e i rows = (Inr cr, ops)"
  shows "row_with i rows = [cr] \<and> ops = [DbContentGet i] \<and> fails e (DbContentGet i) = None"
  using assms
  by (cases "fails e (DbContentGet i)")
     (auto simp: load_row_def and_then_def call_def lift_def row_with_def objects_get_Inr
       split: prod.splits sum.splits)

lemma before_try_Inr:
  assumes "before_try e i w = (Inr (cr, proj), w1)"
  shows "row_with i (contents w) = [cr] \<and> contents w1 = contents w \<and> projects w1 = projects w"
  using assms
  by (auto simp: before_try_def Let_def dest: load_row_Inr split: prod.splits sum.splits)

lemma row_with_id:
  assumes "row_with i rows = [cr]"
  shows "row_id cr = i"
proof -
  have "cr \<in> set (filter (\<lambda>r. row_id r = i) rows)"
    using assms by (simp add: row_with_def)
  then show ?thesis by simp
qed

lemma try_block_raise:
  assumes "pipeline e cr proj opts (profiles w1) = ((Inl x, ops), ps)"
    and "fails e (DbContentSave (cr\<lparr>task_status := FAILURE\<rparr>)) = None"
  shows "try_block e cr proj opts w1
           = (Inl x, w1\<lparr>contents := save_content (cr\<lparr>task_status := FAILURE\<rparr>) (contents w1),
                        profiles := ps,
                        trace_of := trace_of w1 @ ops @ [DbContentSave (cr\<lparr>task_status := FAILURE\<rparr>)]\<rparr>)"
  using assms by (simp add: try_block_def on_exception_def Let_def call_simps)

lemma try_block_status:
  assumes "row_with i (contents w1) = [cr]" and "row_id cr = i"
    and "\<forall>r. fails e (DbContentSave r) = None"
    and "try_block e cr proj opts w1 = (res, w')"
  shows "\<exists>r. row_with i (contents w') = [r] \<and> task_status r \<noteq> PENDING
             \<and> (task_status r = SUCCESS \<longleftrightarrow> (\<exists>m. res = Inr m))"
proof (cases "pipeline e cr proj opts (profiles w1)")
  case (Pair a ps)
  obtain r0 ops where a: "a = (r0, ops)" by (cases a)
  show ?thesis
  proof (cases r0)
    case (Inl x)
    with Pair a assms(3) try_block_raise [of e cr proj opts w1 x ops ps] assms(4)
    have "w' = w1\<lparr>contents := save_content (cr\<lparr>task_status := FAILURE\<rparr>) (contents w1),
                        profiles := ps,
                        trace_of := trace_of w1 @ ops @ [DbContentSave (cr\<lparr>task_status := FAILURE\<rparr>)]\<rparr>"
      and "res = Inl x" by simp_all
    then show ?thesis
      using save_content_row_with [OF assms(1), of "cr\<lparr>task_status := FAILURE\<rparr>"] assms(2)
      by simp
  next
    case (Inr pu)
    obtain path url where pu: "pu = (path, url)" by (cases pu)
    let ?ok = "cr\<lparr>s3_url := Some url, task_status := SUCCESS\<rparr>"
    have s1: "row_with i (save_content ?ok (contents w1)) = [?ok]"
      using save_content_row_with [OF assms(1), of ?ok] assms(2) by simp
    have s2: "row_with i (save_content (?ok\<lparr>task_status := FAILURE\<rparr>) (save_content ?ok (contents w1)))
                = [?ok\<lparr>task_status := FAILURE\<rparr>]"
      using save_content_row_with [OF s1, of "?ok\<lparr>task_status := FAILURE\<rparr>"] assms(2) by simp
    show ?thesis
      using Pair a Inr pu assms(3,4) s1 s2
      by (cases "remove_if_exists e path")
         (auto simp: try_block_def finish_def on_exception_def Let_def call_simps
            split: sum.splits prod.splits)
  qed
qed

subsection \<open>Operations before generation\<close>

lemma no_chat_download: "ChatCompletion pr \<notin> set (snd (download_file_from_s3 e k))"
  by (auto simp: download_file_from_s3_def and_then_def call_def ret_def lift_def Let_def
       split: prod.splits sum.splits option.splits if_splits)

lemma no_chat_extract: "ChatCompletion pr \<notin> set (snd (extract_text_from_file e p))"
  by (auto simp: extract_text_from_file_def extract_body_def remove_if_exists_def
         and_then_def call_def ret_def
       split: prod.splits sum.splits option.splits if_splits)

lemma no_chat_cleanup: "ChatCompletion pr \<notin> set (cleanup_prior e cr)"
  by (auto simp: cleanup_prior_def and_then_def call_def lift_def
       split: prod.splits sum.splits option.splits if_splits)

lemma no_chat_load_row: "ChatCompletion pr \<notin> set (snd (load_row e i rows))"
  by (auto simp: load_row_def and_then_def call_def lift_def
       split: prod.splits sum.splits option.splits)

lemma no_chat_load_project: "ChatCompletion pr \<notin> set (snd (load_project e pid ps))"
  by (auto simp: load_project_def and_then_def call_def lift_def
       split: prod.splits sum.splits option.splits)

lemma no_chat_get_or_create:
  "ChatCompletion pr \<notin> set (snd (fst (profile_get_or_create e u ps)))"
  by (auto simp: profile_get_or_create_def call_def Let_def
       split: prod.splits sum.splits option.splits list.splits)

lemma before_try_trace:
  "\<exists>ops. trace_of (snd (before_try e i w)) = trace_of w @ ops
         \<and> (\<forall>pr. ChatCompletion pr \<notin> set ops)"
proof -
  obtain r0 ops0 where a: "load_row e i (contents w) = (r0, ops0)"
    by (cases "load_row e i (contents w)")
  have n0: "\<forall>pr. ChatCompletion pr \<notin> set ops0"
    using no_chat_load_row [of _ e i "contents w"] by (simp add: a)
  show ?thesis
  proof (cases r0)
    case (Inl x)
    then show ?thesis using a n0 by (simp add: before_try_def)
  next
    case (Inr cr)
    obtain r2 ops2 where b: "load_project e (project cr) (projects w) = (r2, ops2)"
      by (cases "load_project e (project cr) (projects w)")
    have n2: "\<forall>pr. ChatCompletion pr \<notin> set ops2"
      using no_chat_load_project [of _ e "project cr" "projects w"] by (simp add: b)
    show ?thesis
    proof (cases r2)
      case (Inl x)
      then show ?thesis
        using a b Inr n0 n2 no_chat_cleanup [of _ e cr] by (simp add: before_try_def Let_def)
    next
      case proj: (Inr proj)
      obtain r3 ops3 ps where c: "profile_get_or_create e (user proj) (profiles w) = ((r3, ops3), ps)"
        by (cases "profile_get_or_create e (user proj) (profiles w)") auto
      have n3: "\<forall>pr. ChatCompletion pr \<notin> set ops3"
        using no_chat_get_or_create [of _ e "user proj" "profiles w"] by (simp add: c)
      show ?thesis
        using a b c Inr proj n0 n2 n3 no_chat_cleanup [of _ e cr]
        by (cases r3) (simp_all add: before_try_def Let_def)
    qed
  qed
qed

subsection \<open>Runs that raise\<close>

lemma produce_without_text:
  assumes "fst (download_file_from_s3 e (s3_file_key proj)) = Inr local"
    and "fst (extract_text_from_file e local) = r"
    and "case r of Inl x \<Rightarrow> True | Inr t \<Rightarrow> py_strip t = []"
  shows "produce e cr proj opts
           = (Inl (case r of
                     Inl x \<Rightarrow> x
                   | Inr t \<Rightarrow> ValueError ''Extracted text is empty. Cannot generate content.''),
              snd (download_file_from_s3 e (s3_file_key proj))
                @ snd (extract_text_from_file e local))"
proof -
  obtain ops_d where d: "download_file_from_s3 e (s3_file_key proj) = (Inr local, ops_d)"
    using assms(1) by (cases "download_file_from_s3 e (s3_file_key proj)") auto
  obtain ops_e where x: "extract_text_from_file e local = (r, ops_e)"
    using assms(2) by (cases "extract_text_from_file e local") auto
  show ?thesis
    using assms(3) by (cases r) (simp_all add: produce_def d x and_then_def lift_def)
qed

lemma pipeline_produce_raises:
  "produce e cr proj opts = (Inl x, ops) \<Longrightarrow> pipeline e cr proj opts ps = ((Inl x, ops), ps)"
  by (simp add: pipeline_def)

lemma job_raise:
  assumes "before_try e i w = (Inr (cr, proj), w1)"
    and "pipeline e cr proj opts (profiles w1) = ((Inl x, ops), ps)"
    and "fails e (DbContentSave (cr\<lparr>task_status := FAILURE\<rparr>)) = None"
  shows "generate_content_task e i opts w
           = (Inl x, w1\<lparr>contents := save_content (cr\<lparr>task_status := FAILURE\<rparr>) (contents w1),
                        profiles := ps,
                        trace_of := trace_of w1 @ ops
                                      @ [DbContentSave (cr\<lparr>task_status := FAILURE\<rparr>)]\<rparr>)"
  using assms by (simp add: generate_content_task_def try_block_raise)

lemma job_raise_row:
  assumes "before_try e i w = (Inr (cr, proj), w1)"
    and "pipeline e cr proj opts (profiles w1) = ((Inl x, ops), ps)"
    and "fails e (DbContentSave (cr\<lparr>task_status := FAILURE\<rparr>)) = None"
  shows "row_with i (contents (snd (generate_content_task e i opts w)))
           = [cr\<lparr>task_status := FAILURE\<rparr>]"
proof -
  from before_try_Inr [OF assms(1)] have r: "row_with i (contents w1) = [cr]"
    by simp
  have "row_with i (save_content (cr\<lparr>task_status := FAILURE\<rparr>) (contents w1))
          = [cr\<lparr>task_status := FAILURE\<rparr>]"
    using save_content_row_with [OF r, of "cr\<lparr>task_status := FAILURE\<rparr>"] row_with_id [OF r]
    by simp
  then show ?thesis
    by (simp add: job_raise [OF assms])
qed

lemma job_without_text:
  assumes bt: "before_try e i w = (Inr (cr, proj), w1)"
    and d: "fst (download_file_from_s3 e (s3_file_key proj)) = Inr local"
    and x: "fst (extract_text_from_file e local) = r"
    and r: "case r of Inl x \<Rightarrow> True | Inr t \<Rightarrow> py_strip t = []"
    and s: "fails e (DbContentSave (cr\<lparr>task_status := FAILURE\<rparr>)) = None"
  shows "fst (generate_content_task e i opts w)
           = Inl (case r of
                    Inl x \<Rightarrow> x
                  | Inr t \<Rightarrow> ValueError ''Extracted text is empty. Cannot generate content.'')
         \<and> row_with i (contents (snd (generate_content_task e i opts w)))
             = [cr\<lparr>task_status := FAILURE\<rparr>]
         \<and> (\<forall>pr. ChatCompletion pr
                   \<notin> set (drop (length (trace_of w))
                              (trace_of (snd (generate_content_task e i opts w)))))"
proof -
  let ?x = "case r of Inl x \<Rightarrow> x
              | Inr t \<Rightarrow> ValueError ''Extracted text is empty. Cannot generate content.''"
  let ?ops = "snd (download_file_from_s3 e (s3_file_key proj)) @ snd (extract_text_from_file e local)"
  have p: "pipeline e cr proj opts (profiles w1) = ((Inl ?x, ?ops), profiles w1)"
    by (rule pipeline_produce_raises) (rule produce_without_text [OF d x r])
  from before_try_trace [of e i w] bt obtain ops0 where
    t: "trace_of w1 = trace_of w @ ops0" and n: "\<forall>pr. ChatCompletion pr \<notin> set ops0"
    by auto
  have "\<forall>pr. ChatCompletion pr \<notin> set (ops0 @ ?ops @ [DbContentSave (cr\<lparr>task_status := FAILURE\<rparr>)])"
    using n no_chat_download [of _ e "s3_file_key proj"] no_chat_extract [of _ e local]
    by simp
  then show ?thesis
    using job_raise_row [OF bt p s] by (simp add: job_raise [OF bt p s] t)
qed

lemma before_try_raise:
  assumes "before_try e i w = (Inl x, w1)"
  shows "generate_content_task e i opts w = (Inl x, w1) \<and> contents w1 = contents w"
  using assms
  by (auto simp: generate_content_task_def before_try_def Let_def split: prod.splits sum.splits)

subsection \<open>Runs that succeed\<close>

lemma try_block_success:
  assumes "pipeline e cr proj opts (profiles w1) = ((Inr (path, url), ops), ps)"
    and "fails e (DbContentSave (cr\<lparr>s3_url := Some url, task_status := SUCCESS\<rparr>)) = None"
    and "path_exists e path \<longrightarrow> fails e (Remove path) = None"
  shows "try_block e cr proj opts w1
           = (Inr ''Task Completed Successfully'',
              w1\<lparr>contents := save_content (cr\<lparr>s3_url := Some url, task_status := SUCCESS\<rparr>)
                                 (contents w1),
                  profiles := ps,
                  trace_of := trace_of w1 @ ops
                     @ [DbContentSave (cr\<lparr>s3_url := Some url, task_status := SUCCESS\<rparr>)]
                     @ (if path_exists e path then [Remove path] else [])\<rparr>)"
  using assms
  by (simp add: try_block_def finish_def Let_def call_simps remove_cases)

lemma before_try_reaches:
  assumes "row_with i (contents w) = [cr]"
    and "fails e (DbContentGet i) = None"
    and "load_project e (project cr) (projects w) = (Inr proj, ops2)"
    and "profile_get_or_create e (user proj) (profiles w) = ((Inr pc, ops3), ps)"
  shows "before_try e i w
           = (Inr (cr, proj),
              w\<lparr>profiles := ps,
                trace_of := trace_of w @ [DbContentGet i] @ cleanup_prior e cr @ ops2 @ ops3\<rparr>)"
proof -
  have "load_row e i (contents w) = (Inr cr, [DbContentGet i])"
    using assms(1,2)
    by (simp add: load_row_def call_simps and_then_Inr lift_def objects_get_def row_with_def)
  then show ?thesis
    using assms(3,4) by (simp add: before_try_def Let_def)
qed

subsection \<open>Independence of the balance\<close>

lemma settle_fst_indep:
  "fst (settle_if_positive e u c ps) = fst (settle_if_positive e u c ps')"
  by (simp add: settle_if_positive_def settle_cost_def split: prod.splits sum.splits)

lemma pipeline_fst_indep:
  "fst (pipeline e cr proj opts ps) = fst (pipeline e cr proj opts ps')"
proof (cases "produce e cr proj opts")
  case (Pair r ops)
  show ?thesis
  proof (cases r)
    case (Inl x)
    with Pair show ?thesis by (simp add: pipeline_def)
  next
    case (Inr fc)
    obtain final cost where fc: "fc = (final, cost)" by (cases fc)
    obtain r1 ops1 q where a: "settle_if_positive e (user proj) cost ps = ((r1, ops1), q)"
      by (cases "settle_if_positive e (user proj) cost ps") auto
    obtain r1' ops1' q' where b: "settle_if_positive e (user proj) cost ps' = ((r1', ops1'), q')"
      by (cases "settle_if_positive e (user proj) cost ps'") auto
    from settle_fst_indep [of e "user proj" cost ps ps'] a b
    have eq: "r1' = r1" "ops1' = ops1" by simp_all
    show ?thesis
      using Pair Inr fc a b eq
      by (cases r1) (simp_all add: pipeline_def split: prod.splits)
  qed
qed

lemma pipeline_url:
  assumes "fst (fst (pipeline e cr proj opts ps)) = Inr (path, url)"
  shows "url = public_url e (generated_s3_key proj cr path)"
  using assms
  by (auto simp: pipeline_def deliver_def and_then_def call_def ret_def lift_def Let_def
       split: prod.splits sum.splits option.splits if_splits)

lemma filter_users:
  "map profile_user (filter (\<lambda>p. profile_user p = u) ps)
     = filter (\<lambda>x. x = u) (map profile_user ps)"
  by (induction ps) auto

lemma filter_users_length:
  assumes "map profile_user ps' = map profile_user ps"
  shows "length (filter (\<lambda>p. profile_user p = u) ps')
           = length (filter (\<lambda>p. profile_user p = u) ps)"
proof -
  have "length (filter (\<lambda>p. profile_user p = u) ps')
          = length (map profile_user (filter (\<lambda>p. profile_user p = u) ps'))"
    by simp
  also have "\<dots> = length (map profile_user (filter (\<lambda>p. profile_user p = u) ps))"
    by (simp only: filter_users assms)
  finally show ?thesis by simp
qed

lemma get_or_create_same_users:
  assumes "map profile_user ps' = map profile_user ps"
  shows "snd (fst (profile_get_or_create e u ps')) = snd (fst (profile_get_or_create e u ps))
         \<and> map profile_user (snd (profile_get_or_create e u ps'))
             = map profile_user (snd (profile_get_or_create e u ps))
         \<and> (case fst (fst (profile_get_or_create e u ps)) of
               Inl x \<Rightarrow> fst (fst (profile_get_or_create e u ps')) = Inl x
             | Inr _ \<Rightarrow> (\<exists>b. fst (fst (profile_get_or_create e u ps')) = Inr b))"
proof (cases "fails e (DbProfileGetOrCreate u)")
  case (Some x)
  then show ?thesis
    using assms by (simp add: profile_get_or_create_def call_simps)
next
  case None
  from filter_users_length [OF assms, of u]
  have l: "length (filter (\<lambda>p. profile_user p = u) ps')
             = length (filter (\<lambda>p. profile_user p = u) ps)" .
  show ?thesis
  proof (cases "filter (\<lambda>p. profile_user p = u) ps")
    case Nil
    with l have "filter (\<lambda>p. profile_user p = u) ps' = []" by simp
    with Nil None assms show ?thesis
      by (auto simp: profile_get_or_create_def call_simps Let_def)
  next
    case (Cons a as)
    note c1 = Cons
    show ?thesis
    proof (cases as)
      case Nil
      with c1 l obtain a' where "filter (\<lambda>p. profile_user p = u) ps' = [a']"
        by (cases "filter (\<lambda>p. profile_user p = u) ps'") auto
      with Nil c1 None assms show ?thesis
        by (auto simp: profile_get_or_create_def call_simps)
    next
      case (Cons b bs)
      with c1 l obtain a' b' bs' where "filter (\<lambda>p. profile_user p = u) ps' = a' # b' # bs'"
        by (cases "filter (\<lambda>p. profile_user p = u) ps'"; cases "tl (filter (\<lambda>p. profile_user p = u) ps')") auto
      with Cons c1 None assms show ?thesis
        by (auto simp: profile_get_or_create_def call_simps)
    qed
  qed
qed

lemma try_block_indep:
  assumes "contents w' = contents w" and "trace_of w' = trace_of w"
  shows "fst (try_block e cr proj opts w') = fst (try_block e cr proj opts w)
         \<and> contents (snd (try_block e cr proj opts w')) = contents (snd (try_block e cr proj opts w))
         \<and> trace_of (snd (try_block e cr proj opts w')) = trace_of (snd (try_block e cr proj opts w))"
proof -
  obtain r ops ps where a: "pipeline e cr proj opts (profiles w) = ((r, ops), ps)"
    by (cases "pipeline e cr proj opts (profiles w)") auto
  obtain r' ops' ps' where b: "pipeline e cr proj opts (profiles w') = ((r', ops'), ps')"
    by (cases "pipeline e cr proj opts (profiles w')") auto
  from pipeline_fst_indep [of e cr proj opts "profiles w" "profiles w'"] a b
  have eq: "r' = r" "ops' = ops" by simp_all
  show ?thesis
    using a b eq assms
    by (cases r) (auto simp: try_block_def split: prod.splits sum.splits)
qed

lemma before_try_same_users:
  assumes "contents w' = contents w" and "projects w' = projects w"
    and "trace_of w' = trace_of w"
    and "map profile_user (profiles w') = map profile_user (profiles w)"
  shows "contents (snd (before_try e i w')) = contents (snd (before_try e i w))
         \<and> trace_of (snd (before_try e i w')) = trace_of (snd (before_try e i w))
         \<and> fst (before_try e i w') = fst (before_try e i w)"
proof -
  obtain r0 ops0 where a: "load_row e i (contents w) = (r0, ops0)"
    by (cases "load_row e i (contents w)")
  show ?thesis
  proof (cases r0)
    case (Inl x)
    with a assms show ?thesis by (simp add: before_try_def)
  next
    case (Inr cr)
    obtain r2 ops2 where b: "load_project e (project cr) (projects w) = (r2, ops2)"
      by (cases "load_project e (project cr) (projects w)")
    show ?thesis
    proof (cases r2)
      case (Inl x)
      with a b Inr assms show ?thesis by (simp add: before_try_def Let_def)
    next
      case proj: (Inr proj)
      obtain r3 ops3 ps where c: "profile_get_or_create e (user proj) (profiles w) = ((r3, ops3), ps)"
        by (cases "profile_get_or_create e (user proj) (profiles w)") auto
      obtain r3' ops3' ps' where c': "profile_get_or_create e (user proj) (profiles w') = ((r3', ops3'), ps')"
        by (cases "profile_get_or_create e (user proj) (profiles w')") auto
      from get_or_create_same_users [OF assms(4), of e "user proj"] c c'
      have o: "ops3' = ops3"
        by simp
      from get_or_create_same_users [OF assms(4), of e "user proj"] c c'
      have k: "case r3 of Inl x \<Rightarrow> r3' = Inl x | Inr _ \<Rightarrow> (\<exists>b. r3' = Inr b)"
        by (cases r3) simp_all
      show ?thesis
        using a b c c' Inr proj o k assms
        by (cases r3) (auto simp: before_try_def Let_def)
    qed
  qed
qed

lemma get_or_create_idempotent:
  assumes "profile_get_or_create e u ps = ((Inr (p, created), ops), ps')"
  shows "profile_get_or_create e u ps' = ((Inr (p, False), ops), ps')
         \<and> filter (\<lambda>q. profile_user q = u) ps' = [p]"
proof (cases "fails e (DbProfileGetOrCreate u)")
  case (Some x)
  with assms show ?thesis by (simp add: profile_get_or_create_def call_simps)
next
  case None
  show ?thesis
  proof (cases "filter (\<lambda>q. profile_user q = u) ps")
    case Nil
    with None assms show ?thesis
      by (auto simp: profile_get_or_create_def call_simps Let_def)
  next
    case (Cons a as)
    with None assms show ?thesis
      by (cases as) (auto simp: profile_get_or_create_def call_simps)
  qed
qed

lemma before_try_fetches_profile:
  assumes "before_try e i w = (Inr (cr, proj), w1)"
  shows "trace_of w1 \<noteq> [] \<and> last (trace_of w1) = DbProfileGetOrCreate (user proj)
         \<and> length (filter (\<lambda>q. profile_user q = user proj) (profiles w1)) = 1"
proof -
  obtain r0 ops0 where a: "load_row e i (contents w) = (r0, ops0)"
    by (cases "load_row e i (contents w)")
  from assms a obtain cr0 where r0: "r0 = Inr cr0"
    by (cases r0) (auto simp: before_try_def)
  obtain r2 ops2 where b: "load_project e (project cr0) (projects w) = (r2, ops2)"
    by (cases "load_project e (project cr0) (projects w)")
  from assms a r0 b obtain proj0 where r2: "r2 = Inr proj0"
    by (cases r2) (auto simp: before_try_def Let_def)
  obtain r3 ops3 ps where c: "profile_get_or_create e (user proj0) (profiles w) = ((r3, ops3), ps)"
    by (cases "profile_get_or_create e (user proj0) (profiles w)") auto
  from assms a r0 b r2 c obtain pc where r3: "r3 = Inr pc"
    by (cases r3) (auto simp: before_try_def Let_def)
  from assms a r0 b r2 c r3 have eq: "cr0 = cr" "proj0 = proj"
    and w1: "w1 = w\<lparr>profiles := ps,
                     trace_of := trace_of w @ ops0 @ cleanup_prior e cr0 @ ops2 @ ops3\<rparr>"
    by (auto simp: before_try_def Let_def)
  obtain p created where pc: "pc = (p, created)" by (cases pc)
  from get_or_create_idempotent [of e "user proj0" "profiles w" p created ops3 ps] c r3 pc
  have f: "filter (\<lambda>q. profile_user q = user proj0) ps = [p]"
    by simp
  have o: "ops3 = [DbProfileGetOrCreate (user proj0)]"
    using c by (auto simp: profile_get_or_create_def call_def Let_def
                  split: option.splits list.splits)
  show ?thesis
    using eq w1 f o by simp
qed

subsection \<open>The request handler\<close>

lemma threshold_on_decimals:
  "((of_int b :: rat) / 10000 < float_0_09) = (b < 900)"
  "((of_int b :: rat) / 10000 < 9 / 100) = (b < 900)"
proof -
  have lo: "(899 :: rat) < float_0_09 * 10000" and hi: "float_0_09 * 10000 < (900 :: rat)"
    by (simp_all add: float_0_09_def)
  have e: "((of_int b :: rat) / 10000 < float_0_09) = ((of_int b :: rat) < float_0_09 * 10000)"
    by (simp add: pos_divide_less_eq)
  show "((of_int b :: rat) / 10000 < float_0_09) = (b < 900)"
  proof (cases "b < 900")
    case True
    then have "b \<le> 899" by simp
    then have "(of_int b :: rat) \<le> 899" by (metis of_int_le_iff of_int_numeral)
    with lo True show ?thesis unfolding e by linarith
  next
    case False
    then have "900 \<le> b" by simp
    then have "(900 :: rat) \<le> of_int b" by (metis of_int_le_iff of_int_numeral)
    with hi False show ?thesis unfolding e by linarith
  qed
  have "((of_int b :: rat) / 10000 < 9 / 100) = ((of_int b :: rat) < 900)"
    by (simp add: pos_divide_less_eq)
  also have "\<dots> = (b < 900)"
    by (metis of_int_less_iff of_int_numeral)
  finally show "((of_int b :: rat) / 10000 < 9 / 100) = (b < 900)" .
qed

lemma get_object_Inr:
  assumes "get_object e u pk projs = (Inr proj, ops)"
  shows "user proj = u \<and> project_id proj = pk \<and> ops = [DbProjectGet pk]
         \<and> fails e (DbProjectGet pk) = None"
proof (cases "fails e (DbProjectGet pk)")
  case (Some x)
  with assms show ?thesis by (simp add: get_object_def call_simps and_then_Inl)
next
  case None
  with assms have c: "(case objects_get (\<lambda>p. project_id p = pk) (filter (\<lambda>p. user p = u) projs) of
                     Inl DoesNotExist \<Rightarrow> Inl Http404
                   | Inl x \<Rightarrow> Inl x
                   | Inr p \<Rightarrow> Inr p) = Inr proj" and o: "ops = [DbProjectGet pk]"
    by (simp_all add: get_object_def call_simps and_then_Inr lift_def)
  from c have "objects_get (\<lambda>p. project_id p = pk) (filter (\<lambda>p. user p = u) projs) = Inr proj"
    by (auto split: sum.splits exn.splits)
  then have "filter (\<lambda>p. project_id p = pk) (filter (\<lambda>p. user p = u) projs) = [proj]"
    by (simp add: objects_get_Inr)
  then have "proj \<in> set (filter (\<lambda>p. project_id p = pk) (filter (\<lambda>p. user p = u) projs))"
    by simp
  then show ?thesis using o None by simp
qed

lemma get_object_ops: "snd (get_object e u pk projs) = [DbProjectGet pk]"
  by (cases "fails e (DbProjectGet pk)")
     (simp_all add: get_object_def call_simps and_then_Inl and_then_Inr lift_def)

lemma get_or_create_found:
  assumes "filter (\<lambda>q. profile_user q = u) ps = [p]"
  shows "profile_get_or_create e u ps
           = ((case fails e (DbProfileGetOrCreate u) of
                 Some x \<Rightarrow> Inl x | None \<Rightarrow> Inr (p, False),
               [DbProfileGetOrCreate u]), ps)"
  using assms
  by (cases "fails e (DbProfileGetOrCreate u)") (simp_all add: profile_get_or_create_def call_simps)

lemma rejected_below_threshold:
  assumes f: "filter (\<lambda>q. profile_user q = u) (profiles w) = [p]"
    and b: "token_balance p < 900"
  shows "contents (snd (generate_content e u pk data w)) = contents w
         \<and> set (drop (length (trace_of w)) (trace_of (snd (generate_content e u pk data w))))
             \<subseteq> {DbProjectGet pk, DbProfileGetOrCreate u}
         \<and> (fst (get_object e u pk (projects w)) = Inr proj
              \<and> fails e (DbProfileGetOrCreate u) = None
            \<longrightarrow> fst (generate_content e u pk data w) = Inr insufficient_tokens)"
proof (cases "get_object e u pk (projects w)")
  case (Pair r ops0)
  have o: "ops0 = [DbProjectGet pk]"
    using get_object_ops [of e u pk "projects w"] Pair by simp
  show ?thesis
  proof (cases r)
    case (Inl x)
    with Pair o show ?thesis by (simp add: generate_content_def)
  next
    case (Inr pr)
    with Pair have up: "user pr = u" using get_object_Inr by blast
    show ?thesis
      using Pair Inr o up b get_or_create_found [OF f, of e]
      by (cases "fails e (DbProfileGetOrCreate u)") (auto simp: generate_content_def Let_def)
  qed
qed

subsection \<open>The table constraints\<close>

lemma fold_max_ge: "a \<le> fold max xs (a :: nat) \<and> (\<forall>x \<in> set xs. x \<le> fold max xs a)"
proof (induction xs arbitrary: a)
  case Nil
  then show ?case by simp
next
  case (Cons y ys)
  from Cons [of "max y a"] show ?case
    by (auto simp: max_def split: if_splits)
qed

lemma fresh_id_notin: "fresh_id rows \<notin> row_id ` set rows"
proof
  assume "fresh_id rows \<in> row_id ` set rows"
  then have "fresh_id rows \<in> set (map row_id rows)" by simp
  with fold_max_ge [of 0 "map row_id rows"] have "fresh_id rows \<le> fold max (map row_id rows) 0"
    by blast
  then show False by (simp add: fresh_id_def)
qed

lemma distinct_filter_le1:
  "distinct (map f xs) \<Longrightarrow> length (filter (\<lambda>x. f x = y) xs) \<le> 1"
proof (induction xs)
  case Nil
  then show ?case by simp
next
  case (Cons x xs)
  show ?case
  proof (cases "f x = y")
    case True
    with Cons.prems have "y \<notin> f ` set xs" by auto
    then have "filter (\<lambda>x. f x = y) xs = []"
      by (auto simp: filter_empty_conv)
    with True show ?thesis by simp
  next
    case False
    with Cons show ?thesis by simp
  qed
qed

lemma rows_of_kind_le1:
  assumes "unique_together rows"
  shows "length (rows_of_kind p k rows) \<le> 1"
proof -
  have "rows_of_kind p k rows = filter (\<lambda>r. (project r, content_type r) = (p, k)) rows"
    by (simp add: rows_of_kind_def)
  then show ?thesis
    using distinct_filter_le1 [of "\<lambda>r. (project r, content_type r)" rows "(p, k)"] assms
    by (simp add: unique_together_def)
qed

lemma map_map_same:
  "(\<forall>x \<in> set xs. f (g x) = f x) \<Longrightarrow> map f (map g xs) = map f xs"
  by (induction xs) auto

lemma save_content_mem: "r \<in> set (save_content r rows)"
proof (cases "row_id r \<in> row_id ` set rows")
  case True
  then obtain x where "x \<in> set rows" "row_id x = row_id r" by auto
  then have "r \<in> (\<lambda>x. if row_id x = row_id r then r else x) ` set rows"
    by force
  with True show ?thesis by (simp add: save_content_def)
next
  case False
  then show ?thesis by (simp add: save_content_def)
qed

lemma save_content_same:
  assumes "primary_key rows" and "r0 \<in> set rows" and "same_row r r0"
  shows "map row_id (save_content r rows) = map row_id rows
         \<and> map (\<lambda>r. (project r, content_type r)) (save_content r rows)
             = map (\<lambda>r. (project r, content_type r)) rows
         \<and> save_content r rows = map (\<lambda>x. if row_id x = row_id r then r else x) rows"
proof -
  let ?g = "\<lambda>x. if row_id x = row_id r then r else x"
  have inj: "inj_on row_id (set rows)"
    using assms(1) by (simp add: primary_key_def distinct_map)
  have only: "\<forall>x \<in> set rows. row_id x = row_id r \<longrightarrow> x = r0"
    using inj assms(2,3) by (auto simp: same_row_def dest: inj_onD)
  have m: "row_id r \<in> row_id ` set rows"
    using assms(2,3) by (auto simp: same_row_def)
  then have s: "save_content r rows = map ?g rows"
    by (simp add: save_content_def)
  have a: "\<forall>x \<in> set rows. row_id (?g x) = row_id x"
    by simp
  have b: "\<forall>x \<in> set rows. (project (?g x), content_type (?g x)) = (project x, content_type x)"
    using only assms(3) by (auto simp: same_row_def)
  show ?thesis
    using map_map_same [OF a] map_map_same [of rows "\<lambda>r. (project r, content_type r)" ?g, OF b] s
    by simp
qed

lemma save_content_ok:
  assumes "table_ok rows" and "r0 \<in> set rows" and "same_row r r0"
  shows "table_ok (save_content r rows) \<and> length (save_content r rows) = length rows"
proof -
  from assms(1) have pk: "primary_key rows" by (simp add: table_ok_def)
  from save_content_same [OF pk assms(2,3)]
  have a: "map row_id (save_content r rows) = map row_id rows"
    and b: "map (\<lambda>r. (project r, content_type r)) (save_content r rows)
              = map (\<lambda>r. (project r, content_type r)) rows"
    by blast+
  have "unique_together (save_content r rows)"
    unfolding unique_together_def b using assms(1) by (simp add: table_ok_def unique_together_def)
  moreover have "primary_key (save_content r rows)"
    unfolding primary_key_def a using pk by (simp add: primary_key_def)
  moreover have "length (save_content r rows) = length rows"
    using a by (metis length_map)
  ultimately show ?thesis by (simp add: table_ok_def)
qed

lemma rows_of_kind_mem:
  "rows_of_kind p k rows = [r0] \<Longrightarrow> r0 \<in> set rows \<and> project r0 = p \<and> content_type r0 = k"
proof -
  assume "rows_of_kind p k rows = [r0]"
  then have "r0 \<in> set (filter (\<lambda>r. project r = p \<and> content_type r = k) rows)"
    by (simp add: rows_of_kind_def)
  then show ?thesis by simp
qed

lemma update_or_create_ok:
  assumes ok: "table_ok rows"
    and u: "update_or_create e pid ct rows = ((res, ops), rows')"
  shows "table_ok rows'
         \<and> (\<forall>r c. res = Inr (r, c) \<longrightarrow>
               r \<in> set rows' \<and> project r = pid \<and> content_type r = ct
               \<and> task_status r = PENDING \<and> s3_url r = None)"
proof (cases "fails e (DbContentUpdateOrCreate pid ct)")
  case (Some x)
  with u ok show ?thesis by (auto simp: update_or_create_def call_simps)
next
  case None
  show ?thesis
  proof (cases "rows_of_kind pid ct rows")
    case Nil
    let ?r = "\<lparr>row_id = fresh_id rows, project = pid, content_type = ct,
               s3_url = None, task_id = None, task_status = PENDING\<rparr>"
    from Nil u None have r: "rows' = rows @ [?r]" and e: "res = Inr (?r, True)"
      by (auto simp: update_or_create_def call_simps rows_of_kind_def Let_def)
    from Nil have "(pid, ct) \<notin> (\<lambda>r. (project r, content_type r)) ` set rows"
      by (auto simp: rows_of_kind_def filter_empty_conv)
    then have "table_ok (rows @ [?r])"
      using ok fresh_id_notin [of rows]
      by (simp add: table_ok_def unique_together_def primary_key_def)
    with r e show ?thesis by simp
  next
    case (Cons r0 rest)
    with rows_of_kind_le1 [of rows pid ct] ok have one: "rows_of_kind pid ct rows = [r0]"
      by (simp add: table_ok_def)
    let ?r = "r0\<lparr>task_status := PENDING, s3_url := None\<rparr>"
    from one u None have r: "rows' = save_content ?r rows" and e: "res = Inr (?r, False)"
      by (auto simp: update_or_create_def call_simps rows_of_kind_def Let_def)
    from rows_of_kind_mem [OF one] have m: "r0 \<in> set rows" "project r0 = pid" "content_type r0 = ct"
      by simp_all
    have "same_row ?r r0" by (simp add: same_row_def)
    from save_content_ok [OF ok m(1) this] r e m save_content_mem [of ?r rows]
    show ?thesis by simp
  qed
qed

lemma accept_request_ok:
  assumes ok: "table_ok (contents w)"
  shows "table_ok (contents (snd (accept_request e proj ct opts w)))"
proof -
  obtain res ops rows' where u: "update_or_create e (project_id proj) ct (contents w) = ((res, ops), rows')"
    by (cases "update_or_create e (project_id proj) ct (contents w)") auto
  from update_or_create_ok [OF ok u] have t: "table_ok rows'"
    and m: "\<forall>r c. res = Inr (r, c) \<longrightarrow> r \<in> set rows'"
    by blast+
  show ?thesis
  proof (cases res)
    case (Inl x)
    with u t show ?thesis by (simp add: accept_request_def)
  next
    case (Inr rc)
    obtain r c where rc: "rc = (r, c)" by (cases rc)
    with Inr m have mem: "r \<in> set rows'" by blast
    let ?tid = "new_task_id e (trace_of w @ ops @ [Delay (row_id r) opts])"
    have "same_row (r\<lparr>task_id := Some ?tid\<rparr>) r" by (simp add: same_row_def)
    from save_content_ok [OF t mem this] t u Inr rc
    show ?thesis
      by (cases "fails e (Delay (row_id r) opts)";
          cases "fails e (DbContentSave (r\<lparr>task_id := Some ?tid\<rparr>))")
         (simp_all add: accept_request_def call_simps Let_def)
  qed
qed

lemma generate_content_ok:
  assumes ok: "table_ok (contents w)"
  shows "table_ok (contents (snd (generate_content e u pk data w)))"
proof -
  have a: "\<And>proj ct opts ps tr.
             table_ok (contents (snd (accept_request e proj ct opts (w\<lparr>profiles := ps, trace_of := tr\<rparr>))))"
    using accept_request_ok [of "w\<lparr>profiles := _, trace_of := _\<rparr>" e] ok by simp
  show ?thesis
    using ok a
    by (auto simp: generate_content_def Let_def split: prod.splits sum.splits option.splits)
qed

lemma try_block_ok:
  assumes ok: "table_ok (contents w)" and m: "cr \<in> set (contents w)"
  shows "table_ok (contents (snd (try_block e cr proj opts w)))"
proof -
  let ?rows = "contents w"
  have f: "\<And>u. table_ok (save_content (cr\<lparr>task_status := FAILURE\<rparr>) ?rows)"
    using save_content_ok [OF ok m, of "cr\<lparr>task_status := FAILURE\<rparr>"] by (simp add: same_row_def)
  have s: "\<And>url. table_ok (save_content (cr\<lparr>s3_url := Some url, task_status := SUCCESS\<rparr>) ?rows)"
    using save_content_ok [OF ok m, of "cr\<lparr>s3_url := Some _, task_status := SUCCESS\<rparr>"]
    by (simp add: same_row_def)
  have fs: "\<And>url. table_ok (save_content (cr\<lparr>s3_url := Some url, task_status := FAILURE\<rparr>)
                        (save_content (cr\<lparr>s3_url := Some url, task_status := SUCCESS\<rparr>) ?rows))"
  proof -
    fix url
    let ?ok = "cr\<lparr>s3_url := Some url, task_status := SUCCESS\<rparr>"
    have "same_row (cr\<lparr>s3_url := Some url, task_status := FAILURE\<rparr>) ?ok"
      by (simp add: same_row_def)
    from save_content_ok [OF s [of url] save_content_mem [of ?ok ?rows] this]
    show "table_ok (save_content (cr\<lparr>s3_url := Some url, task_status := FAILURE\<rparr>)
                        (save_content ?ok ?rows))"
      by simp
  qed
  have sf: "\<And>url. table_ok (save_content (cr\<lparr>s3_url := Some url, task_status := FAILURE\<rparr>) ?rows)"
    using save_content_ok [OF ok m, of "cr\<lparr>s3_url := Some _, task_status := FAILURE\<rparr>"]
    by (simp add: same_row_def)
  show ?thesis
    using ok f s fs sf
    by (auto simp: try_block_def finish_def on_exception_def Let_def call_def
          split: prod.splits sum.splits option.splits)
qed

lemma job_ok:
  assumes ok: "table_ok (contents w)"
  shows "table_ok (contents (snd (generate_content_task e i opts w)))"
proof (cases "before_try e i w")
  case (Pair r w1)
  show ?thesis
  proof (cases r)
    case (Inl x)
    with Pair before_try_raise [of e i w x w1 opts] ok show ?thesis by simp
  next
    case (Inr cp)
    obtain cr proj where cp: "cp = (cr, proj)" by (cases cp)
    from before_try_Inr [of e i w cr proj w1] Pair Inr cp
    have r: "row_with i (contents w) = [cr]" and c: "contents w1 = contents w" by simp_all
    have "cr \<in> set (filter (\<lambda>r. row_id r = i) (contents w))"
      using r by (simp add: row_with_def)
    then have m: "cr \<in> set (contents w1)" using c by simp
    from try_block_ok [of w1 cr e proj opts] ok c m Pair Inr cp
    show ?thesis by (simp add: generate_content_task_def)
  qed
qed

lemma accept_audio_request_ok:
  assumes ok: "table_ok (contents w)"
  shows "table_ok (contents (snd (accept_audio_request e proj opts w)))"
proof -
  obtain res ops rows' where
    u: "update_or_create e (project_id proj) PODCAST (contents w) = ((res, ops), rows')"
    by (cases "update_or_create e (project_id proj) PODCAST (contents w)") auto
  from update_or_create_ok [OF ok u] have t: "table_ok rows'"
    and m: "\<forall>r c. res = Inr (r, c) \<longrightarrow> r \<in> set rows'"
    by blast+
  show ?thesis
  proof (cases res)
    case (Inl x)
    with u t show ?thesis by (simp add: accept_audio_request_def)
  next
    case (Inr rc)
    obtain r c where rc: "rc = (r, c)" by (cases rc)
    with Inr m have mem: "r \<in> set rows'" by blast
    let ?tid = "new_task_id e (trace_of w @ ops @ [DelayAudio (row_id r) opts])"
    have "same_row (r\<lparr>task_id := Some ?tid\<rparr>) r" by (simp add: same_row_def)
    from save_content_ok [OF t mem this] t u Inr rc
    show ?thesis
      by (cases "fails e (DelayAudio (row_id r) opts)";
          cases "fails e (DbContentSave (r\<lparr>task_id := Some ?tid\<rparr>))")
         (simp_all add: accept_audio_request_def call_simps Let_def)
  qed
qed

lemma generate_podcast_audio_ok:
  assumes ok: "table_ok (contents w)"
  shows "table_ok (contents (snd (generate_podcast_audio e u pk data w)))"
proof -
  have a: "\<And>proj opts tr.
             table_ok (contents (snd (accept_audio_request e proj opts (w\<lparr>trace_of := tr\<rparr>))))"
    using accept_audio_request_ok [of "w\<lparr>trace_of := _\<rparr>" e] ok by simp
  show ?thesis
    using ok a
    by (auto simp: generate_podcast_audio_def split: prod.splits sum.splits)
qed

lemma audio_task_ok:
  assumes ok: "table_ok (contents w)"
  shows "table_ok (contents (snd (generate_audio_task e i opts w)))"
proof (cases "load_row e i (contents w)")
  case (Pair r0 ops0)
  show ?thesis
  proof (cases r0)
    case (Inl x)
    with Pair ok show ?thesis by (simp add: generate_audio_task_def)
  next
    case (Inr cr)
    from load_row_Inr [of e i "contents w" cr ops0] Pair Inr
    have "row_with i (contents w) = [cr]" by simp
    then have "cr \<in> set (filter (\<lambda>r. row_id r = i) (contents w))"
      by (simp add: row_with_def)
    then have m: "cr \<in> set (contents w)" by simp
    let ?rows = "contents w"
    have f: "table_ok (save_content (cr\<lparr>task_status := FAILURE\<rparr>) ?rows)"
      using save_content_ok [OF ok m, of "cr\<lparr>task_status := FAILURE\<rparr>"]
      by (simp add: same_row_def)
    have s: "\<And>url. table_ok (save_content (cr\<lparr>s3_url := Some url, task_status := SUCCESS\<rparr>) ?rows)"
      using save_content_ok [OF ok m, of "cr\<lparr>s3_url := Some _, task_status := SUCCESS\<rparr>"]
      by (simp add: same_row_def)
    have fs: "\<And>url. table_ok (save_content (cr\<lparr>s3_url := Some url, task_status := FAILURE\<rparr>)
                          (save_content (cr\<lparr>s3_url := Some url, task_status := SUCCESS\<rparr>) ?rows))"
    proof -
      fix url
      let ?ok = "cr\<lparr>s3_url := Some url, task_status := SUCCESS\<rparr>"
      have "same_row (cr\<lparr>s3_url := Some url, task_status := FAILURE\<rparr>) ?ok"
        by (simp add: same_row_def)
      from save_content_ok [OF s [of url] save_content_mem [of ?ok ?rows] this]
      show "table_ok (save_content (cr\<lparr>s3_url := Some url, task_status := FAILURE\<rparr>)
                          (save_content ?ok ?rows))"
        by simp
    qed
    have sf: "\<And>url. table_ok (save_content (cr\<lparr>s3_url := Some url, task_status := FAILURE\<rparr>) ?rows)"
      using save_content_ok [OF ok m, of "cr\<lparr>s3_url := Some _, task_status := FAILURE\<rparr>"]
      by (simp add: same_row_def)
    show ?thesis
      using Pair Inr ok f s fs sf
      by (auto simp: generate_audio_task_def audio_finish_def on_exception_def Let_def call_def
            split: prod.splits sum.splits option.splits)
  qed
qed

lemma reachable_ok: "reachable w \<Longrightarrow> table_ok (contents w)"
proof (induction rule: reachable.induct)
  case (start w)
  then show ?case by (simp add: table_ok_def unique_together_def primary_key_def)
next
  case (request w e u pk data)
  then show ?case by (simp add: generate_content_ok)
next
  case (job w e i opts)
  then show ?case by (simp add: job_ok)
next
  case (audio_request w e u pk data)
  then show ?case by (simp add: generate_podcast_audio_ok)
next
  case (audio_job w e i opts)
  then show ?case by (simp add: audio_task_ok)
qed

subsection \<open>Accepted requests\<close>

lemma serializer_map_kind:
  "serializer_map (Some (VStr s)) = Some (ct, ser) \<Longrightarrow> ct = s"
  by (auto simp: serializer_map_def split: if_splits)

lemma accept_request_202:
  assumes "fst (accept_request e proj ct opts w) = Inr resp"
  shows "\<exists>r c ops rows1 tid.
           update_or_create e (project_id proj) ct (contents w) = ((Inr (r, c), ops), rows1)
           \<and> contents (snd (accept_request e proj ct opts w))
               = save_content (r\<lparr>task_id := Some tid\<rparr>) rows1
           \<and> trace_of (snd (accept_request e proj ct opts w))
               = trace_of w @ ops @ [Delay (row_id r) opts, DbContentSave (r\<lparr>task_id := Some tid\<rparr>)]
           \<and> resp = accepted_response ct tid (row_id r)"
proof -
  obtain res ops rows1 where u: "update_or_create e (project_id proj) ct (contents w) = ((res, ops), rows1)"
    by (cases "update_or_create e (project_id proj) ct (contents w)") auto
  from assms u obtain r c where res: "res = Inr (r, c)"
    by (cases res) (auto simp: accept_request_def)
  let ?tid = "new_task_id e (trace_of w @ ops @ [Delay (row_id r) opts])"
  from assms u res have d: "fails e (Delay (row_id r) opts) = None"
    by (cases "fails e (Delay (row_id r) opts)") (auto simp: accept_request_def call_simps)
  from assms u res d have s: "fails e (DbContentSave (r\<lparr>task_id := Some ?tid\<rparr>)) = None"
    by (cases "fails e (DbContentSave (r\<lparr>task_id := Some ?tid\<rparr>))")
       (auto simp: accept_request_def call_simps Let_def)
  have "accept_request e proj ct opts w
          = (Inr (accepted_response ct ?tid (row_id r)),
             w\<lparr>contents := save_content (r\<lparr>task_id := Some ?tid\<rparr>) rows1,
               trace_of := trace_of w @ ops @ [Delay (row_id r) opts]
                             @ [DbContentSave (r\<lparr>task_id := Some ?tid\<rparr>)]\<rparr>)"
    using u res d s by (simp add: accept_request_def call_simps Let_def)
  with assms u res show ?thesis by auto
qed

lemma generate_content_202:
  assumes "fst (generate_content e u pk data w) = Inr (Response body HTTP_202_ACCEPTED)"
  shows "\<exists>proj ct ser opts w1.
           project_id proj = pk \<and> user proj = u
           \<and> serializer_map (map_of data ''content_type'') = Some (ct, ser)
           \<and> ser e data = Inr opts
           \<and> contents w1 = contents w
           \<and> (\<exists>ops. trace_of w1 = trace_of w @ ops \<and> (\<forall>j os. Delay j os \<notin> set ops))
           \<and> generate_content e u pk data w = accept_request e proj ct opts w1"
proof -
  obtain r0 ops0 where g: "get_object e u pk (projects w) = (r0, ops0)"
    by (cases "get_object e u pk (projects w)")
  from assms g obtain proj where r0: "r0 = Inr proj"
    by (cases r0) (auto simp: generate_content_def)
  from get_object_Inr [of e u pk "projects w" proj ops0] g r0
  have p: "project_id proj = pk" "user proj = u" "ops0 = [DbProjectGet pk]" by simp_all
  obtain r1 ops1 ps where c: "profile_get_or_create e (user proj) (profiles w) = ((r1, ops1), ps)"
    by (cases "profile_get_or_create e (user proj) (profiles w)") auto
  from assms g r0 c obtain prof created where r1: "r1 = Inr (prof, created)"
    by (cases r1) (auto simp: generate_content_def Let_def)
  have o1: "ops1 = [DbProfileGetOrCreate (user proj)]"
    using c by (auto simp: profile_get_or_create_def call_def Let_def
                  split: option.splits list.splits)
  let ?w1 = "w\<lparr>profiles := ps, trace_of := trace_of w @ ops0 @ ops1\<rparr>"
  from assms g r0 c r1 have b: "\<not> token_balance prof < 900"
    by (auto simp: generate_content_def Let_def insufficient_tokens_def
          HTTP_400_BAD_REQUEST_def HTTP_202_ACCEPTED_def split: if_splits)
  from assms g r0 c r1 b obtain ct ser where
    sm: "serializer_map (map_of data ''content_type'') = Some (ct, ser)"
    by (cases "serializer_map (map_of data ''content_type'')")
       (auto simp: generate_content_def Let_def invalid_content_type_def
          HTTP_400_BAD_REQUEST_def HTTP_202_ACCEPTED_def)
  from assms g r0 c r1 b sm obtain opts where v: "ser e data = Inr opts"
    by (cases "ser e data") (auto simp: generate_content_def Let_def)
  have "generate_content e u pk data w = accept_request e proj ct opts ?w1"
    using g r0 c r1 b sm v by (simp add: generate_content_def Let_def)
  moreover have "\<forall>j os. Delay j os \<notin> set (ops0 @ ops1)"
    using p(3) o1 by simp
  ultimately show ?thesis
    using p sm v by (intro exI [of _ proj] exI [of _ ct] exI [of _ ser] exI [of _ opts] exI [of _ ?w1]) auto
qed

lemma request_replaces_in_place:
  assumes ok: "table_ok (contents w)"
    and r0: "r0 \<in> set (contents w)"
    and acc: "fst (generate_content e u pk data w) = Inr (Response body HTTP_202_ACCEPTED)"
    and ct: "map_of data ''content_type'' = Some (VStr (content_type r0))"
    and pr: "project r0 = pk"
  shows "\<exists>tid. contents (snd (generate_content e u pk data w))
                 = map (\<lambda>x. if row_id x = row_id r0
                             then r0\<lparr>task_status := PENDING, s3_url := None, task_id := Some tid\<rparr>
                             else x) (contents w)"
proof -
  from generate_content_202 [OF acc] obtain proj k ser opts w1 where
    p: "project_id proj = pk" and sm: "serializer_map (map_of data ''content_type'') = Some (k, ser)"
    and c: "contents w1 = contents w"
    and g: "generate_content e u pk data w = accept_request e proj k opts w1"
    by blast
  from sm ct have k: "k = content_type r0"
    using serializer_map_kind by simp
  from acc g have "fst (accept_request e proj k opts w1) = Inr (Response body HTTP_202_ACCEPTED)"
    by simp
  from accept_request_202 [OF this] obtain r cflag ops rows1 tid where
    u: "update_or_create e (project_id proj) k (contents w1) = ((Inr (r, cflag), ops), rows1)"
    and s: "contents (snd (accept_request e proj k opts w1))
              = save_content (r\<lparr>task_id := Some tid\<rparr>) rows1"
    by blast
  let ?rows = "contents w"
  from ok have uq: "unique_together ?rows" and pkey: "primary_key ?rows"
    by (simp_all add: table_ok_def)
  have "r0 \<in> set (rows_of_kind pk (content_type r0) ?rows)"
    using r0 pr by (simp add: rows_of_kind_def)
  with rows_of_kind_le1 [OF uq, of pk "content_type r0"]
  have one: "rows_of_kind pk (content_type r0) ?rows = [r0]"
    by (cases "rows_of_kind pk (content_type r0) ?rows") auto
  let ?r = "r0\<lparr>task_status := PENDING, s3_url := None\<rparr>"
  from u one p k c have f: "fails e (DbContentUpdateOrCreate pk (content_type r0)) = None"
    by (cases "fails e (DbContentUpdateOrCreate pk (content_type r0))")
       (auto simp: update_or_create_def call_simps)
  from u one p k c f have r: "r = ?r" and rows1: "rows1 = save_content ?r ?rows"
    by (auto simp: update_or_create_def call_simps rows_of_kind_def Let_def)
  have sr: "same_row ?r r0" by (simp add: same_row_def)
  from save_content_same [OF pkey r0 sr]
  have m1: "save_content ?r ?rows = map (\<lambda>x. if row_id x = row_id r0 then ?r else x) ?rows"
    by simp
  let ?r' = "r0\<lparr>task_status := PENDING, s3_url := None, task_id := Some tid\<rparr>"
  from save_content_ok [OF ok r0 sr] have ok1: "table_ok (save_content ?r ?rows)" by simp
  then have pk1: "primary_key (save_content ?r ?rows)" by (simp add: table_ok_def)
  have sr': "same_row ?r' ?r" by (simp add: same_row_def)
  from save_content_same [OF pk1 save_content_mem [of ?r ?rows] sr']
  have m2: "save_content ?r' (save_content ?r ?rows)
              = map (\<lambda>x. if row_id x = row_id r0 then ?r' else x) (save_content ?r ?rows)"
    by simp
  have "contents (snd (generate_content e u pk data w)) = save_content ?r' (save_content ?r ?rows)"
    using g s r rows1 by simp
  also have "\<dots> = map (\<lambda>x. if row_id x = row_id r0 then ?r' else x) ?rows"
    unfolding m2 unfolding m1 by (simp add: comp_def)
  finally show ?thesis by blast
qed

lemma map_replace_row_with:
  assumes "primary_key rows" and "r0 \<in> set rows" and "row_id r = row_id r0"
  shows "row_with (row_id r0) (map (\<lambda>x. if row_id x = row_id r0 then r else x) rows) = [r]"
proof -
  have inj: "inj_on row_id (set rows)"
    using assms(1) by (simp add: primary_key_def distinct_map)
  have "filter (\<lambda>x. row_id x = row_id r0) rows = [r0]"
    using assms(1,2)
  proof (induction rows)
    case Nil
    then show ?case by simp
  next
    case (Cons a rows)
    show ?case
    proof (cases "a = r0")
      case True
      with Cons.prems have "row_id r0 \<notin> row_id ` set rows" by (simp add: primary_key_def)
      then have "\<forall>x \<in> set rows. row_id x \<noteq> row_id r0"
        by (metis image_eqI)
      then have "filter (\<lambda>x. row_id x = row_id r0) rows = []"
        by (simp add: filter_empty_conv)
      with True show ?thesis by simp
    next
      case False
      with Cons.prems have m: "r0 \<in> set rows" and p: "primary_key rows"
        and "row_id a \<notin> row_id ` set rows"
        by (simp_all add: primary_key_def)
      then have "row_id a \<noteq> row_id r0" by force
      with Cons.IH [OF p m] show ?thesis by simp
    qed
  qed
  then have "row_with (row_id r0) rows = [r0]" by (simp add: row_with_def)
  from save_content_row_with [OF this assms(3)]
  have a: "row_with (row_id r0) (save_content r rows) = [r]" .
  have "row_id r \<in> row_id ` set rows"
    using assms(2,3) by (metis image_eqI)
  then have "save_content r rows = map (\<lambda>x. if row_id x = row_id r0 then r else x) rows"
    using assms(3) by (simp add: save_content_def)
  with a show ?thesis by simp
qed

lemma rows_of_kind_the_row:
  assumes "unique_together rows" and "r \<in> set rows"
  shows "rows_of_kind (project r) (content_type r) rows = [r]"
proof -
  have "r \<in> set (rows_of_kind (project r) (content_type r) rows)"
    using assms(2) by (simp add: rows_of_kind_def)
  with rows_of_kind_le1 [OF assms(1), of "project r" "content_type r"] show ?thesis
    by (cases "rows_of_kind (project r) (content_type r) rows") auto
qed

subsection \<open>The concrete history\<close>

lemma str_nat_1: "str_nat 1 = ''1''"
  by (simp add: digit_char_def)

lemma after_request_rows:
  "contents after_request = [pending_row] \<and> projects after_request = [notes_project]
   \<and> profiles after_request = [\<lparr>profile_user = 7, token_balance = 50000\<rparr>]"
  by (simp add: after_request_def generate_content_def get_object_def accept_request_def
        update_or_create_def fresh_id_def serializer_map_def PresentationGenerateSerializer_def
        validated3_def choice_field_def integer_field_def boolean_field_def slides_request_def
        empty_store_def eval_env eval_store eval_io eval_job str_nat.simps [of 4] digit_char_def)

lemma after_job_rows:
  "contents after_job = [success_row] \<and> projects after_job = [notes_project]
   \<and> profiles after_job = [\<lparr>profile_user = 7, token_balance = 49997\<rparr>]"
  using after_request_rows
  by (simp add: after_job_def success_row_def slides_options_def
        eval_env eval_store eval_io eval_job eval_strings str_nat_1
        calculate_cost_def generate_ppt_from_text_def dict_get_def)

subsection \<open>Podcast requests\<close>

lemma update_or_create_upserts:
  assumes "fails e (DbContentUpdateOrCreate pid ct) = None"
    and "length (rows_of_kind pid ct rows) \<le> 1"
  shows "\<exists>r c rows'. update_or_create e pid ct rows
                        = ((Inr (r, c), [DbContentUpdateOrCreate pid ct]), rows')
           \<and> project r = pid \<and> content_type r = ct \<and> task_status r = PENDING \<and> s3_url r = None"
proof (cases "rows_of_kind pid ct rows")
  case Nil
  with assms(1) show ?thesis
    by (auto simp: update_or_create_def call_simps rows_of_kind_def Let_def)
next
  case (Cons r0 rest)
  with assms(2) have one: "rows_of_kind pid ct rows = [r0]" by simp
  from rows_of_kind_mem [OF one] have "project r0 = pid" "content_type r0 = ct" by simp_all
  with one assms(1) show ?thesis
    by (auto simp: update_or_create_def call_simps rows_of_kind_def Let_def)
qed

lemma request_accepted:
  assumes go: "fst (get_object e u pk (projects w)) = Inr proj"
    and gc: "fst (fst (profile_get_or_create e (user proj) (profiles w))) = Inr (p, c)"
    and bal: "900 \<le> token_balance p"
    and sm: "serializer_map (map_of data ''content_type'') = Some (ct, ser)"
    and v: "ser e data = Inr opts"
    and uf: "fails e (DbContentUpdateOrCreate (project_id proj) ct) = None"
    and le: "length (rows_of_kind (project_id proj) ct (contents w)) \<le> 1"
    and d: "\<forall>j. fails e (Delay j opts) = None"
    and s: "\<forall>r. fails e (DbContentSave r) = None"
  shows "\<exists>tid r. fst (generate_content e u pk data w) = Inr (accepted_response ct tid (row_id r))
           \<and> Delay (row_id r) opts \<in> set (trace_of (snd (generate_content e u pk data w)))
           \<and> r \<in> set (contents (snd (generate_content e u pk data w)))
           \<and> project r = pk \<and> content_type r = ct \<and> task_status r = PENDING"
proof -
  from go obtain ops0 where g: "get_object e u pk (projects w) = (Inr proj, ops0)"
    by (cases "get_object e u pk (projects w)") auto
  from get_object_Inr [OF g] have pk: "project_id proj = pk" by simp
  from gc obtain ops1 ps where
    c: "profile_get_or_create e (user proj) (profiles w) = ((Inr (p, c), ops1), ps)"
    by (cases "profile_get_or_create e (user proj) (profiles w)") auto
  let ?w1 = "w\<lparr>profiles := ps, trace_of := trace_of w @ ops0 @ ops1\<rparr>"
  have j: "generate_content e u pk data w = accept_request e proj ct opts ?w1"
    using g c bal sm v by (simp add: generate_content_def Let_def)
  from update_or_create_upserts [OF uf le] obtain r cf rows' where
    u: "update_or_create e (project_id proj) ct (contents w)
          = ((Inr (r, cf), [DbContentUpdateOrCreate (project_id proj) ct]), rows')"
    and f: "project r = project_id proj" "content_type r = ct" "task_status r = PENDING"
    by blast
  let ?tr = "trace_of w @ ops0 @ ops1 @ [DbContentUpdateOrCreate (project_id proj) ct]
               @ [Delay (row_id r) opts]"
  let ?tid = "new_task_id e ?tr"
  let ?r = "r\<lparr>task_id := Some ?tid\<rparr>"
  have a: "accept_request e proj ct opts ?w1
             = (Inr (accepted_response ct ?tid (row_id r)),
                ?w1\<lparr>contents := save_content ?r rows',
                     trace_of := ?tr @ [DbContentSave ?r]\<rparr>)"
    using u d s by (simp add: accept_request_def call_simps Let_def)
  have "fst (generate_content e u pk data w) = Inr (accepted_response ct ?tid (row_id ?r))"
    by (simp add: j a)
  moreover have "Delay (row_id ?r) opts \<in> set (trace_of (snd (generate_content e u pk data w)))"
    by (simp add: j a)
  moreover have "?r \<in> set (contents (snd (generate_content e u pk data w)))"
    using save_content_mem [of ?r rows'] by (simp add: j a)
  moreover have "project ?r = pk \<and> content_type ?r = ct \<and> task_status ?r = PENDING"
    using f pk by simp
  ultimately show ?thesis by blast
qed

lemma dispatch_podcast: "dispatch_generation e PODCAST t opts = (Inr (None, 0), [])"
  by (simp add: dispatch_generation_def PODCAST_def PRESENTATION_def FLASHCARDS_def MCQ_SET_def
        ret_def)

lemma pipeline_podcast:
  assumes k: "content_type cr = PODCAST"
    and d: "fst (download_file_from_s3 e (s3_file_key proj)) = Inr local"
    and x: "fst (extract_text_from_file e local) = Inr t"
    and t: "py_strip t \<noteq> []"
  shows "pipeline e cr proj opts ps
           = ((Inl (ValueError ''Content generation failed.''),
               snd (download_file_from_s3 e (s3_file_key proj))
                 @ snd (extract_text_from_file e local)), ps)"
proof -
  obtain ops_d where dd: "download_file_from_s3 e (s3_file_key proj) = (Inr local, ops_d)"
    using d by (cases "download_file_from_s3 e (s3_file_key proj)") auto
  obtain ops_e where xx: "extract_text_from_file e local = (Inr t, ops_e)"
    using x by (cases "extract_text_from_file e local") auto
  have "produce e cr proj opts = (Inr (None, 0), ops_d @ ops_e)"
    using t by (simp add: produce_def dd xx and_then_def k dispatch_podcast)
  then show ?thesis
    by (simp add: pipeline_def settle_if_positive_def ret_def deliver_def lift_def dd xx)
qed

section \<open>Cost accounting: results\<close>

text \<open>
  Claim C5. calculate\_cost is a function of its arguments alone. For a model whose price
  entry holds an input and an output price it returns
  prompt\_tokens * input price + completion\_tokens * output price, for every usage
  record; for a model with no price entry it returns zero, for every usage record.
\<close>

theorem calculate_cost_formula:
  "(map_of table m = Some pricing \<and> map_of pricing ''input'' = Some pin
      \<and> map_of pricing ''output'' = Some pout
    \<longrightarrow> calculate_cost table m u
          = Inr (of_int (prompt_tokens u) * pin + of_int (completion_tokens u) * pout))
   \<and> (map_of table m = None \<longrightarrow> calculate_cost table m u = Inr 0)"
  by (auto simp: calculate_cost_def)

text \<open>A priced model and an unknown one.\<close>

theorem calculate_cost_formula_witness:
  "calculate_cost sample_pricing ''gpt-5-nano'' sample_usage = Inr (3 / 10000)
   \<and> calculate_cost sample_pricing ''gpt-4o'' sample_usage = Inr 0"
proof -
  have a: "map_of sample_pricing ''gpt-5-nano''
             = Some [(''input'', 1 / 20000000), (''output'', 1 / 2500000)]"
    by (simp add: sample_pricing_def)
  have b: "map_of [(''input'', 1 / 20000000 :: rat), (''output'', 1 / 2500000)] ''input''
             = Some (1 / 20000000)"
    by simp
  have c: "map_of [(''input'', 1 / 20000000 :: rat), (''output'', 1 / 2500000)] ''output''
             = Some (1 / 2500000)"
    by simp
  have d: "map_of sample_pricing ''gpt-4o'' = None"
    by (simp add: sample_pricing_def)
  from calculate_cost_formula [of sample_pricing "''gpt-5-nano''" _ _ _ sample_usage] a b c
  have "calculate_cost sample_pricing ''gpt-5-nano'' sample_usage
          = Inr (of_int (prompt_tokens sample_usage) * (1 / 20000000)
                 + of_int (completion_tokens sample_usage) * (1 / 2500000))"
    by blast
  moreover from calculate_cost_formula [of sample_pricing "''gpt-4o''" _ _ _ sample_usage] d
  have "calculate_cost sample_pricing ''gpt-4o'' sample_usage = Inr 0"
    by blast
  ultimately show ?thesis
    by (simp add: sample_usage_def)
qed

section \<open>Podcast voices: results\<close>

lemma voice_keys_distinct: "distinct (map fst voice_map)"
  by (simp add: voice_map_def)

lemma voice_name_eq:
  "voice_name opts =
     (case map_of voice_map (dict_get opts ''voice_accent'' (VStr ''american''),
                             dict_get opts ''voice_gender'' (VStr ''female''),
                             dict_get opts ''voice_style'' (VStr ''neutral'')) of
        None \<Rightarrow> ''en-US-AriaNeural'' | Some v \<Rightarrow> v)"
  by (simp add: voice_name_def)

text \<open>
  Claim C8. For every triple of voice options (accent, gender, style), each read with its
  default, the voice is the one the table gives for the triple, and every triple that is
  not in the table resolves to en-US-AriaNeural; resolving the voice raises nothing: when
  the speech engine and the file system do not fail, the audio routine returns the path
  of the audio file after synthesising with that voice.
\<close>

theorem voice_fallback:
  "(let key = (dict_get opts ''voice_accent'' (VStr ''american''),
               dict_get opts ''voice_gender'' (VStr ''female''),
               dict_get opts ''voice_style'' (VStr ''neutral''))
    in (key \<notin> fst ` set voice_map \<longrightarrow> voice_name opts = ''en-US-AriaNeural'')
       \<and> (\<forall>v. (key, v) \<in> set voice_map \<longrightarrow> voice_name opts = v))
   \<and> (fails e (Makedirs ''/tmp/podcasts/'') = None
        \<and> fails e (Synthesize script ''/tmp/podcasts/podcast.mp3'' (voice_name opts)) = None
      \<longrightarrow> generate_podcast_audio_from_script e script opts
            = (Inr ''/tmp/podcasts/podcast.mp3'',
               [Makedirs ''/tmp/podcasts/'',
                Synthesize script ''/tmp/podcasts/podcast.mp3'' (voice_name opts)]))"
proof -
  have p: "path_join ''/tmp/podcasts/'' ''podcast.mp3'' = ''/tmp/podcasts/podcast.mp3''"
    by (simp add: path_join_def)
  show ?thesis
    unfolding Let_def
  proof (intro conjI impI allI)
    assume "(dict_get opts ''voice_accent'' (VStr ''american''),
               dict_get opts ''voice_gender'' (VStr ''female''),
               dict_get opts ''voice_style'' (VStr ''neutral'')) \<notin> fst ` set voice_map"
    then show "voice_name opts = ''en-US-AriaNeural''"
      by (simp add: voice_name_eq map_of_eq_None_iff [symmetric])
  next
    fix v
    assume "((dict_get opts ''voice_accent'' (VStr ''american''),
               dict_get opts ''voice_gender'' (VStr ''female''),
               dict_get opts ''voice_style'' (VStr ''neutral'')), v) \<in> set voice_map"
    then show "voice_name opts = v"
      using map_of_is_SomeI [OF voice_keys_distinct] by (simp add: voice_name_eq)
  next
    assume "fails e (Makedirs ''/tmp/podcasts/'') = None
        \<and> fails e (Synthesize script ''/tmp/podcasts/podcast.mp3'' (voice_name opts)) = None"
    then show "generate_podcast_audio_from_script e script opts
            = (Inr ''/tmp/podcasts/podcast.mp3'',
               [Makedirs ''/tmp/podcasts/'',
                Synthesize script ''/tmp/podcasts/podcast.mp3'' (voice_name opts)])"
      by (simp add: generate_podcast_audio_from_script_def p call_simps and_then_Inl and_then_Inr ret_def Let_def)
  qed
qed

text \<open>The French accent falls back to the default; a British voice is found.\<close>

theorem voice_fallback_witness:
  "voice_name french_voice = ''en-US-AriaNeural''
   \<and> voice_name british_voice = ''en-GB-AlfieNeural''
   \<and> generate_podcast_audio_from_script calm_env (VStr ''Hello.'') french_voice
       = (Inr ''/tmp/podcasts/podcast.mp3'',
          [Makedirs ''/tmp/podcasts/'',
           Synthesize (VStr ''Hello.'') ''/tmp/podcasts/podcast.mp3'' ''en-US-AriaNeural''])"
proof -
  have k1: "(dict_get french_voice ''voice_accent'' (VStr ''american''),
             dict_get french_voice ''voice_gender'' (VStr ''female''),
             dict_get french_voice ''voice_style'' (VStr ''neutral''))
            = (VStr ''french'', VStr ''female'', VStr ''neutral'')"
    by (simp add: french_voice_def dict_get_def)
  have k2: "(dict_get british_voice ''voice_accent'' (VStr ''american''),
             dict_get british_voice ''voice_gender'' (VStr ''female''),
             dict_get british_voice ''voice_style'' (VStr ''neutral''))
            = (VStr ''british'', VStr ''male'', VStr ''conversational'')"
    by (simp add: british_voice_def dict_get_def)
  have n1: "(VStr ''french'', VStr ''female'', VStr ''neutral'') \<notin> fst ` set voice_map"
    by (simp add: voice_map_def)
  have n2: "((VStr ''british'', VStr ''male'', VStr ''conversational''), ''en-GB-AlfieNeural'')
              \<in> set voice_map"
    by (simp add: voice_map_def)
  have f: "fails calm_env = (\<lambda>op. None)"
    by (simp add: calm_env_def)
  have a: "voice_name french_voice = ''en-US-AriaNeural''"
    using voice_fallback [of french_voice calm_env "VStr ''Hello.''"] n1
    unfolding Let_def k1 by blast
  have b: "voice_name british_voice = ''en-GB-AlfieNeural''"
    using voice_fallback [of british_voice calm_env "VStr ''Hello.''"] n2
    unfolding Let_def k2 by blast
  have c: "generate_podcast_audio_from_script calm_env (VStr ''Hello.'') french_voice
       = (Inr ''/tmp/podcasts/podcast.mp3'',
          [Makedirs ''/tmp/podcasts/'',
           Synthesize (VStr ''Hello.'') ''/tmp/podcasts/podcast.mp3'' (voice_name french_voice)])"
    using voice_fallback [of french_voice calm_env "VStr ''Hello.''"]
    by (simp add: f)
  from a b c show ?thesis by simp
qed

section \<open>Validated options and the slide prompt\<close>

lemma slides_validated:
  assumes "PresentationGenerateSerializer e data = Inr opts"
  shows "\<exists>n b. opts = [(''content_type'', VStr ''PPT''), (''slides_count'', VInt n),
                         (''include_images'', VBool b)] \<and> 3 \<le> n \<and> n \<le> 20"
  using assms
  by (auto simp: PresentationGenerateSerializer_def validated3_def choice_field_def
        integer_field_def boolean_field_def
      split: sum.splits option.splits pyval.splits if_splits)

lemma ppt_first_op:
  "snd (generate_ppt_from_text e t opts) \<noteq> []
   \<and> hd (snd (generate_ppt_from_text e t opts))
       = ChatCompletion (SlidesPrompt (dict_get opts ''slide_count'' (VInt 8)) (take 8000 t))"
  by (cases "fails e (ChatCompletion (SlidesPrompt (dict_get opts ''slide_count'' (VInt 8)) (take 8000 t)))")
     (simp_all add: generate_ppt_from_text_def Let_def call_simps and_then_Inl and_then_Inr)

text \<open>
  Claim C9. For every validated presentation request the slide count of the prompt is the
  default 8, whatever \<open>slides_count\<close> (3 to 20) the caller sent: the validated data
  hold the value under \<open>slides_count\<close> and hold no key \<open>slide_count\<close>, which is the
  key the generator reads; the first operation of the generator is the completion call
  with the prompt for exactly 8 slides.
\<close>

theorem slide_count_option_ignored:
  assumes "PresentationGenerateSerializer e data = Inr opts"
  shows "(\<exists>n. map_of opts ''slides_count'' = Some (VInt n) \<and> 3 \<le> n \<and> n \<le> 20)
         \<and> map_of opts ''slide_count'' = None
         \<and> snd (generate_ppt_from_text e text_content opts) \<noteq> []
         \<and> hd (snd (generate_ppt_from_text e text_content opts))
             = ChatCompletion (SlidesPrompt (VInt 8) (take 8000 text_content))"
proof -
  from slides_validated [OF assms] obtain n b where
    o: "opts = [(''content_type'', VStr ''PPT''), (''slides_count'', VInt n),
                (''include_images'', VBool b)]" and n: "3 \<le> n" "n \<le> 20"
    by blast
  have g: "dict_get opts ''slide_count'' (VInt 8) = VInt 8"
    by (simp add: o dict_get_def)
  show ?thesis
    using ppt_first_op [of e text_content opts] n by (simp add: g) (simp add: o)
qed

text \<open>A request for 15 slides: the prompt asks for 8.\<close>

theorem slide_count_option_ignored_witness:
  "PresentationGenerateSerializer calm_env [(''content_type'', VStr ''PPT''), (''slides_count'', VInt 15)]
     = Inr [(''content_type'', VStr ''PPT''), (''slides_count'', VInt 15), (''include_images'', VBool False)]
   \<and> hd (snd (generate_ppt_from_text calm_env (text_of ''Cells divide.'')
               [(''content_type'', VStr ''PPT''), (''slides_count'', VInt 15), (''include_images'', VBool False)]))
       = ChatCompletion (SlidesPrompt (VInt 8) (take 8000 (text_of ''Cells divide.'')))"
proof -
  have v: "PresentationGenerateSerializer calm_env [(''content_type'', VStr ''PPT''), (''slides_count'', VInt 15)]
     = Inr [(''content_type'', VStr ''PPT''), (''slides_count'', VInt 15), (''include_images'', VBool False)]"
    by (simp add: PresentationGenerateSerializer_def validated3_def choice_field_def
        integer_field_def boolean_field_def calm_env_def scalar_int_def)
  from slide_count_option_ignored [OF v, of "text_of ''Cells divide.''"] v show ?thesis
    by simp
qed

section \<open>Text extraction: results\<close>

text \<open>
  Claim C7, as amended. Extraction dispatches on the file extension: a .pdf, .docx or
  .txt file is parsed by its parser, and any other extension gives the empty text without
  a parser being called (all this when removing the downloaded file does not fail). What
  a parser raises is raised by the extraction, not turned into the empty text. When the
  extraction raises, or returns a text that is empty or white space only, the job that
  has reached its try block ends with the exception (the ValueError of the empty-text
  check in the second case), the row is saved with status FAILURE and its other fields
  as loaded, and no completion call is among the operations of the job.
\<close>

theorem extraction_and_empty_text:
  "((path_exists e p \<longrightarrow> fails e (Remove p) = None) \<longrightarrow>
      (endswith p ''.pdf'' \<longrightarrow>
         fst (extract_text_from_file e p)
           = (case fails e (ReadPdf p) of
                Some x \<Rightarrow> Inl x
              | None \<Rightarrow> Inr (concat (map (\<lambda>pg. case pg of None \<Rightarrow> [] | Some t \<Rightarrow> t)
                                        (pdf_pages e p)))))
      \<and> (\<not> endswith p ''.pdf'' \<and> endswith p ''.docx'' \<longrightarrow>
           fst (extract_text_from_file e p)
             = (case fails e (ReadDocx p) of
                  Some x \<Rightarrow> Inl x
                | None \<Rightarrow> Inr (concat (map (\<lambda>t. t @ [10]) (docx_paragraphs e p)))))
      \<and> (\<not> endswith p ''.pdf'' \<and> \<not> endswith p ''.docx'' \<and> endswith p ''.txt'' \<longrightarrow>
           fst (extract_text_from_file e p)
             = (case fails e (ReadTxt p) of Some x \<Rightarrow> Inl x | None \<Rightarrow> Inr (txt_contents e p)))
      \<and> (\<not> endswith p ''.pdf'' \<and> \<not> endswith p ''.docx'' \<and> \<not> endswith p ''.txt'' \<longrightarrow>
           extract_text_from_file e p = (Inr [], if path_exists e p then [Remove p] else [])))
   \<and> (before_try e i w = (Inr (cr, proj), w1)
        \<and> fst (download_file_from_s3 e (s3_file_key proj)) = Inr local
        \<and> fst (extract_text_from_file e local) = r
        \<and> (case r of Inl x \<Rightarrow> True | Inr t \<Rightarrow> py_strip t = [])
        \<and> fails e (DbContentSave (cr\<lparr>task_status := FAILURE\<rparr>)) = None
      \<longrightarrow> fst (generate_content_task e i opts w)
            = Inl (case r of
                     Inl x \<Rightarrow> x
                   | Inr t \<Rightarrow> ValueError ''Extracted text is empty. Cannot generate content.'')
          \<and> row_with i (contents (snd (generate_content_task e i opts w)))
              = [cr\<lparr>task_status := FAILURE\<rparr>]
          \<and> (\<forall>pr. ChatCompletion pr
                    \<notin> set (drop (length (trace_of w))
                               (trace_of (snd (generate_content_task e i opts w))))))"
proof (intro conjI impI)
  assume c: "path_exists e p \<longrightarrow> fails e (Remove p) = None"
  note d = extraction_dispatch [OF c]
  { assume "endswith p ''.pdf''"
    with d show "fst (extract_text_from_file e p)
           = (case fails e (ReadPdf p) of
                Some x \<Rightarrow> Inl x
              | None \<Rightarrow> Inr (concat (map (\<lambda>pg. case pg of None \<Rightarrow> [] | Some t \<Rightarrow> t)
                                        (pdf_pages e p))))"
      by blast }
  { assume "\<not> endswith p ''.pdf'' \<and> endswith p ''.docx''"
    with d show "fst (extract_text_from_file e p)
             = (case fails e (ReadDocx p) of
                  Some x \<Rightarrow> Inl x
                | None \<Rightarrow> Inr (concat (map (\<lambda>t. t @ [10]) (docx_paragraphs e p))))"
      by blast }
  { assume "\<not> endswith p ''.pdf'' \<and> \<not> endswith p ''.docx'' \<and> endswith p ''.txt''"
    with d show "fst (extract_text_from_file e p)
             = (case fails e (ReadTxt p) of Some x \<Rightarrow> Inl x | None \<Rightarrow> Inr (txt_contents e p))"
      by blast }
  { assume "\<not> endswith p ''.pdf'' \<and> \<not> endswith p ''.docx'' \<and> \<not> endswith p ''.txt''"
    with d show "extract_text_from_file e p = (Inr [], if path_exists e p then [Remove p] else [])"
      by blast }
next
  assume h: "before_try e i w = (Inr (cr, proj), w1)
        \<and> fst (download_file_from_s3 e (s3_file_key proj)) = Inr local
        \<and> fst (extract_text_from_file e local) = r
        \<and> (case r of Inl x \<Rightarrow> True | Inr t \<Rightarrow> py_strip t = [])
        \<and> fails e (DbContentSave (cr\<lparr>task_status := FAILURE\<rparr>)) = None"
  then have j: "fst (generate_content_task e i opts w)
           = Inl (case r of
                    Inl x \<Rightarrow> x
                  | Inr t \<Rightarrow> ValueError ''Extracted text is empty. Cannot generate content.'')
         \<and> row_with i (contents (snd (generate_content_task e i opts w)))
             = [cr\<lparr>task_status := FAILURE\<rparr>]
         \<and> (\<forall>pr. ChatCompletion pr
                   \<notin> set (drop (length (trace_of w))
                              (trace_of (snd (generate_content_task e i opts w)))))"
    using job_without_text [of e i w cr proj w1 local r opts] by blast
  from j show "fst (generate_content_task e i opts w)
           = Inl (case r of
                    Inl x \<Rightarrow> x
                  | Inr t \<Rightarrow> ValueError ''Extracted text is empty. Cannot generate content.'')"
    by blast
  from j show "row_with i (contents (snd (generate_content_task e i opts w)))
             = [cr\<lparr>task_status := FAILURE\<rparr>]"
    by blast
  from j show "\<forall>pr. ChatCompletion pr
                   \<notin> set (drop (length (trace_of w))
                              (trace_of (snd (generate_content_task e i opts w))))"
    by blast
qed

text \<open>
  An unsupported extension gives the empty text; a PDF whose pages hold white space only
  makes the job fail at the empty-text check.
\<close>

theorem extraction_and_empty_text_witness:
  "extract_text_from_file calm_env ''/tmp/downloads/notes.md''
     = (Inr [], [Remove ''/tmp/downloads/notes.md''])
   \<and> fst (generate_content_task blank_env 1 [] (store_with pending_row 50000))
       = Inl (ValueError ''Extracted text is empty. Cannot generate content.'')
   \<and> row_with 1 (contents (snd (generate_content_task blank_env 1 [] (store_with pending_row 50000))))
       = [pending_row\<lparr>task_status := FAILURE\<rparr>]"
proof -
  have a: "path_exists calm_env ''/tmp/downloads/notes.md''
             \<longrightarrow> fails calm_env (Remove ''/tmp/downloads/notes.md'') = None"
    by (simp add: calm_env_def)
  have b: "\<not> endswith ''/tmp/downloads/notes.md'' ''.pdf''
           \<and> \<not> endswith ''/tmp/downloads/notes.md'' ''.docx''
           \<and> \<not> endswith ''/tmp/downloads/notes.md'' ''.txt''"
    by (simp add: endswith_def)
  have c: "path_exists calm_env ''/tmp/downloads/notes.md''"
    by (simp add: calm_env_def)
  have bt: "before_try blank_env 1 (store_with pending_row 50000)
              = (Inr (pending_row, notes_project),
                 snd (before_try blank_env 1 (store_with pending_row 50000)))"
    by (simp add: eval_env eval_store eval_io eval_job)
  have d: "fst (download_file_from_s3 blank_env (s3_file_key notes_project))
             = Inr ''/tmp/downloads/notes.pdf''"
    by (simp add: eval_env eval_store eval_io eval_job eval_strings)
  have x: "fst (extract_text_from_file blank_env ''/tmp/downloads/notes.pdf'') = Inr [32, 10, 160]"
    by (simp add: eval_env eval_io eval_job eval_strings)
  have r: "case (Inr [32, 10, 160] :: exn + pytext) of Inl x \<Rightarrow> True | Inr t \<Rightarrow> py_strip t = []"
    by (simp add: py_strip_def is_space_def)
  have s: "fails blank_env (DbContentSave (pending_row\<lparr>task_status := FAILURE\<rparr>)) = None"
    by (simp add: eval_env)
  from extraction_and_empty_text [where e = calm_env and p = "''/tmp/downloads/notes.md''"] a b c
  have u: "extract_text_from_file calm_env ''/tmp/downloads/notes.md''
             = (Inr [], [Remove ''/tmp/downloads/notes.md''])"
    by simp
  from extraction_and_empty_text
         [where e = blank_env and i = 1 and w = "store_with pending_row 50000"
            and cr = pending_row and proj = notes_project
            and ?w1.0 = "snd (before_try blank_env 1 (store_with pending_row 50000))"
            and local = "''/tmp/downloads/notes.pdf''" and r = "Inr [32, 10, 160]"
            and opts = "[]"]
       bt d x r s
  have "fst (generate_content_task blank_env 1 [] (store_with pending_row 50000))
          = Inl (ValueError ''Extracted text is empty. Cannot generate content.'')
        \<and> row_with 1 (contents (snd (generate_content_task blank_env 1 []
                                        (store_with pending_row 50000))))
            = [pending_row\<lparr>task_status := FAILURE\<rparr>]"
    by simp
  with u show ?thesis by simp
qed

text \<open>
  A PDF whose parser raises: the extraction raises that exception; it does not return the
  empty text.
\<close>

theorem extraction_raises_counterexample:
  "fst (extract_text_from_file (failing_at (ReadPdf ''/tmp/downloads/notes.pdf''))
          ''/tmp/downloads/notes.pdf'')
     = Inl (CollaboratorError ''unavailable'')"
  by (simp add: eval_env eval_io eval_job eval_strings)

section \<open>The generation job: results\<close>

text \<open>
  Claim C1, as amended. An exception raised before the try block (loading the row,
  loading the project, fetching the profile) leaves the job at once: no status is written
  and the content rows are as before. For every execution that reaches the try block: if
  a step of the pipeline (download, extraction, generation, cost settlement, upload)
  raises, the job re-raises that exception and the row is saved with status FAILURE and
  every other field, the URL included, as loaded; and in every case the row ends with
  status SUCCESS or FAILURE, never PENDING, with SUCCESS exactly when the job returns.
  Both hold when the status writes themselves do not raise.
\<close>

theorem job_status_write:
  "(before_try e i w = (Inl x0, w0) \<longrightarrow>
      generate_content_task e i opts w = (Inl x0, w0) \<and> contents w0 = contents w)
   \<and> (before_try e i w = (Inr (cr, proj), w1) \<and> (\<forall>r. fails e (DbContentSave r) = None) \<longrightarrow>
        (\<forall>x ops ps. pipeline e cr proj opts (profiles w1) = ((Inl x, ops), ps) \<longrightarrow>
           fst (generate_content_task e i opts w) = Inl x
           \<and> row_with i (contents (snd (generate_content_task e i opts w)))
               = [cr\<lparr>task_status := FAILURE\<rparr>])
        \<and> (\<exists>r. row_with i (contents (snd (generate_content_task e i opts w))) = [r]
                \<and> task_status r \<noteq> PENDING
                \<and> (task_status r = SUCCESS \<longleftrightarrow> (\<exists>m. fst (generate_content_task e i opts w) = Inr m))))"
proof (intro conjI impI allI)
  assume "before_try e i w = (Inl x0, w0)"
  then show "generate_content_task e i opts w = (Inl x0, w0)" "contents w0 = contents w"
    using before_try_raise by blast+
next
  fix x ops ps
  assume h: "before_try e i w = (Inr (cr, proj), w1) \<and> (\<forall>r. fails e (DbContentSave r) = None)"
    and p: "pipeline e cr proj opts (profiles w1) = ((Inl x, ops), ps)"
  from h have bt: "before_try e i w = (Inr (cr, proj), w1)"
    and s: "fails e (DbContentSave (cr\<lparr>task_status := FAILURE\<rparr>)) = None"
    by blast+
  show "fst (generate_content_task e i opts w) = Inl x"
    by (simp add: job_raise [OF bt p s])
  show "row_with i (contents (snd (generate_content_task e i opts w)))
               = [cr\<lparr>task_status := FAILURE\<rparr>]"
    by (rule job_raise_row [OF bt p s])
next
  assume h: "before_try e i w = (Inr (cr, proj), w1) \<and> (\<forall>r. fails e (DbContentSave r) = None)"
  then have bt: "before_try e i w = (Inr (cr, proj), w1)"
    and s: "\<forall>r. fails e (DbContentSave r) = None"
    by blast+
  from before_try_Inr [OF bt] have r: "row_with i (contents w1) = [cr]"
    by simp
  have j: "generate_content_task e i opts w = try_block e cr proj opts w1"
    by (simp add: generate_content_task_def bt)
  obtain res w' where t: "try_block e cr proj opts w1 = (res, w')"
    by (cases "try_block e cr proj opts w1")
  from try_block_status [OF r row_with_id [OF r] s t]
  show "\<exists>r. row_with i (contents (snd (generate_content_task e i opts w))) = [r]
                \<and> task_status r \<noteq> PENDING
                \<and> (task_status r = SUCCESS \<longleftrightarrow> (\<exists>m. fst (generate_content_task e i opts w) = Inr m))"
    by (simp add: j t)
qed

text \<open>
  A run in which loading the row raises, and a run in which the upload raises.
\<close>

theorem job_status_write_witness:
  "generate_content_task (failing_at (DbContentGet 1)) 1 [] (store_with pending_row 50000)
     = (Inl (CollaboratorError ''unavailable''),
        (store_with pending_row 50000)\<lparr>trace_of := [DbContentGet 1]\<rparr>)
   \<and> fst (generate_content_task
            (failing_at (S3UploadFile ''/tmp/presentations/presentation.pptx''
                           ''generated/1/1_presentation.pptx''))
            1 [] (store_with pending_row 50000))
       = Inl (CollaboratorError ''unavailable'')
   \<and> row_with 1 (contents (snd (generate_content_task
            (failing_at (S3UploadFile ''/tmp/presentations/presentation.pptx''
                           ''generated/1/1_presentation.pptx''))
            1 [] (store_with pending_row 50000))))
       = [pending_row\<lparr>task_status := FAILURE\<rparr>]"
proof -
  let ?up = "failing_at (S3UploadFile ''/tmp/presentations/presentation.pptx''
                           ''generated/1/1_presentation.pptx'')"
  let ?w = "store_with pending_row 50000"
  have a: "before_try (failing_at (DbContentGet 1)) 1 ?w
             = (Inl (CollaboratorError ''unavailable''), ?w\<lparr>trace_of := [DbContentGet 1]\<rparr>)"
    by (simp add: eval_env eval_store eval_io eval_job)
  have bt: "before_try ?up 1 ?w = (Inr (pending_row, notes_project), snd (before_try ?up 1 ?w))"
    by (simp add: eval_env eval_store eval_io eval_job)
  have s: "\<forall>r. fails ?up (DbContentSave r) = None"
    by (simp add: eval_env)
  have str: "str_nat 1 = ''1''"
    by (simp add: digit_char_def)
  have pf: "fst (fst (pipeline ?up pending_row notes_project []
                        (profiles (snd (before_try ?up 1 ?w)))))
              = Inl (CollaboratorError ''unavailable'')"
    by (simp add: eval_env eval_store eval_io eval_job eval_strings str
          calculate_cost_def generate_ppt_from_text_def dict_get_def)
  have p: "pipeline ?up pending_row notes_project [] (profiles (snd (before_try ?up 1 ?w)))
             = ((Inl (CollaboratorError ''unavailable''),
                 snd (fst (pipeline ?up pending_row notes_project []
                             (profiles (snd (before_try ?up 1 ?w)))))),
                snd (pipeline ?up pending_row notes_project []
                       (profiles (snd (before_try ?up 1 ?w)))))"
    using pf by (metis prod.collapse)
  from job_status_write
         [where e = "failing_at (DbContentGet 1)" and i = 1 and w = ?w and opts = "[]"
            and ?x0.0 = "CollaboratorError ''unavailable''"
            and ?w0.0 = "?w\<lparr>trace_of := [DbContentGet 1]\<rparr>"] a
  have u: "generate_content_task (failing_at (DbContentGet 1)) 1 [] ?w
             = (Inl (CollaboratorError ''unavailable''), ?w\<lparr>trace_of := [DbContentGet 1]\<rparr>)"
    by blast
  from job_status_write
         [where e = ?up and i = 1 and w = ?w and opts = "[]" and cr = pending_row
            and proj = notes_project and ?w1.0 = "snd (before_try ?up 1 ?w)"] bt s p
  have "fst (generate_content_task ?up 1 [] ?w) = Inl (CollaboratorError ''unavailable'')
        \<and> row_with 1 (contents (snd (generate_content_task ?up 1 [] ?w)))
            = [pending_row\<lparr>task_status := FAILURE\<rparr>]"
    by blast
  with u show ?thesis by simp
qed

text \<open>
  A run in which the profile fetch raises: the job raises and the row is still PENDING.
\<close>

theorem profile_fetch_failure_counterexample:
  "fst (generate_content_task (failing_at (DbProfileGetOrCreate 7)) 1 []
          (store_with pending_row 50000))
     = Inl (CollaboratorError ''unavailable'')
   \<and> map task_status
         (contents (snd (generate_content_task (failing_at (DbProfileGetOrCreate 7)) 1 []
                           (store_with pending_row 50000))))
       = [PENDING]"
  by (simp add: eval_env eval_store eval_io eval_job)

text \<open>
  Claim C4. For a job whose row has a (non-empty) URL, the outcome does not depend on
  whether deleting the old object raises: nothing is assumed about the deletion, and when
  the row, the project and the profile are loaded, the pipeline steps succeed, and the
  final save and the removal of the generated file do not raise, the job returns and the
  row ends with status SUCCESS and the URL of the newly uploaded object.
\<close>

theorem cleanup_failure_swallowed:
  "row_with i (contents w) = [cr] \<and> s3_url cr = Some old \<and> old \<noteq> []
   \<and> fails e (DbContentGet i) = None
   \<and> fst (load_project e (project cr) (projects w)) = Inr proj
   \<and> fst (fst (profile_get_or_create e (user proj) (profiles w))) = Inr pc
   \<and> fst (fst (pipeline e cr proj opts (profiles w))) = Inr (path, url)
   \<and> fails e (DbContentSave (cr\<lparr>s3_url := Some url, task_status := SUCCESS\<rparr>)) = None
   \<and> (path_exists e path \<longrightarrow> fails e (Remove path) = None)
   \<longrightarrow> fst (generate_content_task e i opts w) = Inr ''Task Completed Successfully''
       \<and> row_with i (contents (snd (generate_content_task e i opts w)))
           = [cr\<lparr>s3_url := Some url, task_status := SUCCESS\<rparr>]
       \<and> url = public_url e (generated_s3_key proj cr path)"
proof (intro impI)
  assume h: "row_with i (contents w) = [cr] \<and> s3_url cr = Some old \<and> old \<noteq> []
   \<and> fails e (DbContentGet i) = None
   \<and> fst (load_project e (project cr) (projects w)) = Inr proj
   \<and> fst (fst (profile_get_or_create e (user proj) (profiles w))) = Inr pc
   \<and> fst (fst (pipeline e cr proj opts (profiles w))) = Inr (path, url)
   \<and> fails e (DbContentSave (cr\<lparr>s3_url := Some url, task_status := SUCCESS\<rparr>)) = None
   \<and> (path_exists e path \<longrightarrow> fails e (Remove path) = None)"
  then have r: "row_with i (contents w) = [cr]" and g: "fails e (DbContentGet i) = None"
    and s: "fails e (DbContentSave (cr\<lparr>s3_url := Some url, task_status := SUCCESS\<rparr>)) = None"
    and rm: "path_exists e path \<longrightarrow> fails e (Remove path) = None"
    and pf: "fst (fst (pipeline e cr proj opts (profiles w))) = Inr (path, url)"
    by blast+
  from h obtain ops2 where lp: "load_project e (project cr) (projects w) = (Inr proj, ops2)"
    by (cases "load_project e (project cr) (projects w)") auto
  from h obtain ops3 ps where
    gc: "profile_get_or_create e (user proj) (profiles w) = ((Inr pc, ops3), ps)"
    by (cases "profile_get_or_create e (user proj) (profiles w)") auto
  let ?w1 = "w\<lparr>profiles := ps,
                trace_of := trace_of w @ [DbContentGet i] @ cleanup_prior e cr @ ops2 @ ops3\<rparr>"
  have bt: "before_try e i w = (Inr (cr, proj), ?w1)"
    by (rule before_try_reaches [OF r g lp gc])
  have "fst (fst (pipeline e cr proj opts (profiles ?w1))) = Inr (path, url)"
    using pf pipeline_fst_indep [of e cr proj opts ps "profiles w"] by simp
  then obtain ops ps' where
    p: "pipeline e cr proj opts (profiles ?w1) = ((Inr (path, url), ops), ps')"
    by (cases "pipeline e cr proj opts (profiles ?w1)") auto
  let ?ok = "cr\<lparr>s3_url := Some url, task_status := SUCCESS\<rparr>"
  have j: "generate_content_task e i opts w = try_block e cr proj opts ?w1"
    by (simp add: generate_content_task_def bt)
  have t: "try_block e cr proj opts ?w1
             = (Inr ''Task Completed Successfully'',
                ?w1\<lparr>contents := save_content ?ok (contents ?w1), profiles := ps',
                     trace_of := trace_of ?w1 @ ops @ [DbContentSave ?ok]
                        @ (if path_exists e path then [Remove path] else [])\<rparr>)"
    by (rule try_block_success [OF p s rm])
  have c: "contents (snd (generate_content_task e i opts w)) = save_content ?ok (contents w)"
    unfolding j t by simp
  have f: "fst (generate_content_task e i opts w) = Inr ''Task Completed Successfully''"
    unfolding j t by simp
  have "row_with i (save_content ?ok (contents w)) = [?ok]"
    using save_content_row_with [OF r, of ?ok] row_with_id [OF r] by simp
  then have "row_with i (contents (snd (generate_content_task e i opts w))) = [?ok]"
    by (simp only: c)
  with f pipeline_url [OF pf]
  show "fst (generate_content_task e i opts w) = Inr ''Task Completed Successfully''
       \<and> row_with i (contents (snd (generate_content_task e i opts w))) = [?ok]
       \<and> url = public_url e (generated_s3_key proj cr path)"
    by blast
qed

text \<open>
  A run on a row with an old URL in which the deletion of the old object is attempted and
  raises.
\<close>

theorem cleanup_failure_swallowed_witness:
  "fails (failing_at (S3DeleteObject ''generated/1/1_old.pptx''))
         (S3DeleteObject ''generated/1/1_old.pptx'') = Some (CollaboratorError ''unavailable'')
   \<and> cleanup_prior (failing_at (S3DeleteObject ''generated/1/1_old.pptx'')) stale_row
       = [S3Client, S3DeleteObject ''generated/1/1_old.pptx'']
   \<and> fst (generate_content_task (failing_at (S3DeleteObject ''generated/1/1_old.pptx'')) 1 []
            (store_with stale_row 50000))
       = Inr ''Task Completed Successfully''
   \<and> row_with 1 (contents (snd (generate_content_task
                                   (failing_at (S3DeleteObject ''generated/1/1_old.pptx'')) 1 []
                                   (store_with stale_row 50000))))
       = [stale_row\<lparr>s3_url := Some ''https://edumind.s3.amazonaws.com/generated/1/1_presentation.pptx'',
                    task_status := SUCCESS\<rparr>]"
proof -
  let ?e = "failing_at (S3DeleteObject ''generated/1/1_old.pptx'')"
  let ?w = "store_with stale_row 50000"
  let ?url = "''https://edumind.s3.amazonaws.com/generated/1/1_presentation.pptx''"
  have f: "fails ?e (S3DeleteObject ''generated/1/1_old.pptx'') = Some (CollaboratorError ''unavailable'')"
    by (simp add: eval_env)
  have k: "key_of_url ''https://edumind.s3.amazonaws.com/generated/1/1_old.pptx''
             = Inr ''generated/1/1_old.pptx''"
    by (simp add: key_of_url_def py_index_def)
  have c: "cleanup_prior ?e stale_row = [S3Client, S3DeleteObject ''generated/1/1_old.pptx'']"
    by (simp add: cleanup_prior_def stale_row_def pending_row_def k eval_io eval_env)
  have h1: "row_with 1 (contents ?w) = [stale_row]"
    by (simp add: row_with_def store_with_def stale_row_def pending_row_def)
  have h2: "s3_url stale_row = Some ''https://edumind.s3.amazonaws.com/generated/1/1_old.pptx''"
    by (simp add: stale_row_def)
  have h3: "fails ?e (DbContentGet 1) = None"
    by (simp add: eval_env)
  have h4: "fst (load_project ?e (project stale_row) (projects ?w)) = Inr notes_project"
    by (simp add: eval_env eval_store eval_io eval_job stale_row_def)
  have h5: "fst (fst (profile_get_or_create ?e (user notes_project) (profiles ?w)))
              = Inr (\<lparr>profile_user = 7, token_balance = 50000\<rparr>, False)"
    by (simp add: eval_env eval_store eval_io eval_job)
  have str: "str_nat 1 = ''1''"
    by (simp add: digit_char_def)
  have h6: "fst (fst (pipeline ?e stale_row notes_project [] (profiles ?w)))
              = Inr (''/tmp/presentations/presentation.pptx'', ?url)"
    by (simp add: eval_env eval_store eval_io eval_job eval_strings str stale_row_def
          calculate_cost_def generate_ppt_from_text_def dict_get_def)
  have h7: "fails ?e (DbContentSave (stale_row\<lparr>s3_url := Some ?url, task_status := SUCCESS\<rparr>)) = None"
    by (simp add: eval_env)
  have h8: "path_exists ?e ''/tmp/presentations/presentation.pptx''
              \<longrightarrow> fails ?e (Remove ''/tmp/presentations/presentation.pptx'') = None"
    by (simp add: eval_env)
  from cleanup_failure_swallowed
         [where e = ?e and i = 1 and w = ?w and cr = stale_row and proj = notes_project
            and opts = "[]" and url = ?url and path = "''/tmp/presentations/presentation.pptx''"
            and old = "''https://edumind.s3.amazonaws.com/generated/1/1_old.pptx''"
            and pc = "(\<lparr>profile_user = 7, token_balance = 50000\<rparr>, False)"]
       h1 h2 h3 h4 h5 h6 h7 h8
  have "fst (generate_content_task ?e 1 [] ?w) = Inr ''Task Completed Successfully''
        \<and> row_with 1 (contents (snd (generate_content_task ?e 1 [] ?w)))
            = [stale_row\<lparr>s3_url := Some ?url, task_status := SUCCESS\<rparr>]"
    by simp
  with f c show ?thesis by simp
qed

text \<open>
  Claim C6, as amended. The last operation before the try block is the get-or-create of
  the profile of the project's user, after which that user has exactly one profile row;
  get-or-create is idempotent (a second call finds the same profile, creates nothing and
  leaves the table as it is). The job performs no balance check: two runs from stores
  that differ only in token balances return the same result, leave the same content rows
  and attempt the same operations, the paid ones included.
\<close>

theorem job_ignores_balance:
  "(before_try e i w = (Inr (cr, proj), w1) \<longrightarrow>
      trace_of w1 \<noteq> [] \<and> last (trace_of w1) = DbProfileGetOrCreate (user proj)
      \<and> length (filter (\<lambda>q. profile_user q = user proj) (profiles w1)) = 1)
   \<and> (profile_get_or_create e u ps = ((Inr (p, created), ops), ps') \<longrightarrow>
        profile_get_or_create e u ps' = ((Inr (p, False), ops), ps')
        \<and> filter (\<lambda>q. profile_user q = u) ps' = [p])
   \<and> (contents w' = contents w \<and> projects w' = projects w \<and> trace_of w' = trace_of w
        \<and> map profile_user (profiles w') = map profile_user (profiles w) \<longrightarrow>
        fst (generate_content_task e i opts w') = fst (generate_content_task e i opts w)
        \<and> contents (snd (generate_content_task e i opts w'))
            = contents (snd (generate_content_task e i opts w))
        \<and> trace_of (snd (generate_content_task e i opts w'))
            = trace_of (snd (generate_content_task e i opts w)))"
proof (intro conjI impI)
  assume "before_try e i w = (Inr (cr, proj), w1)"
  from before_try_fetches_profile [OF this]
  show "trace_of w1 \<noteq> []" "last (trace_of w1) = DbProfileGetOrCreate (user proj)"
    "length (filter (\<lambda>q. profile_user q = user proj) (profiles w1)) = 1"
    by blast+
next
  assume "profile_get_or_create e u ps = ((Inr (p, created), ops), ps')"
  from get_or_create_idempotent [OF this]
  show "profile_get_or_create e u ps' = ((Inr (p, False), ops), ps')"
    "filter (\<lambda>q. profile_user q = u) ps' = [p]"
    by blast+
next
  assume h: "contents w' = contents w \<and> projects w' = projects w \<and> trace_of w' = trace_of w
        \<and> map profile_user (profiles w') = map profile_user (profiles w)"
  then have bt: "contents (snd (before_try e i w')) = contents (snd (before_try e i w))"
      "trace_of (snd (before_try e i w')) = trace_of (snd (before_try e i w))"
      "fst (before_try e i w') = fst (before_try e i w)"
    using before_try_same_users [of w' w e i] by blast+
  obtain r w1 where a: "before_try e i w = (r, w1)" by (cases "before_try e i w")
  obtain r' w1' where b: "before_try e i w' = (r', w1')" by (cases "before_try e i w'")
  from bt a b have eq: "r' = r" "contents w1' = contents w1" "trace_of w1' = trace_of w1"
    by simp_all
  have "fst (generate_content_task e i opts w') = fst (generate_content_task e i opts w)
        \<and> contents (snd (generate_content_task e i opts w'))
            = contents (snd (generate_content_task e i opts w))
        \<and> trace_of (snd (generate_content_task e i opts w'))
            = trace_of (snd (generate_content_task e i opts w))"
  proof (cases r)
    case (Inl x)
    with a b eq show ?thesis by (simp add: generate_content_task_def)
  next
    case (Inr cp)
    obtain cr0 proj0 where cp: "cp = (cr0, proj0)" by (cases cp)
    from try_block_indep [OF eq(2,3), of e cr0 proj0 opts] a b eq(1) Inr cp
    show ?thesis by (simp add: generate_content_task_def)
  qed
  then show "fst (generate_content_task e i opts w') = fst (generate_content_task e i opts w)"
    "contents (snd (generate_content_task e i opts w'))
            = contents (snd (generate_content_task e i opts w))"
    "trace_of (snd (generate_content_task e i opts w'))
            = trace_of (snd (generate_content_task e i opts w))"
    by blast+
qed

text \<open>Two runs that differ only in the balance: 0 and 5.\<close>

theorem job_ignores_balance_witness:
  "last (trace_of (snd (before_try calm_env 1 (store_with pending_row 0))))
     = DbProfileGetOrCreate 7
   \<and> profile_get_or_create calm_env 7 [\<lparr>profile_user = 7, token_balance = 0\<rparr>]
     = ((Inr (\<lparr>profile_user = 7, token_balance = 0\<rparr>, False), [DbProfileGetOrCreate 7]),
        [\<lparr>profile_user = 7, token_balance = 0\<rparr>])
   \<and> fst (generate_content_task calm_env 1 [] (store_with pending_row 0))
       = fst (generate_content_task calm_env 1 [] (store_with pending_row 50000))
   \<and> trace_of (snd (generate_content_task calm_env 1 [] (store_with pending_row 0)))
       = trace_of (snd (generate_content_task calm_env 1 [] (store_with pending_row 50000)))"
proof -
  have a: "profile_get_or_create calm_env 7 []
             = ((Inr (\<lparr>profile_user = 7, token_balance = 50000\<rparr>, True), [DbProfileGetOrCreate 7]),
                [\<lparr>profile_user = 7, token_balance = 50000\<rparr>])"
    by (simp add: eval_env eval_io eval_job)
  have b: "profile_get_or_create calm_env 7 [\<lparr>profile_user = 7, token_balance = 0\<rparr>]
     = ((Inr (\<lparr>profile_user = 7, token_balance = 0\<rparr>, False), [DbProfileGetOrCreate 7]),
        [\<lparr>profile_user = 7, token_balance = 0\<rparr>])"
    by (simp add: eval_env eval_io eval_job)
  have h: "contents (store_with pending_row 0) = contents (store_with pending_row 50000)
        \<and> projects (store_with pending_row 0) = projects (store_with pending_row 50000)
        \<and> trace_of (store_with pending_row 0) = trace_of (store_with pending_row 50000)
        \<and> map profile_user (profiles (store_with pending_row 0))
            = map profile_user (profiles (store_with pending_row 50000))"
    by (simp add: store_with_def)
  have bt: "before_try calm_env 1 (store_with pending_row 0)
              = (Inr (pending_row, notes_project),
                 snd (before_try calm_env 1 (store_with pending_row 0)))"
    by (simp add: eval_env eval_store eval_io eval_job)
  have u: "user notes_project = 7"
    by (simp add: notes_project_def)
  from job_ignores_balance
         [where e = calm_env and i = 1 and w = "store_with pending_row 0" and cr = pending_row
            and proj = notes_project
            and ?w1.0 = "snd (before_try calm_env 1 (store_with pending_row 0))"] bt u
  have l: "last (trace_of (snd (before_try calm_env 1 (store_with pending_row 0))))
             = DbProfileGetOrCreate 7"
    by simp
  from job_ignores_balance
         [where e = calm_env and u = 7 and ps = "[\<lparr>profile_user = 7, token_balance = 0\<rparr>]"
            and p = "\<lparr>profile_user = 7, token_balance = 0\<rparr>" and created = False
            and ops = "[DbProfileGetOrCreate 7]"
            and ps' = "[\<lparr>profile_user = 7, token_balance = 0\<rparr>]"
            and w' = "store_with pending_row 0" and w = "store_with pending_row 50000"
            and i = 1 and opts = "[]"] b h l
  show ?thesis by blast
qed

text \<open>
  A run with balance 0, below the threshold: the job calls the completion API, succeeds
  and leaves the balance negative.
\<close>

theorem job_runs_below_threshold_counterexample:
  "fst (generate_content_task calm_env 1 [] (store_with pending_row 0))
     = Inr ''Task Completed Successfully''
   \<and> ChatCompletion (SlidesPrompt (VInt 8) (text_of ''Cells divide.''))
       \<in> set (trace_of (snd (generate_content_task calm_env 1 [] (store_with pending_row 0))))
   \<and> map token_balance (profiles (snd (generate_content_task calm_env 1 []
                                           (store_with pending_row 0))))
       = [- 3]"
proof -
  have str: "str_nat 1 = ''1''"
    by (simp add: digit_char_def)
  show ?thesis
    by (simp add: eval_env eval_store eval_io eval_job eval_strings str
          calculate_cost_def generate_ppt_from_text_def dict_get_def)
qed

section \<open>The request handler: results\<close>

text \<open>
  Claim C3. When the caller's profile holds a balance strictly below 0.09, a generation
  request leaves the content rows exactly as they were and dispatches no job, whatever
  else happens; and when the project is found and the profile fetch does not fail, the
  response is the insufficient-tokens error (status 400).
\<close>

theorem insufficient_balance_rejected:
  "filter (\<lambda>q. profile_user q = u) (profiles w) = [p]
   \<and> (of_int (token_balance p) :: rat) / 10000 < 9 / 100
   \<longrightarrow> contents (snd (generate_content e u pk data w)) = contents w
       \<and> (\<forall>j opts. Delay j opts
              \<notin> set (drop (length (trace_of w)) (trace_of (snd (generate_content e u pk data w)))))
       \<and> (fst (get_object e u pk (projects w)) = Inr proj
            \<and> fails e (DbProfileGetOrCreate u) = None
          \<longrightarrow> fst (generate_content e u pk data w) = Inr insufficient_tokens)"
proof (intro impI)
  assume h: "filter (\<lambda>q. profile_user q = u) (profiles w) = [p]
   \<and> (of_int (token_balance p) :: rat) / 10000 < 9 / 100"
  then have f: "filter (\<lambda>q. profile_user q = u) (profiles w) = [p]"
    and b: "token_balance p < 900"
    by (simp_all add: threshold_on_decimals)
  from rejected_below_threshold [OF f b, of e pk data proj]
  show "contents (snd (generate_content e u pk data w)) = contents w
       \<and> (\<forall>j opts. Delay j opts
              \<notin> set (drop (length (trace_of w)) (trace_of (snd (generate_content e u pk data w)))))
       \<and> (fst (get_object e u pk (projects w)) = Inr proj
            \<and> fails e (DbProfileGetOrCreate u) = None
          \<longrightarrow> fst (generate_content e u pk data w) = Inr insufficient_tokens)"
    by auto
qed

text \<open>The scenario with balance 0.05.\<close>

theorem insufficient_balance_rejected_witness:
  "fst (generate_content calm_env 7 1 slides_request (store_with pending_row 500))
     = Inr insufficient_tokens
   \<and> contents (snd (generate_content calm_env 7 1 slides_request (store_with pending_row 500)))
       = [pending_row]"
proof -
  have f: "filter (\<lambda>q. profile_user q = 7) (profiles (store_with pending_row 500))
             = [\<lparr>profile_user = 7, token_balance = 500\<rparr>]"
    by (simp add: store_with_def)
  have b: "(of_int (token_balance \<lparr>profile_user = 7, token_balance = 500\<rparr>) :: rat) / 10000 < 9 / 100"
    by simp
  have g: "fst (get_object calm_env 7 1 (projects (store_with pending_row 500))) = Inr notes_project"
    by (simp add: get_object_def eval_env eval_store eval_io objects_get_def)
  have n: "fails calm_env (DbProfileGetOrCreate 7) = None"
    by (simp add: calm_env_def)
  have c: "contents (store_with pending_row 500) = [pending_row]"
    by (simp add: store_with_def)
  from insufficient_balance_rejected
         [where u = 7 and w = "store_with pending_row 500"
            and p = "\<lparr>profile_user = 7, token_balance = 500\<rparr>" and e = calm_env and pk = 1
            and data = slides_request and proj = notes_project] f b g n c
  show ?thesis by simp
qed

text \<open>
  Claim C2. In every store reachable from one without content rows by generation requests,
  audio requests and executions of the two jobs, each (project, kind) pair has at most one
  row, and it still has at most one after any further request. A request that is accepted for a (project, kind)
  with an existing row, whatever its status, creates no row: the table keeps its length,
  and the row with the same primary key is that row with status PENDING, no URL and the
  new job id; it is the only row of its (project, kind).
\<close>

theorem one_row_per_kind:
  "reachable w \<longrightarrow>
     length (rows_of_kind p k (contents w)) \<le> 1
     \<and> length (rows_of_kind p k (contents (snd (generate_content e u pk data w)))) \<le> 1
     \<and> (r0 \<in> set (contents w) \<and> project r0 = pk
          \<and> map_of data ''content_type'' = Some (VStr (content_type r0))
          \<and> fst (generate_content e u pk data w) = Inr (Response body HTTP_202_ACCEPTED)
        \<longrightarrow> length (contents (snd (generate_content e u pk data w))) = length (contents w)
            \<and> (\<exists>tid. row_with (row_id r0) (contents (snd (generate_content e u pk data w)))
                        = [r0\<lparr>task_status := PENDING, s3_url := None, task_id := Some tid\<rparr>]
                      \<and> rows_of_kind pk (content_type r0)
                           (contents (snd (generate_content e u pk data w)))
                          = [r0\<lparr>task_status := PENDING, s3_url := None, task_id := Some tid\<rparr>]))"
proof (intro impI conjI)
  assume r: "reachable w"
  from reachable_ok [OF r] have "unique_together (contents w)"
    by (simp add: table_ok_def)
  then show "length (rows_of_kind p k (contents w)) \<le> 1"
    by (rule rows_of_kind_le1)
  from reachable_ok [OF reachable.request [OF r, of e u pk data]]
  have "unique_together (contents (snd (generate_content e u pk data w)))"
    by (simp add: table_ok_def)
  then show "length (rows_of_kind p k (contents (snd (generate_content e u pk data w)))) \<le> 1"
    by (rule rows_of_kind_le1)
next
  assume r: "reachable w"
  assume h: "r0 \<in> set (contents w) \<and> project r0 = pk
          \<and> map_of data ''content_type'' = Some (VStr (content_type r0))
          \<and> fst (generate_content e u pk data w) = Inr (Response body HTTP_202_ACCEPTED)"
  let ?w' = "snd (generate_content e u pk data w)"
  from reachable_ok [OF r] have ok: "table_ok (contents w)" .
  from h have m: "r0 \<in> set (contents w)" and pr: "project r0 = pk"
    and ct: "map_of data ''content_type'' = Some (VStr (content_type r0))"
    and acc: "fst (generate_content e u pk data w) = Inr (Response body HTTP_202_ACCEPTED)"
    by blast+
  from request_replaces_in_place [OF ok m acc ct pr] obtain tid where
    c: "contents ?w'
          = map (\<lambda>x. if row_id x = row_id r0
                      then r0\<lparr>task_status := PENDING, s3_url := None, task_id := Some tid\<rparr>
                      else x) (contents w)"
    by blast
  let ?r = "r0\<lparr>task_status := PENDING, s3_url := None, task_id := Some tid\<rparr>"
  from c show "length (contents ?w') = length (contents w)"
    by simp
  from ok have pkey: "primary_key (contents w)" by (simp add: table_ok_def)
  have rw: "row_with (row_id r0) (contents ?w') = [?r]"
    unfolding c using map_replace_row_with [OF pkey m, of ?r] by simp
  then have "?r \<in> set (filter (\<lambda>x. row_id x = row_id r0) (contents ?w'))"
    by (simp add: row_with_def)
  then have mem: "?r \<in> set (contents ?w')"
    by simp
  from reachable_ok [OF reachable.request [OF r, of e u pk data]]
  have "unique_together (contents ?w')" by (simp add: table_ok_def)
  from rows_of_kind_the_row [OF this mem] pr
  have "rows_of_kind pk (content_type r0) (contents ?w') = [?r]"
    by simp
  with rw show "\<exists>tid. row_with (row_id r0) (contents ?w')
                        = [r0\<lparr>task_status := PENDING, s3_url := None, task_id := Some tid\<rparr>]
                      \<and> rows_of_kind pk (content_type r0) (contents ?w')
                          = [r0\<lparr>task_status := PENDING, s3_url := None, task_id := Some tid\<rparr>]"
    by blast
qed

text \<open>A second request for the kind whose row a job has brought to SUCCESS.\<close>

theorem one_row_per_kind_witness:
  "length (rows_of_kind 1 ''PPT'' (contents after_job)) \<le> 1
   \<and> length (contents (snd (generate_content calm_env 7 1 slides_request after_job)))
       = length (contents after_job)
   \<and> length (rows_of_kind 1 ''PPT''
                (contents (snd (generate_content calm_env 7 1 slides_request after_job)))) = 1"
proof -
  have r: "reachable after_job"
    unfolding after_job_def after_request_def
    by (intro reachable.job reachable.request reachable.start) (simp add: empty_store_def)
  have m: "success_row \<in> set (contents after_job)"
    by (simp add: after_job_rows)
  have p: "project success_row = 1" and k: "content_type success_row = ''PPT''"
    by (simp_all add: success_row_def)
  have c: "map_of slides_request ''content_type'' = Some (VStr (content_type success_row))"
    by (simp add: slides_request_def success_row_def)
  have f: "fails calm_env = (\<lambda>op. None)" and ti: "to_int calm_env = scalar_int"
    and tb: "to_bool calm_env = scalar_bool"
    by (simp_all add: calm_env_def)
  have v: "PresentationGenerateSerializer calm_env slides_request = Inr slides_options"
    by (simp add: PresentationGenerateSerializer_def validated3_def choice_field_def
          integer_field_def boolean_field_def slides_request_def slides_options_def ti tb
          scalar_int_def)
  have g: "get_object calm_env 7 1 [notes_project] = (Inr notes_project, [DbProjectGet 1])"
    by (simp add: get_object_def f notes_project_def objects_get_def eval_io)
  have pc: "profile_get_or_create calm_env 7 [\<lparr>profile_user = 7, token_balance = 49997\<rparr>]
              = ((Inr (\<lparr>profile_user = 7, token_balance = 49997\<rparr>, False),
                  [DbProfileGetOrCreate 7]), [\<lparr>profile_user = 7, token_balance = 49997\<rparr>])"
    by (simp add: profile_get_or_create_def f eval_io)
  have uc: "update_or_create calm_env 1 ''PPT'' [success_row]
              = ((Inr (success_row\<lparr>task_status := PENDING, s3_url := None\<rparr>, False),
                  [DbContentUpdateOrCreate 1 ''PPT'']),
                 [success_row\<lparr>task_status := PENDING, s3_url := None\<rparr>])"
    by (simp add: update_or_create_def f eval_io success_row_def save_content_def)
  have sm: "serializer_map (map_of slides_request ''content_type'')
              = Some (''PPT'', PresentationGenerateSerializer)"
    by (simp add: serializer_map_def slides_request_def PRESENTATION_def)
  have u7: "user notes_project = 7" and p1: "project_id notes_project = 1"
    by (simp_all add: notes_project_def)
  have i1: "row_id success_row = 1"
    by (simp add: success_row_def)
  have "\<exists>tid. fst (generate_content calm_env 7 1 slides_request after_job)
                = Inr (accepted_response ''PPT'' tid 1)"
    by (simp add: after_job_rows generate_content_def accept_request_def g pc uc sm v u7 p1
          call_def f Let_def i1 del: One_nat_def) blast
  then obtain body where
    a: "fst (generate_content calm_env 7 1 slides_request after_job)
          = Inr (Response body HTTP_202_ACCEPTED)"
    by (auto simp: accepted_response_def)
  from one_row_per_kind
         [where w = after_job and p = 1 and k = "''PPT''" and e = calm_env and u = 7 and pk = 1
            and data = slides_request and ?r0.0 = success_row and body = body] r m p c a
  obtain tid where
    l: "length (rows_of_kind 1 ''PPT'' (contents after_job)) \<le> 1"
    and n: "length (contents (snd (generate_content calm_env 7 1 slides_request after_job)))
              = length (contents after_job)"
    and o: "rows_of_kind 1 (content_type success_row)
              (contents (snd (generate_content calm_env 7 1 slides_request after_job)))
            = [success_row\<lparr>task_status := PENDING, s3_url := None, task_id := Some tid\<rparr>]"
    by blast
  from o have "length (rows_of_kind 1 ''PPT''
                (contents (snd (generate_content calm_env 7 1 slides_request after_job)))) = 1"
    by (simp add: k)
  with l n show ?thesis by blast
qed

text \<open>
  Claim C10. A request for the podcast kind through the generic handler is accepted when
  the project is found, the balance is at least the threshold, the options validate and
  the database and the dispatch do not fail: the response is 202, a generic job is
  dispatched for the row of that kind, and the row is PENDING. The generic job has no
  branch for the podcast kind: the dispatch on the kind calls no generation routine and
  leaves the file path unset. So every execution of the job on a podcast row that
  extracts a non-empty text ends with the error of the missing artifact and the row in
  status FAILURE (the status write succeeding).
\<close>

theorem podcast_request_fails_in_job:
  "(fst (get_object e u pk (projects w)) = Inr proj
     \<and> fst (fst (profile_get_or_create e (user proj) (profiles w))) = Inr (p, c)
     \<and> 900 \<le> token_balance p
     \<and> map_of data ''content_type'' = Some (VStr PODCAST)
     \<and> PodcastGenerateSerializer e data = Inr opts
     \<and> fails e (DbContentUpdateOrCreate (project_id proj) PODCAST) = None
     \<and> length (rows_of_kind (project_id proj) PODCAST (contents w)) \<le> 1
     \<and> (\<forall>j. fails e (Delay j opts) = None)
     \<and> (\<forall>r. fails e (DbContentSave r) = None)
    \<longrightarrow> (\<exists>tid r. fst (generate_content e u pk data w)
                      = Inr (accepted_response PODCAST tid (row_id r))
                  \<and> Delay (row_id r) opts \<in> set (trace_of (snd (generate_content e u pk data w)))
                  \<and> r \<in> set (contents (snd (generate_content e u pk data w)))
                  \<and> project r = pk \<and> content_type r = PODCAST \<and> task_status r = PENDING))
   \<and> dispatch_generation e PODCAST t gopts = (Inr (None, 0), [])
   \<and> (before_try e i w' = (Inr (cr, proj'), w1)
        \<and> content_type cr = PODCAST
        \<and> fst (download_file_from_s3 e (s3_file_key proj')) = Inr local
        \<and> fst (extract_text_from_file e local) = Inr t
        \<and> py_strip t \<noteq> []
        \<and> fails e (DbContentSave (cr\<lparr>task_status := FAILURE\<rparr>)) = None
      \<longrightarrow> fst (generate_content_task e i gopts w') = Inl (ValueError ''Content generation failed.'')
          \<and> row_with i (contents (snd (generate_content_task e i gopts w')))
              = [cr\<lparr>task_status := FAILURE\<rparr>])"
proof (intro conjI impI)
  assume h: "fst (get_object e u pk (projects w)) = Inr proj
     \<and> fst (fst (profile_get_or_create e (user proj) (profiles w))) = Inr (p, c)
     \<and> 900 \<le> token_balance p
     \<and> map_of data ''content_type'' = Some (VStr PODCAST)
     \<and> PodcastGenerateSerializer e data = Inr opts
     \<and> fails e (DbContentUpdateOrCreate (project_id proj) PODCAST) = None
     \<and> length (rows_of_kind (project_id proj) PODCAST (contents w)) \<le> 1
     \<and> (\<forall>j. fails e (Delay j opts) = None)
     \<and> (\<forall>r. fails e (DbContentSave r) = None)"
  then have sm: "serializer_map (map_of data ''content_type'')
                   = Some (PODCAST, PodcastGenerateSerializer)"
    by (simp add: serializer_map_def PODCAST_def PRESENTATION_def FLASHCARDS_def MCQ_SET_def)
  from h have go: "fst (get_object e u pk (projects w)) = Inr proj"
    and gc: "fst (fst (profile_get_or_create e (user proj) (profiles w))) = Inr (p, c)"
    and bal: "900 \<le> token_balance p"
    and v: "PodcastGenerateSerializer e data = Inr opts"
    and uf: "fails e (DbContentUpdateOrCreate (project_id proj) PODCAST) = None"
    and le: "length (rows_of_kind (project_id proj) PODCAST (contents w)) \<le> 1"
    and d: "\<forall>j. fails e (Delay j opts) = None"
    and s: "\<forall>r. fails e (DbContentSave r) = None"
    by blast+
  show "\<exists>tid r. fst (generate_content e u pk data w)
                      = Inr (accepted_response PODCAST tid (row_id r))
                  \<and> Delay (row_id r) opts \<in> set (trace_of (snd (generate_content e u pk data w)))
                  \<and> r \<in> set (contents (snd (generate_content e u pk data w)))
                  \<and> project r = pk \<and> content_type r = PODCAST \<and> task_status r = PENDING"
    by (rule request_accepted [OF go gc bal sm v uf le d s])
next
  show "dispatch_generation e PODCAST t gopts = (Inr (None, 0), [])"
    by (rule dispatch_podcast)
next
  assume h: "before_try e i w' = (Inr (cr, proj'), w1)
        \<and> content_type cr = PODCAST
        \<and> fst (download_file_from_s3 e (s3_file_key proj')) = Inr local
        \<and> fst (extract_text_from_file e local) = Inr t
        \<and> py_strip t \<noteq> []
        \<and> fails e (DbContentSave (cr\<lparr>task_status := FAILURE\<rparr>)) = None"
  then have bt: "before_try e i w' = (Inr (cr, proj'), w1)"
    and k: "content_type cr = PODCAST"
    and d: "fst (download_file_from_s3 e (s3_file_key proj')) = Inr local"
    and x: "fst (extract_text_from_file e local) = Inr t"
    and t: "py_strip t \<noteq> []"
    and s: "fails e (DbContentSave (cr\<lparr>task_status := FAILURE\<rparr>)) = None"
    by blast+
  note p = pipeline_podcast [OF k d x t, of gopts "profiles w1"]
  show "fst (generate_content_task e i gopts w') = Inl (ValueError ''Content generation failed.'')"
    by (simp add: job_raise [OF bt p s])
  show "row_with i (contents (snd (generate_content_task e i gopts w')))
              = [cr\<lparr>task_status := FAILURE\<rparr>]"
    by (rule job_raise_row [OF bt p s])
qed

text \<open>A podcast request that is accepted, and the job on a podcast row.\<close>

theorem podcast_request_fails_in_job_witness:
  "(\<exists>tid r. fst (generate_content calm_env 7 1 podcast_request (store_with pending_row 50000))
               = Inr (accepted_response ''POD'' tid (row_id r))
            \<and> Delay (row_id r) podcast_options
                \<in> set (trace_of (snd (generate_content calm_env 7 1 podcast_request
                                         (store_with pending_row 50000))))
            \<and> r \<in> set (contents (snd (generate_content calm_env 7 1 podcast_request
                                             (store_with pending_row 50000))))
            \<and> project r = 1 \<and> content_type r = ''POD'' \<and> task_status r = PENDING)
   \<and> fst (generate_content_task calm_env 2 podcast_options (store_with podcast_row 50000))
       = Inl (ValueError ''Content generation failed.'')
   \<and> row_with 2 (contents (snd (generate_content_task calm_env 2 podcast_options
                                   (store_with podcast_row 50000))))
       = [podcast_row\<lparr>task_status := FAILURE\<rparr>]"
proof -
  let ?w = "store_with pending_row 50000"
  let ?w' = "store_with podcast_row 50000"
  have f: "fails calm_env = (\<lambda>op. None)"
    by (simp add: calm_env_def)
  have h1: "fst (get_object calm_env 7 1 (projects ?w)) = Inr notes_project"
    by (simp add: get_object_def eval_env eval_store eval_io objects_get_def)
  have h2: "fst (fst (profile_get_or_create calm_env (user notes_project) (profiles ?w)))
              = Inr (\<lparr>profile_user = 7, token_balance = 50000\<rparr>, False)"
    by (simp add: eval_env eval_store eval_io eval_job)
  have h3: "900 \<le> token_balance \<lparr>profile_user = 7, token_balance = 50000\<rparr>"
    by simp
  have h4: "map_of podcast_request ''content_type'' = Some (VStr PODCAST)"
    by (simp add: podcast_request_def PODCAST_def)
  have h5: "PodcastGenerateSerializer calm_env podcast_request = Inr podcast_options"
    by (simp add: PodcastGenerateSerializer_def validated3_def choice_field_def
          podcast_request_def podcast_options_def)
  have h6: "fails calm_env (DbContentUpdateOrCreate (project_id notes_project) PODCAST) = None"
    by (simp add: f)
  have h7: "length (rows_of_kind (project_id notes_project) PODCAST (contents ?w)) \<le> 1"
    by (simp add: rows_of_kind_def eval_store PODCAST_def)
  have h8: "\<forall>j. fails calm_env (Delay j podcast_options) = None"
    and h9: "\<forall>r. fails calm_env (DbContentSave r) = None"
    by (simp_all add: f)
  have bt: "before_try calm_env 2 ?w' = (Inr (podcast_row, notes_project), snd (before_try calm_env 2 ?w'))"
    by (simp add: eval_env eval_store eval_io eval_job podcast_row_def)
  have k: "content_type podcast_row = PODCAST"
    by (simp add: podcast_row_def PODCAST_def)
  have d: "fst (download_file_from_s3 calm_env (s3_file_key notes_project))
             = Inr ''/tmp/downloads/notes.pdf''"
    by (simp add: eval_env eval_store eval_io eval_job eval_strings)
  have x: "fst (extract_text_from_file calm_env ''/tmp/downloads/notes.pdf'')
             = Inr (text_of ''Cells divide.'')"
    by (simp add: eval_env eval_io eval_job eval_strings)
  have t: "py_strip (text_of ''Cells divide.'') \<noteq> []"
    by (simp add: py_strip_def is_space_def text_of_def)
  have s: "fails calm_env (DbContentSave (podcast_row\<lparr>task_status := FAILURE\<rparr>)) = None"
    by (simp add: f)
  note inst = podcast_request_fails_in_job
         [where e = calm_env and u = 7 and pk = 1 and w = ?w and proj = notes_project
            and p = "\<lparr>profile_user = 7, token_balance = 50000\<rparr>" and c = False
            and data = podcast_request and opts = podcast_options
            and i = 2 and w' = ?w' and cr = podcast_row and proj' = notes_project
            and ?w1.0 = "snd (before_try calm_env 2 ?w')"
            and local = "''/tmp/downloads/notes.pdf''" and t = "text_of ''Cells divide.''"
            and gopts = podcast_options]
  from inst h1 h2 h3 h4 h5 h6 h7 h8 h9
  have a: "\<exists>tid r. fst (generate_content calm_env 7 1 podcast_request ?w)
                      = Inr (accepted_response PODCAST tid (row_id r))
                  \<and> Delay (row_id r) podcast_options
                      \<in> set (trace_of (snd (generate_content calm_env 7 1 podcast_request ?w)))
                  \<and> r \<in> set (contents (snd (generate_content calm_env 7 1 podcast_request ?w)))
                  \<and> project r = 1 \<and> content_type r = PODCAST \<and> task_status r = PENDING"
    by blast
  from inst bt k d x t s
  have b: "fst (generate_content_task calm_env 2 podcast_options ?w')
             = Inl (ValueError ''Content generation failed.'')
           \<and> row_with 2 (contents (snd (generate_content_task calm_env 2 podcast_options ?w')))
               = [podcast_row\<lparr>task_status := FAILURE\<rparr>]"
    by blast
  from a b show ?thesis
    unfolding PODCAST_def by (rule conjI)
qed

end
